theory Spec2Isabelle
  imports Main "HOL-Library.AList"
begin

section \<open>JavaScript values\<close>

text \<open>
  The values that travel through the adapters: JSON scalars and plain objects. A JavaScript
  object is a finite map from property names to values; a property that is absent reads as
  \<^verbatim>\<open>undefined\<close>, so \<open>jsval option\<close> is "a value or undefined". Numbers are only stored,
  tested for truthiness and interpolated into keys, and are taken to be integers that a
  JavaScript number holds and prints exactly (of magnitude below 2^53; beyond, the digits
  that JavaScript prints are not those of the integer, and from 10^21 it prints an exponent).
  A string is the list of the bytes of its UTF-8 encoding. Arrays are left out.
\<close>

datatype jsval = JNull | JBool bool | JNum int | JStr string | JObj "(string \<times> jsval) list"

type_synonym obj = "string \<rightharpoonup> jsval"

fun truthy :: "jsval option \<Rightarrow> bool" where
  "truthy None = False"
| "truthy (Some JNull) = False"
| "truthy (Some (JBool b)) = b"
| "truthy (Some (JNum n)) = (n \<noteq> 0)"
| "truthy (Some (JStr s)) = (s \<noteq> [])"
| "truthy (Some (JObj m)) = True"

text \<open>\<^verbatim>\<open>a || b\<close>\<close>

definition js_or :: "jsval option \<Rightarrow> jsval option \<Rightarrow> jsval option" where
  "js_or a b = (if truthy a then a else b)"

text \<open>\<^verbatim>\<open>a !== b\<close> is \<open>\<not> strict_eq a b\<close>: scalars compare by value, an object is equal only
  to itself, and the two sides of every comparison in the adapters are distinct objects.\<close>

fun strict_eq :: "jsval option \<Rightarrow> jsval option \<Rightarrow> bool" where
  "strict_eq (Some (JObj m)) b = False"
| "strict_eq a (Some (JObj m)) = False"
| "strict_eq a b = (a = b)"

definition digit_char :: "nat \<Rightarrow> char" where
  "digit_char n = char_of (48 + n)"

function digits :: "nat \<Rightarrow> string" where
  "digits n = (if n < 10 then [digit_char n] else digits (n div 10) @ [digit_char (n mod 10)])"
  by pat_completeness auto
termination
  by (relation "measure id") auto

text \<open>String conversion, as a template literal \<^verbatim>\<open>`${v}`\<close> performs it.\<close>

fun toString :: "jsval option \<Rightarrow> string" where
  "toString None = ''undefined''"
| "toString (Some JNull) = ''null''"
| "toString (Some (JBool b)) = (if b then ''true'' else ''false'')"
| "toString (Some (JNum n)) = (if n < 0 then ''-'' @ digits (nat (- n)) else digits (nat n))"
| "toString (Some (JStr s)) = s"
| "toString (Some (JObj m)) = ''[object Object]''"

text \<open>An object literal \<^verbatim>\<open>{k1: v1, ...}\<close>; a property whose value is undefined is absent.\<close>

fun object :: "(string \<times> jsval option) list \<Rightarrow> obj" where
  "object [] = Map.empty"
| "object ((k, v) # kvs) = (\<lambda>x. if x = k then v else object kvs x)"

text \<open>Errors: a plain \<^verbatim>\<open>Error\<close> with its message, or an error of the AWS SDK with its code.\<close>

datatype error = Error string | AWSError string

section \<open>The DynamoDB document client\<close>

text \<open>
  The table of \<^verbatim>\<open>db/init.js\<close>: key schema \<^verbatim>\<open>pk\<close> (HASH) and \<^verbatim>\<open>sk\<close> (RANGE), both of
  type S. It is an association list from the key pair to the item, with at most one item per
  key; the order of the list stands for the table's scan order. A request whose key is not a
  pair of strings, that assigns to a key attribute, that names an index the table does not
  have, or that touches one item twice in a transaction, is rejected with
  \<^verbatim>\<open>ValidationException\<close>. An update expression is the list of the assignments of its SET
  clause, each an attribute name and the placeholder whose value it reads from the expression
  attribute values; the request is rejected as well when the expression is not one the store
  accepts (see \<open>update_expression_ok\<close>).

  The state also records the table after every write request that succeeded: \<open>commits\<close> is
  the sequence of stored states another reader could have observed.
\<close>

type_synonym key = "string \<times> string"
type_synonym item = obj
type_synonym table = "(key \<times> item) list"

record db =
  tbl :: table
  indexes :: "string list"
  commits :: "table list"

definition item_key :: "obj \<Rightarrow> key option" where
  "item_key it = (case (it ''pk'', it ''sk'') of
      (Some (JStr p), Some (JStr s)) \<Rightarrow> Some (p, s)
    | _ \<Rightarrow> None)"

definition commit :: "table \<Rightarrow> db \<Rightarrow> db" where
  "commit t d = d\<lparr>tbl := t, commits := commits d @ [t]\<rparr>"

definition ValidationException :: error where
  "ValidationException = AWSError ''ValidationException''"

definition TransactionCanceledException :: error where
  "TransactionCanceledException = AWSError ''TransactionCanceledException''"

definition dynamoDb_get :: "obj \<Rightarrow> db \<Rightarrow> error + item option" where
  "dynamoDb_get Key d = (case item_key Key of
      None \<Rightarrow> Inl ValidationException
    | Some k \<Rightarrow> Inr (map_of (tbl d) k))"

text \<open>\<^verbatim>\<open>KeyConditionExpression: "pk = :pk AND begins_with(sk, :sk)"\<close>, or \<^verbatim>\<open>"pk = :pk"\<close>
  alone (no prefix), on the table or on a named index. An index, where the table has it, is
  taken to be keyed by \<^verbatim>\<open>pk\<close> and to project every attribute. The items come in the
  order of the table (DynamoDB sorts them by sort key; no statement below depends on the
  order).\<close>

definition begins_with :: "string \<Rightarrow> string \<Rightarrow> bool" where
  "begins_with s p = (take (length p) s = p)"

definition dynamoDb_query :: "string option \<Rightarrow> string \<Rightarrow> string option \<Rightarrow> db \<Rightarrow> error + item list" where
  "dynamoDb_query IndexName pkv skprefix d =
     (if (case IndexName of None \<Rightarrow> False | Some i \<Rightarrow> i \<notin> set (indexes d))
      then Inl ValidationException
      else Inr (map snd (filter (\<lambda>(k, it). fst k = pkv \<and>
                  (case skprefix of None \<Rightarrow> True | Some p \<Rightarrow> begins_with (snd k) p)) (tbl d))))"

text \<open>The condition expressions the adapters use: \<^verbatim>\<open>attribute_not_exists(a1) AND ...\<close>,
  evaluated on the item already stored under the key of the request (no item: no attribute
  exists).\<close>

datatype cond = attribute_not_exists "string list"

datatype txitem = Put item "cond option" | Delete obj

fun txitem_key :: "txitem \<Rightarrow> key option" where
  "txitem_key (Put it c) = item_key it"
| "txitem_key (Delete Key) = item_key Key"

fun cond_ok :: "table \<Rightarrow> txitem \<Rightarrow> bool" where
  "cond_ok t (Put it None) = True"
| "cond_ok t (Put it (Some (attribute_not_exists as))) =
     (case item_key it of None \<Rightarrow> True
      | Some k \<Rightarrow> (case map_of t k of None \<Rightarrow> True
                   | Some old \<Rightarrow> list_all (\<lambda>a. old a = None) as))"
| "cond_ok t (Delete Key) = True"

fun apply_txitem :: "txitem \<Rightarrow> table \<Rightarrow> table" where
  "apply_txitem (Put it c) t = (case item_key it of None \<Rightarrow> t | Some k \<Rightarrow> AList.update k it t)"
| "apply_txitem (Delete Key) t = (case item_key Key of None \<Rightarrow> t | Some k \<Rightarrow> AList.delete k t)"

definition dynamoDb_transactWrite :: "txitem list \<Rightarrow> db \<Rightarrow> (error + unit) \<times> db" where
  "dynamoDb_transactWrite TransactItems d =
     (if list_ex (\<lambda>w. txitem_key w = None) TransactItems then (Inl ValidationException, d)
      else if \<not> distinct (map txitem_key TransactItems) then (Inl ValidationException, d)
      else if \<not> list_all (cond_ok (tbl d)) TransactItems then (Inl TransactionCanceledException, d)
      else (Inr (), commit (fold apply_txitem TransactItems (tbl d)) d))"

definition dynamoDb_put :: "item \<Rightarrow> db \<Rightarrow> (error + unit) \<times> db" where
  "dynamoDb_put Item d = (case item_key Item of
      None \<Rightarrow> (Inl ValidationException, d)
    | Some k \<Rightarrow> (Inr (), commit (AList.update k Item (tbl d)) d))"

text \<open>
  The words that DynamoDB reserves: an expression may not use one of them as an attribute
  name, in whatever case it is written, unless through a \<^verbatim>\<open>#\<close> placeholder (which the
  adapters never use).
\<close>

definition reserved_words :: "string list" where
  "reserved_words = [
    ''ABORT'', ''ABSOLUTE'', ''ACTION'', ''ADD'', ''AFTER'', ''AGENT'', ''AGGREGATE'', ''ALL'',
    ''ALLOCATE'', ''ALTER'', ''ANALYZE'', ''AND'', ''ANY'', ''ARCHIVE'', ''ARE'', ''ARRAY'',
    ''AS'', ''ASC'', ''ASCII'', ''ASENSITIVE'', ''ASSERTION'', ''ASYMMETRIC'', ''AT'',
    ''ATOMIC'', ''ATTACH'', ''ATTRIBUTE'', ''AUTH'', ''AUTHORIZATION'', ''AUTHORIZE'',
    ''AUTO'', ''AVG'', ''BACK'', ''BACKUP'', ''BASE'', ''BATCH'', ''BEFORE'', ''BEGIN'',
    ''BETWEEN'', ''BIGINT'', ''BINARY'', ''BIT'', ''BLOB'', ''BLOCK'', ''BOOLEAN'', ''BOTH'',
    ''BREADTH'', ''BUCKET'', ''BULK'', ''BY'', ''BYTE'', ''CALL'', ''CALLED'', ''CALLING'',
    ''CAPACITY'', ''CASCADE'', ''CASCADED'', ''CASE'', ''CAST'', ''CATALOG'', ''CHAR'',
    ''CHARACTER'', ''CHECK'', ''CLASS'', ''CLOB'', ''CLOSE'', ''CLUSTER'', ''CLUSTERED'',
    ''CLUSTERING'', ''CLUSTERS'', ''COALESCE'', ''COLLATE'', ''COLLATION'', ''COLLECTION'',
    ''COLUMN'', ''COLUMNS'', ''COMBINE'', ''COMMENT'', ''COMMIT'', ''COMPACT'', ''COMPILE'',
    ''COMPRESS'', ''CONDITION'', ''CONFLICT'', ''CONNECT'', ''CONNECTION'', ''CONSISTENCY'',
    ''CONSISTENT'', ''CONSTRAINT'', ''CONSTRAINTS'', ''CONSTRUCTOR'', ''CONSUMED'',
    ''CONTINUE'', ''CONVERT'', ''COPY'', ''CORRESPONDING'', ''COUNT'', ''COUNTER'', ''CREATE'',
    ''CROSS'', ''CUBE'', ''CURRENT'', ''CURSOR'', ''CYCLE'', ''DATA'', ''DATABASE'', ''DATE'',
    ''DATETIME'', ''DAY'', ''DEALLOCATE'', ''DEC'', ''DECIMAL'', ''DECLARE'', ''DEFAULT'',
    ''DEFERRABLE'', ''DEFERRED'', ''DEFINE'', ''DEFINED'', ''DEFINITION'', ''DELETE'',
    ''DELIMITED'', ''DEPTH'', ''DEREF'', ''DESC'', ''DESCRIBE'', ''DESCRIPTOR'', ''DETACH'',
    ''DETERMINISTIC'', ''DIAGNOSTICS'', ''DIRECTORIES'', ''DISABLE'', ''DISCONNECT'',
    ''DISTINCT'', ''DISTRIBUTE'', ''DO'', ''DOMAIN'', ''DOUBLE'', ''DROP'', ''DUMP'',
    ''DURATION'', ''DYNAMIC'', ''EACH'', ''ELEMENT'', ''ELSE'', ''ELSEIF'', ''EMPTY'',
    ''ENABLE'', ''END'', ''EQUAL'', ''EQUALS'', ''ERROR'', ''ESCAPE'', ''ESCAPED'', ''EVAL'',
    ''EVALUATE'', ''EXCEEDED'', ''EXCEPT'', ''EXCEPTION'', ''EXCEPTIONS'', ''EXCLUSIVE'',
    ''EXEC'', ''EXECUTE'', ''EXISTS'', ''EXIT'', ''EXPLAIN'', ''EXPLODE'', ''EXPORT'',
    ''EXPRESSION'', ''EXTENDED'', ''EXTERNAL'', ''EXTRACT'', ''FAIL'', ''FALSE'', ''FAMILY'',
    ''FETCH'', ''FIELDS'', ''FILE'', ''FILTER'', ''FILTERING'', ''FINAL'', ''FINISH'',
    ''FIRST'', ''FIXED'', ''FLATTERN'', ''FLOAT'', ''FOR'', ''FORCE'', ''FOREIGN'', ''FORMAT'',
    ''FORWARD'', ''FOUND'', ''FREE'', ''FROM'', ''FULL'', ''FUNCTION'', ''FUNCTIONS'',
    ''GENERAL'', ''GENERATE'', ''GET'', ''GLOB'', ''GLOBAL'', ''GO'', ''GOTO'', ''GRANT'',
    ''GREATER'', ''GROUP'', ''GROUPING'', ''HANDLER'', ''HASH'', ''HAVE'', ''HAVING'',
    ''HEAP'', ''HIDDEN'', ''HOLD'', ''HOUR'', ''IDENTIFIED'', ''IDENTITY'', ''IF'', ''IGNORE'',
    ''IMMEDIATE'', ''IMPORT'', ''IN'', ''INCLUDING'', ''INCLUSIVE'', ''INCREMENT'',
    ''INCREMENTAL'', ''INDEX'', ''INDEXED'', ''INDEXES'', ''INDICATOR'', ''INFINITE'',
    ''INITIALLY'', ''INLINE'', ''INNER'', ''INNTER'', ''INOUT'', ''INPUT'', ''INSENSITIVE'',
    ''INSERT'', ''INSTEAD'', ''INT'', ''INTEGER'', ''INTERSECT'', ''INTERVAL'', ''INTO'',
    ''INVALIDATE'', ''IS'', ''ISOLATION'', ''ITEM'', ''ITEMS'', ''ITERATE'', ''JOIN'', ''KEY'',
    ''KEYS'', ''LAG'', ''LANGUAGE'', ''LARGE'', ''LAST'', ''LATER'', ''LATERAL'', ''LEAD'',
    ''LEADING'', ''LEAVE'', ''LEFT'', ''LENGTH'', ''LESS'', ''LEVEL'', ''LIKE'', ''LIMIT'',
    ''LIMITED'', ''LINES'', ''LIST'', ''LOAD'', ''LOCAL'', ''LOCALTIME'', ''LOCALTIMESTAMP'',
    ''LOCATION'', ''LOCATOR'', ''LOCK'', ''LOCKS'', ''LOG'', ''LOGED'', ''LONG'', ''LOOP'',
    ''LOWER'', ''MAP'', ''MATCH'', ''MATERIALIZED'', ''MAX'', ''MAXLEN'', ''MEMBER'',
    ''MERGE'', ''METHOD'', ''METRICS'', ''MIN'', ''MINUS'', ''MINUTE'', ''MISSING'', ''MOD'',
    ''MODE'', ''MODIFIES'', ''MODIFY'', ''MODULE'', ''MONTH'', ''MULTI'', ''MULTISET'',
    ''NAME'', ''NAMES'', ''NATIONAL'', ''NATURAL'', ''NCHAR'', ''NCLOB'', ''NEW'', ''NEXT'',
    ''NO'', ''NONE'', ''NOT'', ''NULL'', ''NULLIF'', ''NUMBER'', ''NUMERIC'', ''OBJECT'',
    ''OF'', ''OFFLINE'', ''OFFSET'', ''OLD'', ''ON'', ''ONLINE'', ''ONLY'', ''OPAQUE'',
    ''OPEN'', ''OPERATOR'', ''OPTION'', ''OR'', ''ORDER'', ''ORDINALITY'', ''OTHER'',
    ''OTHERS'', ''OUT'', ''OUTER'', ''OUTPUT'', ''OVER'', ''OVERLAPS'', ''OVERRIDE'',
    ''OWNER'', ''PAD'', ''PARALLEL'', ''PARAMETER'', ''PARAMETERS'', ''PARTIAL'',
    ''PARTITION'', ''PARTITIONED'', ''PARTITIONS'', ''PATH'', ''PERCENT'', ''PERCENTILE'',
    ''PERMISSION'', ''PERMISSIONS'', ''PIPE'', ''PIPELINED'', ''PLAN'', ''POOL'', ''POSITION'',
    ''PRECISION'', ''PREPARE'', ''PRESERVE'', ''PRIMARY'', ''PRIOR'', ''PRIVATE'',
    ''PRIVILEGES'', ''PROCEDURE'', ''PROCESSED'', ''PROJECT'', ''PROJECTION'', ''PROPERTY'',
    ''PROVISIONING'', ''PUBLIC'', ''PUT'', ''QUERY'', ''QUIT'', ''QUORUM'', ''RAISE'',
    ''RANDOM'', ''RANGE'', ''RANK'', ''RAW'', ''READ'', ''READS'', ''REAL'', ''REBUILD'',
    ''RECORD'', ''RECURSIVE'', ''REDUCE'', ''REF'', ''REFERENCE'', ''REFERENCES'',
    ''REFERENCING'', ''REGEXP'', ''REGION'', ''REINDEX'', ''RELATIVE'', ''RELEASE'',
    ''REMAINDER'', ''RENAME'', ''REPEAT'', ''REPLACE'', ''REQUEST'', ''RESET'', ''RESIGNAL'',
    ''RESOURCE'', ''RESPONSE'', ''RESTORE'', ''RESTRICT'', ''RESULT'', ''RETURN'',
    ''RETURNING'', ''RETURNS'', ''REVERSE'', ''REVOKE'', ''RIGHT'', ''ROLE'', ''ROLES'',
    ''ROLLBACK'', ''ROLLUP'', ''ROUTINE'', ''ROW'', ''ROWS'', ''RULE'', ''RULES'', ''SAMPLE'',
    ''SATISFIES'', ''SAVE'', ''SAVEPOINT'', ''SCAN'', ''SCHEMA'', ''SCOPE'', ''SCROLL'',
    ''SEARCH'', ''SECOND'', ''SECTION'', ''SEGMENT'', ''SEGMENTS'', ''SELECT'', ''SELF'',
    ''SEMI'', ''SENSITIVE'', ''SEPARATE'', ''SEQUENCE'', ''SERIALIZABLE'', ''SESSION'',
    ''SET'', ''SETS'', ''SHARD'', ''SHARE'', ''SHARED'', ''SHORT'', ''SHOW'', ''SIGNAL'',
    ''SIMILAR'', ''SIZE'', ''SKEWED'', ''SMALLINT'', ''SNAPSHOT'', ''SOME'', ''SOURCE'',
    ''SPACE'', ''SPACES'', ''SPARSE'', ''SPECIFIC'', ''SPECIFICTYPE'', ''SPLIT'', ''SQL'',
    ''SQLCODE'', ''SQLERROR'', ''SQLEXCEPTION'', ''SQLSTATE'', ''SQLWARNING'', ''START'',
    ''STATE'', ''STATIC'', ''STATISTICS'', ''STORE'', ''STORED'', ''STREAM'', ''STRING'',
    ''STRUCT'', ''STYLE'', ''SUB'', ''SUBMULTISET'', ''SUBPARTITION'', ''SUBSTRING'',
    ''SUBTYPE'', ''SUM'', ''SUPER'', ''SYMMETRIC'', ''SYNONYM'', ''SYSTEM'', ''TABLE'',
    ''TABLESAMPLE'', ''TEMP'', ''TEMPORARY'', ''TERMINATED'', ''TEXT'', ''THAN'', ''THEN'',
    ''THROUGHPUT'', ''TIME'', ''TIMESTAMP'', ''TIMEZONE'', ''TINYINT'', ''TO'', ''TOKEN'',
    ''TOTAL'', ''TOUCH'', ''TRAILING'', ''TRANSACTION'', ''TRANSFORM'', ''TRANSLATE'',
    ''TRANSLATION'', ''TREAT'', ''TRIGGER'', ''TRIM'', ''TRUE'', ''TRUNCATE'', ''TTL'',
    ''TUPLE'', ''TYPE'', ''UNDER'', ''UNDO'', ''UNION'', ''UNIQUE'', ''UNIT'', ''UNKNOWN'',
    ''UNLOGGED'', ''UNNEST'', ''UNPROCESSED'', ''UNSIGNED'', ''UNTIL'', ''UPDATE'', ''UPPER'',
    ''URL'', ''USAGE'', ''USE'', ''USER'', ''USERS'', ''USING'', ''UUID'', ''VACUUM'',
    ''VALUE'', ''VALUED'', ''VALUES'', ''VARCHAR'', ''VARIABLE'', ''VARIANCE'', ''VARINT'',
    ''VARYING'', ''VIEW'', ''VIEWS'', ''VIRTUAL'', ''VOID'', ''WAIT'', ''WHEN'', ''WHENEVER'',
    ''WHERE'', ''WHILE'', ''WINDOW'', ''WITH'', ''WITHIN'', ''WITHOUT'', ''WORK'', ''WRAPPED'',
    ''WRITE'', ''YEAR'', ''ZONE'']"

definition is_letter :: "char \<Rightarrow> bool" where
  "is_letter c = ((65 \<le> (of_char c :: nat) \<and> (of_char c :: nat) \<le> 90)
                 \<or> (97 \<le> (of_char c :: nat) \<and> (of_char c :: nat) \<le> 122))"

definition is_digit :: "char \<Rightarrow> bool" where
  "is_digit c = (48 \<le> (of_char c :: nat) \<and> (of_char c :: nat) \<le> 57)"

definition upper :: "char \<Rightarrow> char" where
  "upper c = (if 97 \<le> (of_char c :: nat) \<and> (of_char c :: nat) \<le> 122
              then char_of (of_char c - 32 :: nat) else c)"

text \<open>
  What the store accepts as an update expression. An attribute name that is written into the
  expression as it is must begin with a letter, go on with letters and digits, and not be a
  reserved word. A value placeholder is a colon followed by letters, digits or underscores,
  and the expression attribute values must define it. No attribute may be assigned twice
  (the store reports that two document paths overlap). The adapters define exactly the
  placeholders that their expression uses, so that the keys of the expression attribute values
  are checked here through the assignments.
\<close>

definition attribute_name_ok :: "string \<Rightarrow> bool" where
  "attribute_name_ok a =
     (a \<noteq> [] \<and> is_letter (hd a) \<and> list_all (\<lambda>c. is_letter c \<or> is_digit c) (tl a)
      \<and> map upper a \<notin> set reserved_words)"

definition placeholder_ok :: "string \<Rightarrow> bool" where
  "placeholder_ok p =
     (p \<noteq> [] \<and> hd p = CHR '':'' \<and> tl p \<noteq> []
      \<and> list_all (\<lambda>c. is_letter c \<or> is_digit c \<or> c = CHR ''_'') (tl p))"

definition update_expression_ok :: "(string \<times> string) list \<Rightarrow> obj \<Rightarrow> bool" where
  "update_expression_ok sets vals =
     (list_all (\<lambda>ap. attribute_name_ok (fst ap) \<and> placeholder_ok (snd ap) \<and> vals (snd ap) \<noteq> None) sets
      \<and> distinct (map fst sets))"

text \<open>\<^verbatim>\<open>update\<close> with \<^verbatim>\<open>ReturnValues: "ALL_NEW"\<close>: the assignments of the SET expression are
  applied to the stored item (to the bare key when there is none), and the new item is
  returned.\<close>

definition assign :: "obj \<Rightarrow> string \<times> string \<Rightarrow> item \<Rightarrow> item" where
  "assign vals ap it = it(fst ap := vals (snd ap))"

definition dynamoDb_update :: "obj \<Rightarrow> (string \<times> string) list \<Rightarrow> obj \<Rightarrow> db \<Rightarrow> (error + item) \<times> db" where
  "dynamoDb_update Key sets vals d = (case item_key Key of
      None \<Rightarrow> (Inl ValidationException, d)
    | Some k \<Rightarrow>
        if list_ex (\<lambda>ap. fst ap = ''pk'' \<or> fst ap = ''sk'') sets then (Inl ValidationException, d)
        else if \<not> update_expression_ok sets vals then (Inl ValidationException, d)
        else let old = (case map_of (tbl d) k of None \<Rightarrow> Key | Some it \<Rightarrow> it);
                 new = fold (assign vals) sets old
             in (Inr new, commit (AList.update k new (tbl d)) d))"

text \<open>
  \<^verbatim>\<open>scan\<close> with a filter on the prefixes of \<^verbatim>\<open>pk\<close> and \<^verbatim>\<open>sk\<close>, a \<^verbatim>\<open>Limit\<close> and
  an optional \<^verbatim>\<open>ExclusiveStartKey\<close>. The start key is an object of strings; it must have
  exactly the attributes \<^verbatim>\<open>pk\<close> and \<^verbatim>\<open>sk\<close>. The scan evaluates at most \<^verbatim>\<open>Limit\<close>
  items after the item of the start key, in the order of the table, returns those that pass
  the filter, and returns the key of the last item it evaluated when it stopped at the limit.
  The order of the list says where a stored item lies, not where a key without an item
  would: a start key under which no item is stored is taken to lie at the end of the table,
  while the store resumes from the place of that key in its own order. The statements below
  resume from keys of stored items only.
\<close>

definition start_key_of :: "(string \<times> string) list \<Rightarrow> key option" where
  "start_key_of ms =
     (if set (map fst ms) = {''pk'', ''sk''}
      then (case (map_of (rev ms) ''pk'', map_of (rev ms) ''sk'') of
              (Some p, Some s) \<Rightarrow> Some (p, s)
            | _ \<Rightarrow> None)
      else None)"

definition rows_after :: "key option \<Rightarrow> table \<Rightarrow> table" where
  "rows_after start t = (case start of
      None \<Rightarrow> t
    | Some k \<Rightarrow> tl (dropWhile (\<lambda>kv. fst kv \<noteq> k) t))"

definition scan_page :: "string \<Rightarrow> string \<Rightarrow> nat \<Rightarrow> table \<Rightarrow> item list \<times> key option" where
  "scan_page pkprefix skprefix n rows =
     (map snd (filter (\<lambda>kv. begins_with (fst (fst kv)) pkprefix \<and> begins_with (snd (fst kv)) skprefix)
                 (take n rows)),
      if n \<le> length rows then Some (fst (last (take n rows))) else None)"

definition dynamoDb_scan ::
  "string \<Rightarrow> string \<Rightarrow> int \<Rightarrow> (string \<times> string) list option \<Rightarrow> db \<Rightarrow> error + item list \<times> key option" where
  "dynamoDb_scan pkprefix skprefix Limit ExclusiveStartKey d =
     (if Limit < 1 then Inl ValidationException
      else (case ExclusiveStartKey of
              None \<Rightarrow> Inr (scan_page pkprefix skprefix (nat Limit) (tbl d))
            | Some ms \<Rightarrow>
                (case start_key_of ms of
                   None \<Rightarrow> Inl ValidationException
                 | Some k \<Rightarrow> Inr (scan_page pkprefix skprefix (nat Limit) (rows_after (Some k) (tbl d))))))"

section \<open>Buffer and JSON\<close>

text \<open>
  Strings are the lists of their UTF-8 bytes, so \<^verbatim>\<open>Buffer.from(s)\<close> and
  \<^verbatim>\<open>buf.toString()\<close> do nothing to a well-formed string (the replacement of malformed
  sequences is not modelled). \<^verbatim>\<open>toString("base64")\<close> is the standard encoding with
  padding; \<^verbatim>\<open>Buffer.from(s, "base64")\<close> is lenient: it skips the characters outside the
  alphabet (to which \<open>-\<close> and \<open>_\<close> belong), stops at the first \<open>=\<close> and drops a
  trailing sextet that completes no byte.
\<close>

definition b64_char :: "nat \<Rightarrow> char" where
  "b64_char n = (if n < 26 then char_of (65 + n)
                 else if n < 52 then char_of (71 + n)
                 else if n < 62 then char_of (n - 4)
                 else if n = 62 then CHR ''+'' else CHR ''/'')"

definition unbase64 :: "char \<Rightarrow> nat option" where
  "unbase64 c = (let n = (of_char c :: nat) in
     if 65 \<le> n \<and> n \<le> 90 then Some (n - 65)
     else if 97 \<le> n \<and> n \<le> 122 then Some (n - 71)
     else if 48 \<le> n \<and> n \<le> 57 then Some (n + 4)
     else if c = CHR ''+'' \<or> c = CHR ''-'' then Some 62
     else if c = CHR ''/'' \<or> c = CHR ''_'' then Some 63
     else None)"

fun sextets_of_bytes :: "nat list \<Rightarrow> nat list" where
  "sextets_of_bytes (a # b # c # bs) =
     [a div 4, (a mod 4) * 16 + b div 16, (b mod 16) * 4 + c div 64, c mod 64] @ sextets_of_bytes bs"
| "sextets_of_bytes [a, b] = [a div 4, (a mod 4) * 16 + b div 16, (b mod 16) * 4]"
| "sextets_of_bytes [a] = [a div 4, (a mod 4) * 16]"
| "sextets_of_bytes [] = []"

fun bytes_of_sextets :: "nat list \<Rightarrow> nat list" where
  "bytes_of_sextets (s1 # s2 # s3 # s4 # ss) =
     [s1 * 4 + s2 div 16, (s2 mod 16) * 16 + s3 div 4, (s3 mod 4) * 64 + s4] @ bytes_of_sextets ss"
| "bytes_of_sextets [s1, s2, s3] = [s1 * 4 + s2 div 16, (s2 mod 16) * 16 + s3 div 4]"
| "bytes_of_sextets [s1, s2] = [s1 * 4 + s2 div 16]"
| "bytes_of_sextets [s1] = []"
| "bytes_of_sextets [] = []"

definition base64_encode :: "string \<Rightarrow> string" where
  "base64_encode s =
     map b64_char (sextets_of_bytes (map of_char s))
     @ replicate ((3 - length s mod 3) mod 3) CHR ''=''"

definition base64_decode :: "string \<Rightarrow> string" where
  "base64_decode s =
     map char_of (bytes_of_sextets (List.map_filter unbase64 (takeWhile (\<lambda>c. c \<noteq> CHR ''='') s)))"

text \<open>
  \<^verbatim>\<open>JSON.stringify\<close> and \<^verbatim>\<open>JSON.parse\<close> on the objects that travel in a cursor: objects
  whose members are strings. \<open>JSON_stringify\<close> quotes as ECMAScript does (the quote, the
  backslash and the control characters below U+0020 are escaped, everything else is copied).
  \<open>JSON_parse\<close> reads the JSON texts of such objects, with insignificant whitespace and
  every escape but surrogate code units; \<open>None\<close> stands for the \<^verbatim>\<open>SyntaxError\<close>, and also
  for a text with a member that is not a string, which the scan would refuse as a start key.
\<close>

definition hex_char :: "nat \<Rightarrow> char" where
  "hex_char n = (if n < 10 then char_of (48 + n) else char_of (87 + n))"

definition hex_val :: "char \<Rightarrow> nat option" where
  "hex_val c = (let n = (of_char c :: nat) in
     if 48 \<le> n \<and> n \<le> 57 then Some (n - 48)
     else if 97 \<le> n \<and> n \<le> 102 then Some (n - 87)
     else if 65 \<le> n \<and> n \<le> 70 then Some (n - 55)
     else None)"

definition json_escape :: "char \<Rightarrow> string" where
  "json_escape c = (let n = (of_char c :: nat) in
     if n = 34 then [CHR 0x5C, CHR 0x22]
     else if n = 92 then [CHR 0x5C, CHR 0x5C]
     else if n = 8 then [CHR 0x5C, CHR ''b'']
     else if n = 12 then [CHR 0x5C, CHR ''f'']
     else if n = 10 then [CHR 0x5C, CHR ''n'']
     else if n = 13 then [CHR 0x5C, CHR ''r'']
     else if n = 9 then [CHR 0x5C, CHR ''t'']
     else if n < 32 then [CHR 0x5C, CHR ''u'', CHR ''0'', CHR ''0'', hex_char (n div 16), hex_char (n mod 16)]
     else [c])"

definition json_quote :: "string \<Rightarrow> string" where
  "json_quote s = CHR 0x22 # concat (map json_escape s) @ [CHR 0x22]"

fun json_members :: "(string \<times> string) list \<Rightarrow> string" where
  "json_members [] = []"
| "json_members [m] = json_quote (fst m) @ '':'' @ json_quote (snd m)"
| "json_members (m # ms) = json_quote (fst m) @ '':'' @ json_quote (snd m) @ '','' @ json_members ms"

definition JSON_stringify :: "(string \<times> string) list \<Rightarrow> string" where
  "JSON_stringify members = ''{'' @ json_members members @ ''}''"

definition simple_escape :: "char \<Rightarrow> char option" where
  "simple_escape e = (let n = (of_char e :: nat) in
     if n = 34 then Some (CHR 0x22)
     else if n = 92 then Some (CHR 0x5C)
     else if n = 47 then Some (CHR ''/'')
     else if n = 98 then Some (CHR 0x08)
     else if n = 102 then Some (CHR 0x0C)
     else if n = 110 then Some (CHR 0x0A)
     else if n = 114 then Some (CHR 0x0D)
     else if n = 116 then Some (CHR 0x09)
     else None)"

definition hex4 :: "char \<Rightarrow> char \<Rightarrow> char \<Rightarrow> char \<Rightarrow> nat option" where
  "hex4 a b c d = (case (hex_val a, hex_val b, hex_val c, hex_val d) of
      (Some w, Some x, Some y, Some z) \<Rightarrow> Some (((w * 16 + x) * 16 + y) * 16 + z)
    | _ \<Rightarrow> None)"

definition utf8_of_code_unit :: "nat \<Rightarrow> string option" where
  "utf8_of_code_unit n =
     (if n < 128 then Some [char_of n]
      else if n < 2048 then Some [char_of (192 + n div 64), char_of (128 + n mod 64)]
      else if 55296 \<le> n \<and> n < 57344 then None
      else Some [char_of (224 + n div 4096), char_of (128 + (n div 64) mod 64), char_of (128 + n mod 64)])"

fun parse_string_body :: "string \<Rightarrow> (string \<times> string) option" where
  "parse_string_body [] = None"
| "parse_string_body (c # cs) =
     (if (of_char c :: nat) = 34 then Some ([], cs)
      else if (of_char c :: nat) = 92 then
        (case cs of
           [] \<Rightarrow> None
         | e # rest \<Rightarrow>
             if (of_char e :: nat) = 117 then
               (case rest of
                  h1 # h2 # h3 # h4 # rest' \<Rightarrow>
                    (case Option.bind (hex4 h1 h2 h3 h4) utf8_of_code_unit of
                       None \<Rightarrow> None
                     | Some bytes \<Rightarrow>
                         (case parse_string_body rest' of
                            None \<Rightarrow> None
                          | Some (s, r) \<Rightarrow> Some (bytes @ s, r)))
                | _ \<Rightarrow> None)
             else
               (case simple_escape e of
                  None \<Rightarrow> None
                | Some ch \<Rightarrow>
                    (case parse_string_body rest of
                       None \<Rightarrow> None
                     | Some (s, r) \<Rightarrow> Some (ch # s, r))))
      else if (of_char c :: nat) < 32 then None
      else (case parse_string_body cs of
              None \<Rightarrow> None
            | Some (s, r) \<Rightarrow> Some (c # s, r)))"

lemma parse_string_body_shorter:
  "parse_string_body cs = Some (s, r) \<Longrightarrow> length r < length cs"
proof (induction cs arbitrary: s r rule: parse_string_body.induct)
  case 1
  then show ?case by simp
next
  case (2 c cs)
  then show ?case
    by (auto split: if_splits list.splits option.splits prod.splits) fastforce+
qed

datatype token = LBrace | RBrace | Colon | Comma | Str string

definition json_space :: "char \<Rightarrow> bool" where
  "json_space c = ((of_char c :: nat) = 32 \<or> (of_char c :: nat) = 9
                   \<or> (of_char c :: nat) = 10 \<or> (of_char c :: nat) = 13)"

function tokens :: "string \<Rightarrow> token list option" where
  "tokens [] = Some []"
| "tokens (c # cs) =
     (if json_space c then tokens cs
      else if (of_char c :: nat) = 123 then map_option (Cons LBrace) (tokens cs)
      else if (of_char c :: nat) = 125 then map_option (Cons RBrace) (tokens cs)
      else if (of_char c :: nat) = 58 then map_option (Cons Colon) (tokens cs)
      else if (of_char c :: nat) = 44 then map_option (Cons Comma) (tokens cs)
      else if (of_char c :: nat) = 34 then
        (case parse_string_body cs of
           None \<Rightarrow> None
         | Some (s, r) \<Rightarrow> map_option (Cons (Str s)) (tokens r))
      else None)"
  by pat_completeness auto
termination
  by (relation "measure length") (auto dest: parse_string_body_shorter)

fun members_of :: "token list \<Rightarrow> (string \<times> string) list option" where
  "members_of [Str k, Colon, Str v, RBrace] = Some [(k, v)]"
| "members_of (Str k # Colon # Str v # Comma # ts) = map_option (Cons (k, v)) (members_of ts)"
| "members_of ts = None"

definition JSON_parse :: "string \<Rightarrow> (string \<times> string) list option" where
  "JSON_parse text = (case tokens text of
      Some (LBrace # ts) \<Rightarrow> if ts = [RBrace] then Some [] else members_of ts
    | _ \<Rightarrow> None)"

section \<open>ProductModel (db/models/dynamodb/product.model.js)\<close>

text \<open>The fresh identifier (\<^verbatim>\<open>uuidv4()\<close>) and the timestamp (\<^verbatim>\<open>new Date().toISOString()\<close>)
  are arguments of the operations that draw them.\<close>

definition product_item :: "string \<Rightarrow> string \<Rightarrow> obj \<Rightarrow> string \<Rightarrow> item" where
  "product_item productId now productData userId = object
     [(''pk'', Some (JStr (''PRODUCT#'' @ productId))),
      (''sk'', Some (JStr (''DETAILS#'' @ productId))),
      (''id'', Some (JStr productId)),
      (''name'', productData ''name''),
      (''description'', js_or (productData ''description'') (Some JNull)),
      (''price'', productData ''price''),
      (''imageUrl'', js_or (productData ''imageUrl'') (Some JNull)),
      (''category'', js_or (productData ''category'') (Some JNull)),
      (''stock'', js_or (productData ''stock'') (Some (JNum 0))),
      (''isActive'', Some (JBool True)),
      (''userId'', Some (JStr userId)),
      (''createdAt'', Some (JStr now)),
      (''updatedAt'', Some (JStr now))]"

definition index_item :: "string \<Rightarrow> string \<Rightarrow> string \<Rightarrow> item" where
  "index_item pkv skv ident = object
     [(''pk'', Some (JStr pkv)), (''sk'', Some (JStr skv)), (''id'', Some (JStr ident))]"

definition key_obj :: "string \<Rightarrow> string \<Rightarrow> obj" where
  "key_obj pkv skv = object [(''pk'', Some (JStr pkv)), (''sk'', Some (JStr skv))]"

definition product_create_items :: "string \<Rightarrow> string \<Rightarrow> obj \<Rightarrow> string \<Rightarrow> txitem list" where
  "product_create_items productId now productData userId =
     [Put (product_item productId now productData userId) (Some (attribute_not_exists [''pk''])),
      Put (index_item (''USER#'' @ userId) (''PRODUCT#'' @ productId) productId)
          (Some (attribute_not_exists [''pk'', ''sk'']))]
     @ (if truthy (productData ''category'')
        then [Put (index_item (''CATEGORY#'' @ toString (productData ''category''))
                              (''PRODUCT#'' @ productId) productId) None]
        else [])"

definition ProductModel_create :: "string \<Rightarrow> string \<Rightarrow> obj \<Rightarrow> string \<Rightarrow> db \<Rightarrow> (error + item) \<times> db" where
  "ProductModel_create productId now productData userId d =
     (case dynamoDb_transactWrite (product_create_items productId now productData userId) d of
        (Inl e, d') \<Rightarrow> (Inl e, d')
      | (Inr u, d') \<Rightarrow> (Inr (product_item productId now productData userId), d'))"

definition ProductModel_findById :: "string \<Rightarrow> db \<Rightarrow> error + item option" where
  "ProductModel_findById productId d =
     dynamoDb_get (key_obj (''PRODUCT#'' @ productId) (''DETAILS#'' @ productId)) d"

text \<open>The loop over the index records: each is resolved through \<open>findById\<close> with its
  \<^verbatim>\<open>id\<close> attribute, and kept only when a primary record comes back.\<close>

fun resolve_products :: "item list \<Rightarrow> db \<Rightarrow> error + item list" where
  "resolve_products [] d = Inr []"
| "resolve_products (it # its) d =
     (case ProductModel_findById (toString (it ''id'')) d of
        Inl e \<Rightarrow> Inl e
      | Inr product \<Rightarrow>
          (case resolve_products its d of
             Inl e \<Rightarrow> Inl e
           | Inr products \<Rightarrow>
               Inr ((case product of None \<Rightarrow> [] | Some p \<Rightarrow> [p]) @ products)))"

definition ProductModel_findByUserId :: "string \<Rightarrow> db \<Rightarrow> error + item list" where
  "ProductModel_findByUserId userId d =
     (case dynamoDb_query None (''USER#'' @ userId) (Some ''PRODUCT#'') d of
        Inl e \<Rightarrow> Inl e
      | Inr Items \<Rightarrow> if Items = [] then Inr [] else resolve_products Items d)"

definition ProductModel_findByCategory :: "string \<Rightarrow> db \<Rightarrow> error + item list" where
  "ProductModel_findByCategory category d =
     (case dynamoDb_query None (''CATEGORY#'' @ category) (Some ''PRODUCT#'') d of
        Inl e \<Rightarrow> Inl e
      | Inr Items \<Rightarrow> if Items = [] then Inr [] else resolve_products Items d)"

text \<open>\<open>list\<close>: the cursor, when it is given (and not the empty string), is decoded into
  the start key of the scan; the key the scan returns is encoded into the next cursor. A
  cursor that does not decode to an object of strings is answered with an error; the one
  error \<^verbatim>\<open>SyntaxError\<close> stands both for the error of \<^verbatim>\<open>JSON.parse\<close> and for the
  \<^verbatim>\<open>ValidationException\<close> with which the scan refuses a start key whose members are not
  strings.\<close>

definition key_object :: "key \<Rightarrow> (string \<times> string) list" where
  "key_object k = [(''pk'', fst k), (''sk'', snd k)]"

definition encode_cursor :: "key \<Rightarrow> string" where
  "encode_cursor LastEvaluatedKey = base64_encode (JSON_stringify (key_object LastEvaluatedKey))"

definition parse_cursor :: "string \<Rightarrow> (string \<times> string) list option" where
  "parse_cursor lastEvaluatedKey = JSON_parse (base64_decode lastEvaluatedKey)"

definition ProductModel_list :: "int \<Rightarrow> string option \<Rightarrow> db \<Rightarrow> error + item list \<times> string option" where
  "ProductModel_list limit lastEvaluatedKey d =
     (case (case lastEvaluatedKey of
              None \<Rightarrow> Inr None
            | Some cursor \<Rightarrow>
                if cursor = [] then Inr None
                else (case parse_cursor cursor of
                        None \<Rightarrow> Inl (Error ''SyntaxError'')
                      | Some ms \<Rightarrow> Inr (Some ms))) of
        Inl e \<Rightarrow> Inl e
      | Inr ExclusiveStartKey \<Rightarrow>
          (case dynamoDb_scan ''PRODUCT#'' ''DETAILS#'' limit ExclusiveStartKey d of
             Inl e \<Rightarrow> Inl e
           | Inr (Items, LastEvaluatedKey) \<Rightarrow>
               Inr (Items, map_option encode_cursor LastEvaluatedKey)))"

text \<open>\<open>update\<close>: the patch is the list of the entries of \<^verbatim>\<open>updates\<close>, in the order of
  \<^verbatim>\<open>Object.entries\<close>. The loop extends the SET expression and the expression attribute
  values by every entry whose key is not protected.\<close>

type_synonym patch = "(string \<times> jsval) list"

definition product_patchable :: "string \<Rightarrow> bool" where
  "product_patchable k =
     (k \<noteq> ''id'' \<and> k \<noteq> ''userId'' \<and> k \<noteq> ''pk'' \<and> k \<noteq> ''sk'' \<and> k \<noteq> ''createdAt'')"

definition product_patch_entry ::
  "string \<times> jsval \<Rightarrow> (string \<times> string) list \<times> obj \<Rightarrow> (string \<times> string) list \<times> obj" where
  "product_patch_entry kv acc =
     (if product_patchable (fst kv)
      then (fst acc @ [(fst kv, '':'' @ fst kv)], (snd acc)('':'' @ fst kv \<mapsto> snd kv))
      else acc)"

definition product_update_expression :: "string \<Rightarrow> patch \<Rightarrow> (string \<times> string) list \<times> obj" where
  "product_update_expression now updates =
     fold product_patch_entry updates
       ([(''updatedAt'', '':updatedAt'')], object [('':updatedAt'', Some (JStr now))])"

text \<open>The category step of \<open>update\<close>: the write it issues before the primary record is
  patched.\<close>

definition product_category_step :: "string \<Rightarrow> patch \<Rightarrow> item \<Rightarrow> db \<Rightarrow> (error + unit) \<times> db" where
  "product_category_step productId updates product d =
     (if truthy (map_of updates ''category'')
         \<and> \<not> strict_eq (map_of updates ''category'') (product ''category'')
      then
        let newCategoryItem = index_item (''CATEGORY#'' @ toString (map_of updates ''category''))
                                         (''PRODUCT#'' @ productId) productId
        in if truthy (product ''category'')
           then dynamoDb_transactWrite
                  [Delete (key_obj (''CATEGORY#'' @ toString (product ''category''))
                                   (''PRODUCT#'' @ productId)),
                   Put newCategoryItem None] d
           else dynamoDb_put newCategoryItem d
      else (Inr (), d))"

definition ProductModel_update ::
  "string \<Rightarrow> patch \<Rightarrow> string \<Rightarrow> string \<Rightarrow> db \<Rightarrow> (error + item) \<times> db" where
  "ProductModel_update productId updates userId now d =
     (case ProductModel_findById productId d of
        Inl e \<Rightarrow> (Inl e, d)
      | Inr None \<Rightarrow> (Inl (Error ''Product not found''), d)
      | Inr (Some product) \<Rightarrow>
          if \<not> strict_eq (product ''userId'') (Some (JStr userId))
          then (Inl (Error ''Unauthorized to update this product''), d)
          else (case product_category_step productId updates product d of
                  (Inl e, d') \<Rightarrow> (Inl e, d')
                | (Inr u, d') \<Rightarrow>
                    dynamoDb_update (key_obj (''PRODUCT#'' @ productId) (''DETAILS#'' @ productId))
                      (fst (product_update_expression now updates))
                      (snd (product_update_expression now updates)) d'))"

definition product_delete_items :: "string \<Rightarrow> string \<Rightarrow> item \<Rightarrow> txitem list" where
  "product_delete_items productId userId product =
     [Delete (key_obj (''PRODUCT#'' @ productId) (''DETAILS#'' @ productId)),
      Delete (key_obj (''USER#'' @ userId) (''PRODUCT#'' @ productId))]
     @ (if truthy (product ''category'')
        then [Delete (key_obj (''CATEGORY#'' @ toString (product ''category''))
                              (''PRODUCT#'' @ productId))]
        else [])"

definition ProductModel_delete :: "string \<Rightarrow> string \<Rightarrow> db \<Rightarrow> (error + bool) \<times> db" where
  "ProductModel_delete productId userId d =
     (case ProductModel_findById productId d of
        Inl e \<Rightarrow> (Inl e, d)
      | Inr None \<Rightarrow> (Inl (Error ''Product not found''), d)
      | Inr (Some product) \<Rightarrow>
          if \<not> strict_eq (product ''userId'') (Some (JStr userId))
          then (Inl (Error ''Unauthorized to delete this product''), d)
          else (case dynamoDb_transactWrite (product_delete_items productId userId product) d of
                  (Inl e, d') \<Rightarrow> (Inl e, d')
                | (Inr u, d') \<Rightarrow> (Inr True, d')))"

section \<open>UserModel (db/models/dynamodb/user.model.js)\<close>

text \<open>
  \<^verbatim>\<open>bcryptjs\<close> is outside the repository: the hash function and the comparison are
  arguments (\<open>h\<close> and \<open>cmp\<close>), as is the salt that \<^verbatim>\<open>genSalt\<close> draws. Both functions raise
  "Illegal arguments" unless they are given strings.
\<close>

fun typeof :: "jsval option \<Rightarrow> string" where
  "typeof None = ''undefined''"
| "typeof (Some JNull) = ''object''"
| "typeof (Some (JBool b)) = ''boolean''"
| "typeof (Some (JNum n)) = ''number''"
| "typeof (Some (JStr s)) = ''string''"
| "typeof (Some (JObj m)) = ''object''"

definition bcrypt_hash :: "(string \<Rightarrow> string \<Rightarrow> string) \<Rightarrow> jsval option \<Rightarrow> string \<Rightarrow> error + string" where
  "bcrypt_hash h s salt = (case s of
      Some (JStr pw) \<Rightarrow> Inr (h pw salt)
    | _ \<Rightarrow> Inl (Error (''Illegal arguments: '' @ typeof s @ '', string'')))"

definition bcrypt_compare :: "(string \<Rightarrow> string \<Rightarrow> bool) \<Rightarrow> jsval option \<Rightarrow> jsval option \<Rightarrow> error + bool" where
  "bcrypt_compare cmp s hashed = (case (s, hashed) of
      (Some (JStr pw), Some (JStr hs)) \<Rightarrow> Inr (cmp pw hs)
    | _ \<Rightarrow> Inl (Error (''Illegal arguments: '' @ typeof s @ '', '' @ typeof hashed)))"

definition user_item :: "string \<Rightarrow> string \<Rightarrow> string \<Rightarrow> obj \<Rightarrow> item" where
  "user_item userId now hashedPassword userData = object
     [(''pk'', Some (JStr (''USER#'' @ userId))),
      (''sk'', Some (JStr (''PROFILE#'' @ userId))),
      (''id'', Some (JStr userId)),
      (''email'', userData ''email''),
      (''password'', Some (JStr hashedPassword)),
      (''firstName'', js_or (userData ''firstName'') (Some JNull)),
      (''lastName'', js_or (userData ''lastName'') (Some JNull)),
      (''profileImage'', js_or (userData ''profileImage'') (Some JNull)),
      (''role'', js_or (userData ''role'') (Some (JStr ''user''))),
      (''isActive'', Some (JBool True)),
      (''createdAt'', Some (JStr now)),
      (''updatedAt'', Some (JStr now))]"

definition user_create_items :: "string \<Rightarrow> string \<Rightarrow> string \<Rightarrow> obj \<Rightarrow> txitem list" where
  "user_create_items userId now hashedPassword userData =
     [Put (user_item userId now hashedPassword userData) (Some (attribute_not_exists [''pk''])),
      Put (index_item (''EMAIL#'' @ toString (userData ''email'')) (''USER#'' @ userId) userId)
          (Some (attribute_not_exists [''pk'']))]"

text \<open>\<^verbatim>\<open>const { password, ...userWithoutPassword } = item\<close>\<close>

definition without_password :: "item \<Rightarrow> item" where
  "without_password it = it(''password'' := None)"

definition UserModel_create ::
  "(string \<Rightarrow> string \<Rightarrow> string) \<Rightarrow> string \<Rightarrow> string \<Rightarrow> string \<Rightarrow> obj \<Rightarrow> db \<Rightarrow> (error + item) \<times> db" where
  "UserModel_create h userId now salt userData d =
     (case bcrypt_hash h (userData ''password'') salt of
        Inl e \<Rightarrow> (Inl e, d)
      | Inr hashedPassword \<Rightarrow>
          (case dynamoDb_transactWrite (user_create_items userId now hashedPassword userData) d of
             (Inr u, d') \<Rightarrow> (Inr (without_password (user_item userId now hashedPassword userData)), d')
           | (Inl e, d') \<Rightarrow>
               if e = AWSError ''TransactionCanceledException''
               then (Inl (Error ''User with this email already exists''), d')
               else (Inl e, d')))"

definition UserModel_findById :: "string \<Rightarrow> db \<Rightarrow> error + item option" where
  "UserModel_findById userId d =
     (case dynamoDb_get (key_obj (''USER#'' @ userId) (''PROFILE#'' @ userId)) d of
        Inl e \<Rightarrow> Inl e
      | Inr None \<Rightarrow> Inr None
      | Inr (Some Item) \<Rightarrow> Inr (Some (without_password Item)))"

text \<open>\<open>findByEmail\<close> asks \<^verbatim>\<open>get\<close> for the key
  \<^verbatim>\<open>{ pk: `EMAIL#${email}`, sk: { begins_with: "USER#" } }\<close>: the sort key is an object.\<close>

definition UserModel_findByEmail :: "jsval option \<Rightarrow> db \<Rightarrow> error + item option" where
  "UserModel_findByEmail email d =
     (case dynamoDb_get (object [(''pk'', Some (JStr (''EMAIL#'' @ toString email))),
                                 (''sk'', Some (JObj [(''begins_with'', JStr ''USER#'')]))]) d of
        Inl e \<Rightarrow> Inl e
      | Inr None \<Rightarrow> Inr None
      | Inr (Some Item) \<Rightarrow> UserModel_findById (toString (Item ''id'')) d)"

text \<open>\<open>update\<close>: the loop over the entries of the patch, then the password step, then one
  \<^verbatim>\<open>update\<close> request.\<close>

definition user_patchable :: "string \<Rightarrow> bool" where
  "user_patchable k = (k \<noteq> ''id'' \<and> k \<noteq> ''email'' \<and> k \<noteq> ''password'')"

definition user_patch_entry ::
  "string \<times> jsval \<Rightarrow> (string \<times> string) list \<times> obj \<Rightarrow> (string \<times> string) list \<times> obj" where
  "user_patch_entry kv acc =
     (if user_patchable (fst kv)
      then (fst acc @ [(fst kv, '':'' @ fst kv)], (snd acc)('':'' @ fst kv \<mapsto> snd kv))
      else acc)"

definition user_patch_loop :: "string \<Rightarrow> patch \<Rightarrow> (string \<times> string) list \<times> obj" where
  "user_patch_loop now updates =
     fold user_patch_entry updates
       ([(''updatedAt'', '':updatedAt'')], object [('':updatedAt'', Some (JStr now))])"

definition user_password_step ::
  "(string \<Rightarrow> string \<Rightarrow> string) \<Rightarrow> string \<Rightarrow> patch \<Rightarrow> (string \<times> string) list \<times> obj
     \<Rightarrow> error + (string \<times> string) list \<times> obj" where
  "user_password_step h salt updates acc =
     (if truthy (map_of updates ''password'')
      then (case bcrypt_hash h (map_of updates ''password'') salt of
              Inl e \<Rightarrow> Inl e
            | Inr hashedPassword \<Rightarrow>
                Inr (fst acc @ [(''password'', '':password'')],
                     (snd acc)('':password'' \<mapsto> JStr hashedPassword)))
      else Inr acc)"

definition UserModel_update ::
  "(string \<Rightarrow> string \<Rightarrow> string) \<Rightarrow> string \<Rightarrow> patch \<Rightarrow> string \<Rightarrow> string \<Rightarrow> db \<Rightarrow> (error + item) \<times> db" where
  "UserModel_update h userId updates now salt d =
     (case UserModel_findById userId d of
        Inl e \<Rightarrow> (Inl e, d)
      | Inr None \<Rightarrow> (Inl (Error ''User not found''), d)
      | Inr (Some user) \<Rightarrow>
          (case user_password_step h salt updates (user_patch_loop now updates) of
             Inl e \<Rightarrow> (Inl e, d)
           | Inr expr \<Rightarrow>
               (case dynamoDb_update (key_obj (''USER#'' @ userId) (''PROFILE#'' @ userId))
                       (fst expr) (snd expr) d of
                  (Inl e, d') \<Rightarrow> (Inl e, d')
                | (Inr Attributes, d') \<Rightarrow> (Inr (without_password Attributes), d'))))"

definition UserModel_delete :: "string \<Rightarrow> db \<Rightarrow> (error + bool) \<times> db" where
  "UserModel_delete userId d =
     (case UserModel_findById userId d of
        Inl e \<Rightarrow> (Inl e, d)
      | Inr None \<Rightarrow> (Inl (Error ''User not found''), d)
      | Inr (Some user) \<Rightarrow>
          (case dynamoDb_transactWrite
                  [Delete (key_obj (''USER#'' @ userId) (''PROFILE#'' @ userId)),
                   Delete (key_obj (''EMAIL#'' @ toString (user ''email'')) (''USER#'' @ userId))] d of
             (Inl e, d') \<Rightarrow> (Inl e, d')
           | (Inr u, d') \<Rightarrow> (Inr True, d')))"

text \<open>\<open>validateCredentials\<close> queries the index \<^verbatim>\<open>EmailIndex\<close> for the partition
  \<^verbatim>\<open>EMAIL#email\<close>, reads the profile of the first item's \<^verbatim>\<open>id\<close>, and compares.\<close>

definition UserModel_validateCredentials ::
  "(string \<Rightarrow> string \<Rightarrow> bool) \<Rightarrow> jsval option \<Rightarrow> jsval option \<Rightarrow> db \<Rightarrow> error + item option" where
  "UserModel_validateCredentials cmp email password d =
     (case dynamoDb_query (Some ''EmailIndex'') (''EMAIL#'' @ toString email) None d of
        Inl e \<Rightarrow> Inl e
      | Inr [] \<Rightarrow> Inr None
      | Inr (first # Items) \<Rightarrow>
          (case dynamoDb_get (key_obj (''USER#'' @ toString (first ''id''))
                                      (''PROFILE#'' @ toString (first ''id''))) d of
             Inl e \<Rightarrow> Inl e
           | Inr None \<Rightarrow> Inr None
           | Inr (Some user) \<Rightarrow>
               (case bcrypt_compare cmp password (user ''password'') of
                  Inl e \<Rightarrow> Inl e
                | Inr isValid \<Rightarrow>
                    if \<not> isValid then Inr None else Inr (Some (without_password user)))))"

definition UserModel_updateLastLogin :: "string \<Rightarrow> string \<Rightarrow> db \<Rightarrow> (error + bool) \<times> db" where
  "UserModel_updateLastLogin userId now d =
     (case dynamoDb_update (key_obj (''USER#'' @ userId) (''PROFILE#'' @ userId))
             [(''lastLogin'', '':lastLogin'')] (object [('':lastLogin'', Some (JStr now))]) d of
        (Inl e, d') \<Rightarrow> (Inl e, d')
      | (Inr Attributes, d') \<Rightarrow> (Inr True, d'))"

section \<open>Database initialization (config.js, db/init.js, app.js)\<close>

text \<open>\<^verbatim>\<open>type: process.env.DB_TYPE || "rds"\<close>\<close>

definition config_database_type :: "string option \<Rightarrow> string" where
  "config_database_type DB_TYPE = (case DB_TYPE of
      None \<Rightarrow> ''rds''
    | Some s \<Rightarrow> if s = [] then ''rds'' else s)"

text \<open>What the collaborators of \<open>initializeDatabase\<close> answer: Sequelize's
  \<^verbatim>\<open>authenticate\<close> and \<^verbatim>\<open>sync\<close>, DynamoDB's \<^verbatim>\<open>listTables\<close> and \<^verbatim>\<open>createTable\<close>
  (an error where the promise is rejected).\<close>

record init_env =
  seq_authenticate :: "error option"
  seq_sync :: "error option"
  ddb_listTables :: "error + string list"
  ddb_createTable :: "error option"

datatype console_line = Log string | ConsoleError string error

text \<open>The outcome: the names bound on \<^verbatim>\<open>module.exports\<close>, the console, and the exit code
  when \<^verbatim>\<open>process.exit\<close> was called.\<close>

record init_result =
  bound :: "string list"
  console :: "console_line list"
  exit_code :: "nat option"

definition init_failed :: "console_line list \<Rightarrow> error \<Rightarrow> init_result" where
  "init_failed lines e =
     \<lparr>bound = [], console = lines @ [ConsoleError ''Database initialization failed:'' e],
      exit_code = Some 1\<rparr>"

definition init_completed :: "string list \<Rightarrow> console_line list \<Rightarrow> init_result" where
  "init_completed names lines =
     \<lparr>bound = names, console = lines @ [Log ''Database initialization completed.''],
      exit_code = None\<rparr>"

definition initializeDatabase :: "string \<Rightarrow> string \<Rightarrow> init_env \<Rightarrow> init_result" where
  "initializeDatabase dbtype tableName env =
     (if dbtype = ''rds'' then
        (case seq_authenticate env of
           Some e \<Rightarrow> init_failed [Log ''Initializing RDS connection...''] e
         | None \<Rightarrow>
            (case seq_sync env of
               Some e \<Rightarrow> init_failed [Log ''Initializing RDS connection...'',
                             Log ''RDS connection has been established successfully.''] e
             | None \<Rightarrow> init_completed [''User'', ''Product'']
                          [Log ''Initializing RDS connection...'',
                           Log ''RDS connection has been established successfully.'',
                           Log ''Database synchronized successfully.'']))
      else if dbtype = ''dynamodb'' then
        (case ddb_listTables env of
           Inl e \<Rightarrow> init_failed [Log ''Initializing DynamoDB connection...''] e
         | Inr TableNames \<Rightarrow>
            if tableName \<notin> set TableNames then
              (case ddb_createTable env of
                 Some e \<Rightarrow> init_failed [Log ''Initializing DynamoDB connection...'',
                               Log (''Creating DynamoDB table: '' @ tableName)] e
               | None \<Rightarrow> init_completed [''dynamoDb'']
                            [Log ''Initializing DynamoDB connection...'',
                             Log (''Creating DynamoDB table: '' @ tableName),
                             Log ''DynamoDB table created successfully.''])
            else init_completed [''dynamoDb'']
                   [Log ''Initializing DynamoDB connection...'',
                    Log ''DynamoDB table already exists.''])
      else init_failed [] (Error ''Invalid database type specified in configuration.''))"

text \<open>\<^verbatim>\<open>app.js\<close> starts listening and calls \<open>dbInit\<close>; requests are handled only by a
  process that has not exited.\<close>

datatype process = Serving "string list" | Exited nat

definition app_start :: "string option \<Rightarrow> string \<Rightarrow> init_env \<Rightarrow> process" where
  "app_start DB_TYPE tableName env =
     (case exit_code (initializeDatabase (config_database_type DB_TYPE) tableName env) of
        Some code \<Rightarrow> Exited code
      | None \<Rightarrow> Serving (bound (initializeDatabase (config_database_type DB_TYPE) tableName env)))"

section \<open>Registration (utils/validators.js, controllers/auth.controller.js)\<close>

definition hasUppercase :: "string \<Rightarrow> bool" where
  "hasUppercase s = list_ex (\<lambda>c. 65 \<le> (of_char c :: nat) \<and> (of_char c :: nat) \<le> 90) s"

definition hasLowercase :: "string \<Rightarrow> bool" where
  "hasLowercase s = list_ex (\<lambda>c. 97 \<le> (of_char c :: nat) \<and> (of_char c :: nat) \<le> 122) s"

definition hasNumber :: "string \<Rightarrow> bool" where
  "hasNumber s = list_ex (\<lambda>c. 48 \<le> (of_char c :: nat) \<and> (of_char c :: nat) \<le> 57) s"

text \<open>The \<^verbatim>\<open>length\<close> of a string counts UTF-16 code units: one for every code point, and
  one more for every code point beyond U+FFFF. In the UTF-8 encoding the code points are the
  bytes that are not continuation bytes, and the code points beyond U+FFFF are those whose
  first byte is F0 or above.\<close>

definition js_length :: "string \<Rightarrow> nat" where
  "js_length s =
     length (filter (\<lambda>c. \<not> (128 \<le> (of_char c :: nat) \<and> (of_char c :: nat) < 192)) s)
     + length (filter (\<lambda>c. 240 \<le> (of_char c :: nat)) s)"

text \<open>\<open>validatePassword\<close> returns \<^verbatim>\<open>{isValid, message}\<close>. A value that is not a string
  has no length, and the comparison with 8 is false; the regular expressions test the string
  conversion.\<close>

definition validatePassword :: "jsval option \<Rightarrow> bool \<times> string" where
  "validatePassword password =
     (if \<not> truthy password \<or> (case password of Some (JStr s) \<Rightarrow> js_length s < 8 | _ \<Rightarrow> False)
      then (False, ''Password must be at least 8 characters long'')
      else if \<not> hasUppercase (toString password) \<or> \<not> hasLowercase (toString password)
              \<or> \<not> hasNumber (toString password)
      then (False, ''Password must contain at least one uppercase letter, one lowercase letter, and one number'')
      else (True, ''Password is valid''))"

text \<open>
  The user models that \<open>register\<close> calls, by backend. The relational model is Sequelize's
  and its definition is not among the sources: \<open>rds_findOne\<close> stands for
  \<^verbatim>\<open>findOne({ where: { email } })\<close> and \<open>rds_create\<close> for \<^verbatim>\<open>create\<close> followed by
  \<^verbatim>\<open>toJSON\<close>. \<open>dyn_findByEmail\<close> and \<open>dyn_create\<close> are the functions of the module
  \<^verbatim>\<open>db/models/dynamodb/user.model\<close>. \<open>'s\<close> is the state of the store.
\<close>

record 's user_models =
  rds_findOne :: "jsval option \<Rightarrow> 's \<Rightarrow> error + item option"
  rds_create :: "obj \<Rightarrow> 's \<Rightarrow> (error + item) \<times> 's"
  dyn_findByEmail :: "jsval option \<Rightarrow> 's \<Rightarrow> error + item option"
  dyn_create :: "obj \<Rightarrow> 's \<Rightarrow> (error + item) \<times> 's"

text \<open>A response: \<^verbatim>\<open>res.status(n).json({message, user, token})\<close>, or the error handed to
  \<^verbatim>\<open>next\<close>.\<close>

datatype response = Json nat string "item option" "string option" | Next error

definition registration_data :: "obj \<Rightarrow> obj" where
  "registration_data body = object
     [(''email'', body ''email''), (''password'', body ''password''),
      (''firstName'', body ''firstName''), (''lastName'', body ''lastName'')]"

text \<open>\<open>sign\<close> is \<^verbatim>\<open>jwt.sign({ id }, secret, { expiresIn })\<close> as a function of the id.\<close>

definition register ::
  "string \<Rightarrow> 's user_models \<Rightarrow> (jsval option \<Rightarrow> string) \<Rightarrow> obj \<Rightarrow> 's \<Rightarrow> response \<times> 's" where
  "register dbtype models sign body st =
     (if \<not> truthy (body ''email'') \<or> \<not> truthy (body ''password'')
      then (Json 400 ''Email and password are required'' None None, st)
      else
        (case (if dbtype = ''rds'' then rds_findOne models (body ''email'') st
               else dyn_findByEmail models (body ''email'') st) of
           Inl e \<Rightarrow> (Next e, st)
         | Inr (Some existingUser) \<Rightarrow> (Json 409 ''User with this email already exists'' None None, st)
         | Inr None \<Rightarrow>
             (case (if dbtype = ''rds''
                    then (case rds_create models (registration_data body) st of
                            (Inl e, st') \<Rightarrow> (Inl e, st')
                          | (Inr newUser, st') \<Rightarrow> (Inr (without_password newUser), st'))
                    else dyn_create models (registration_data body) st) of
                (Inl e, st') \<Rightarrow> (Next e, st')
              | (Inr newUser, st') \<Rightarrow>
                  (Json 201 ''User registered successfully'' (Some newUser)
                     (Some (sign (newUser ''id''))), st'))))"

text \<open>The module of the key-value backend, with what it draws when it creates a user.\<close>

definition dynamodb_user_model ::
  "(string \<Rightarrow> string \<Rightarrow> string) \<Rightarrow> string \<Rightarrow> string \<Rightarrow> string \<Rightarrow> db user_models \<Rightarrow> db user_models" where
  "dynamodb_user_model h userId now salt models =
     models\<lparr>dyn_findByEmail := UserModel_findByEmail,
            dyn_create := UserModel_create h userId now salt\<rparr>"

section \<open>The persisted layout\<close>

text \<open>The record families of the single table, by their key pairs: the primary record of a
  product, its owner index record and its category index record; the profile record of a user
  and its email index record.\<close>

definition product_key :: "string \<Rightarrow> key" where
  "product_key productId = (''PRODUCT#'' @ productId, ''DETAILS#'' @ productId)"

definition owner_index_key :: "string \<Rightarrow> string \<Rightarrow> key" where
  "owner_index_key userId productId = (''USER#'' @ userId, ''PRODUCT#'' @ productId)"

definition category_index_key :: "string \<Rightarrow> string \<Rightarrow> key" where
  "category_index_key category productId = (''CATEGORY#'' @ category, ''PRODUCT#'' @ productId)"

definition profile_key :: "string \<Rightarrow> key" where
  "profile_key userId = (''USER#'' @ userId, ''PROFILE#'' @ userId)"

definition email_index_key :: "string \<Rightarrow> string \<Rightarrow> key" where
  "email_index_key email userId = (''EMAIL#'' @ email, ''USER#'' @ userId)"

text \<open>The stored item under a key.\<close>

definition stored :: "db \<Rightarrow> key \<Rightarrow> item option" where
  "stored d k = map_of (tbl d) k"

section \<open>Example states\<close>

text \<open>A table holding one product of user \<open>u1\<close> in category \<open>tools\<close>, with its two index
  records, and the empty table.\<close>

definition empty_db :: db where
  "empty_db = \<lparr>tbl = [], indexes = [], commits = []\<rparr>"

definition widget_data :: obj where
  "widget_data = object [(''name'', Some (JStr ''Widget'')), (''price'', Some (JNum 10)),
                         (''category'', Some (JStr ''tools''))]"

definition widget :: item where
  "widget = product_item ''p1'' ''t0'' widget_data ''u1''"

definition widget_db :: db where
  "widget_db = \<lparr>tbl = [(product_key ''p1'', widget),
                        (owner_index_key ''u1'' ''p1'', index_item ''USER#u1'' ''PRODUCT#p1'' ''p1''),
                        (category_index_key ''tools'' ''p1'',
                           index_item ''CATEGORY#tools'' ''PRODUCT#p1'' ''p1'')],
                 indexes = [], commits = []\<rparr>"

text \<open>A stand-in for the hash and its comparison, and a table holding one user whose email
  index record is in place; this table has the index \<^verbatim>\<open>EmailIndex\<close>.\<close>

definition example_hash :: "string \<Rightarrow> string \<Rightarrow> string" where
  "example_hash pw salt = salt @ ''$'' @ rev pw"

definition example_compare :: "string \<Rightarrow> string \<Rightarrow> bool" where
  "example_compare pw hashed = (dropWhile (\<lambda>c. c \<noteq> CHR ''$'') hashed = CHR ''$'' # rev pw)"

definition alice_data :: obj where
  "alice_data = object [(''email'', Some (JStr ''a@x.com'')), (''password'', Some (JStr ''secret''))]"

definition alice :: item where
  "alice = user_item ''u1'' ''t0'' (example_hash ''secret'' ''s'') alice_data"

definition alice_db :: db where
  "alice_db = \<lparr>tbl = [(profile_key ''u1'', alice),
                       (email_index_key ''a@x.com'' ''u1'', index_item ''EMAIL#a@x.com'' ''USER#u1'' ''u1'')],
                indexes = [''EmailIndex''], commits = []\<rparr>"

text \<open>A stand-in for a user model in the examples: a list of rows with a unique email.
  \<open>findOne\<close> returns the row with the email, \<open>create\<close> refuses a second row with the
  same email and stores the hash.\<close>

definition rows_findOne :: "jsval option \<Rightarrow> item list \<Rightarrow> error + item option" where
  "rows_findOne email rows = Inr (find (\<lambda>row. row ''email'' = email) rows)"

definition rows_create :: "string \<Rightarrow> obj \<Rightarrow> item list \<Rightarrow> (error + item) \<times> item list" where
  "rows_create userId userData rows =
     (if list_ex (\<lambda>row. row ''email'' = userData ''email'') rows
      then (Inl (Error ''SequelizeUniqueConstraintError''), rows)
      else (case userData ''password'' of
              Some (JStr pw) \<Rightarrow>
                (Inr (userData(''id'' \<mapsto> JStr userId, ''password'' \<mapsto> JStr (example_hash pw ''s''))),
                 rows @ [userData(''id'' \<mapsto> JStr userId, ''password'' \<mapsto> JStr (example_hash pw ''s''))])
            | _ \<Rightarrow> (Inl (Error ''SequelizeValidationError''), rows)))"

definition rows_models :: "string \<Rightarrow> item list user_models" where
  "rows_models userId =
     \<lparr>rds_findOne = rows_findOne, rds_create = rows_create userId,
      dyn_findByEmail = rows_findOne, dyn_create = rows_create userId\<rparr>"

definition example_sign :: "jsval option \<Rightarrow> string" where
  "example_sign ident = ''token.'' @ toString ident"

text \<open>Collaborators that all succeed on an account without tables; a row of the relational
  user table and two registration requests.\<close>

definition ok_env :: init_env where
  "ok_env = \<lparr>seq_authenticate = None, seq_sync = None, ddb_listTables = Inr [], ddb_createTable = None\<rparr>"

definition alice_row :: item where
  "alice_row = object [(''id'', Some (JStr ''u1'')), (''email'', Some (JStr ''a@x.com'')),
                       (''password'', Some (JStr (example_hash ''secret'' ''s'')))]"

definition weak_body :: obj where
  "weak_body = object [(''email'', Some (JStr ''b@x.com'')), (''password'', Some (JStr ''a''))]"

definition repeated_body :: obj where
  "repeated_body = object [(''email'', Some (JStr ''a@x.com'')), (''password'', Some (JStr ''Abcd1234''))]"

section \<open>Derived notions used in the statements\<close>

text \<open>The item that the SET expression of \<open>ProductModel.update\<close> makes of a stored
  item.\<close>

definition product_patched :: "string \<Rightarrow> patch \<Rightarrow> item \<Rightarrow> item" where
  "product_patched now updates old =
     fold (assign (snd (product_update_expression now updates)))
          (fst (product_update_expression now updates)) old"

text \<open>A patch whose entries make an update expression that the store accepts: the keys are
  distinct (they are those of one object), and every key that the guard of the loop lets
  through is an attribute name the store accepts as it is written, other than
  \<^verbatim>\<open>updatedAt\<close>, which the expression assigns already.\<close>

definition patch_accepted :: "(string \<Rightarrow> bool) \<Rightarrow> patch \<Rightarrow> bool" where
  "patch_accepted patchable updates =
     (distinct (map fst updates)
      \<and> list_all (\<lambda>k. attribute_name_ok k \<and> k \<noteq> ''updatedAt'') (filter patchable (map fst updates)))"

text \<open>The category index records of a product, and whether they agree with its primary
  record: the index holds exactly the record of the category that the primary record names
  (none when the primary record has no category or does not exist).\<close>

definition category_index_records :: "string \<Rightarrow> table \<Rightarrow> key list" where
  "category_index_records productId t =
     filter (\<lambda>k. begins_with (fst k) ''CATEGORY#'' \<and> snd k = ''PRODUCT#'' @ productId) (map fst t)"

definition category_agrees :: "string \<Rightarrow> table \<Rightarrow> bool" where
  "category_agrees productId t =
     (case map_of t (product_key productId) of
        None \<Rightarrow> category_index_records productId t = []
      | Some p \<Rightarrow> category_index_records productId t =
          (if truthy (p ''category'')
           then [category_index_key (toString (p ''category'')) productId] else []))"

text \<open>An attribute of the item stored under a key (undefined when there is no item).\<close>

definition stored_field :: "db \<Rightarrow> key \<Rightarrow> string \<Rightarrow> jsval option" where
  "stored_field d k a = (case stored d k of None \<Rightarrow> None | Some it \<Rightarrow> it a)"

text \<open>Every stored item carries the key it is stored under, as every item of a DynamoDB
  table does.\<close>

definition well_keyed :: "db \<Rightarrow> bool" where
  "well_keyed d = list_all (\<lambda>kv. item_key (snd kv) = Some (fst kv)) (tbl d)"

text \<open>A transaction item that carries a "must not already exist" condition on its
  partition key.\<close>

fun conditioned :: "txitem \<Rightarrow> bool" where
  "conditioned (Put it (Some (attribute_not_exists as))) = (''pk'' \<in> set as)"
| "conditioned (Put it None) = False"
| "conditioned (Delete Key) = False"

text \<open>A table that holds a category index record for a product that does not exist.\<close>

definition stale_db :: db where
  "stale_db = \<lparr>tbl = [(category_index_key ''tools'' ''p1'',
                          index_item ''CATEGORY#tools'' ''PRODUCT#p1'' ''p0'')],
                indexes = [], commits = []\<rparr>"

text \<open>A table whose index records (by email, by owner, by category) point to primary
  records that do not exist.\<close>

definition dangling_db :: db where
  "dangling_db = \<lparr>tbl = [(email_index_key ''a@x.com'' ''u1'', index_item ''EMAIL#a@x.com'' ''USER#u1'' ''u1''),
                          (owner_index_key ''u1'' ''p9'', index_item ''USER#u1'' ''PRODUCT#p9'' ''p9''),
                          (category_index_key ''tools'' ''p9'',
                             index_item ''CATEGORY#tools'' ''PRODUCT#p9'' ''p9'')],
                   indexes = [''EmailIndex''], commits = []\<rparr>"

text \<open>The tokens of the JSON text of an object of strings.\<close>

fun member_tokens :: "(string \<times> string) list \<Rightarrow> token list" where
  "member_tokens [] = [RBrace]"
| "member_tokens [m] = [Str (fst m), Colon, Str (snd m), RBrace]"
| "member_tokens (m # ms) = Str (fst m) # Colon # Str (snd m) # Comma # member_tokens ms"

text \<open>A table of three products, with an index record between the first and the second.\<close>

definition catalog_db :: db where
  "catalog_db = \<lparr>tbl = [(product_key ''p1'', widget),
                         (owner_index_key ''u1'' ''p1'', index_item ''USER#u1'' ''PRODUCT#p1'' ''p1''),
                         (product_key ''p2'', product_item ''p2'' ''t0'' widget_data ''u1''),
                         (product_key ''p3'', product_item ''p3'' ''t0'' widget_data ''u1'')],
                  indexes = [], commits = []\<rparr>"

section \<open>Basic facts about the client\<close>

lemma item_key_key_obj [simp]: "item_key (key_obj p s) = Some (p, s)"
  by (simp add: item_key_def key_obj_def)

lemma item_key_index_item [simp]: "item_key (index_item p s i) = Some (p, s)"
  by (simp add: item_key_def index_item_def)

lemma keys_distinct [simp]:
  "product_key p \<noteq> owner_index_key u q" "owner_index_key u q \<noteq> product_key p"
  "product_key p \<noteq> category_index_key c q" "category_index_key c q \<noteq> product_key p"
  "owner_index_key u p \<noteq> category_index_key c q" "category_index_key c q \<noteq> owner_index_key u p"
  by (simp_all add: product_key_def owner_index_key_def category_index_key_def)

lemma findById_eq: "ProductModel_findById productId d = Inr (stored d (product_key productId))"
  by (simp add: ProductModel_findById_def dynamoDb_get_def stored_def product_key_def)

lemma stored_commit [simp]: "stored (commit t d) k = map_of t k"
  by (simp add: stored_def commit_def)

lemma commits_commit [simp]: "commits (commit t d) = commits d @ [t]" "tbl (commit t d) = t"
  by (simp_all add: commit_def)

lemma widget_stored:
  "stored widget_db (product_key ''p1'') = Some widget"
  "stored empty_db k = None"
  by (simp_all add: stored_def widget_db_def empty_db_def)

lemma widget_fields:
  "widget ''userId'' = Some (JStr ''u1'')"
  "widget ''category'' = Some (JStr ''tools'')"
  "widget ''id'' = Some (JStr ''p1'')"
  by (simp_all add: widget_def product_item_def widget_data_def js_or_def)

section \<open>Deleting a product\<close>

lemma product_delete_items_keys:
  "map txitem_key (product_delete_items productId userId product) =
     [Some (product_key productId), Some (owner_index_key userId productId)]
     @ (if truthy (product ''category'')
        then [Some (category_index_key (toString (product ''category'')) productId)] else [])"
  by (simp add: product_delete_items_def product_key_def owner_index_key_def category_index_key_def)

lemma product_delete_items_apply:
  "map_of (fold apply_txitem (product_delete_items productId userId product) t) =
     (\<lambda>k. if k = product_key productId \<or> k = owner_index_key userId productId
              \<or> (truthy (product ''category'')
                  \<and> k = category_index_key (toString (product ''category'')) productId)
           then None else map_of t k)"
  by (rule ext) (simp add: product_delete_items_def AList.delete_conv'
        product_key_def owner_index_key_def category_index_key_def)

lemma product_delete_transaction:
  "dynamoDb_transactWrite (product_delete_items productId userId product) d =
    (Inr (), commit (fold apply_txitem (product_delete_items productId userId product) (tbl d)) d)"
proof -
  have "distinct (map txitem_key (product_delete_items productId userId product))"
    by (simp add: product_delete_items_keys)
  moreover have "\<not> list_ex (\<lambda>w. txitem_key w = None) (product_delete_items productId userId product)"
    by (simp add: product_delete_items_def)
  moreover have "list_all (cond_ok (tbl d)) (product_delete_items productId userId product)"
    by (simp add: product_delete_items_def)
  ultimately show ?thesis by (simp add: dynamoDb_transactWrite_def)
qed

text \<open>
  C5. Deleting a product through the key-value adapter: when no primary record is stored
  under the product's key the operation fails with "Product not found"; when the primary
  record exists and its owner is not the caller it fails with "Unauthorized to delete this
  product"; in both cases the state is returned as it was and no write is issued. When the
  caller owns the product, one transaction is committed after which the primary record, the
  owner index record and, if the product has a category, the category index record are gone,
  and every other record is as before.
\<close>

theorem product_delete_checks_then_removes:
  "(stored d (product_key productId) = None \<longrightarrow>
      ProductModel_delete productId userId d = (Inl (Error ''Product not found''), d))
 \<and> (stored d (product_key productId) = Some product
      \<and> \<not> strict_eq (product ''userId'') (Some (JStr userId)) \<longrightarrow>
      ProductModel_delete productId userId d =
        (Inl (Error ''Unauthorized to delete this product''), d))
 \<and> (stored d (product_key productId) = Some product
      \<and> strict_eq (product ''userId'') (Some (JStr userId)) \<longrightarrow>
      (\<exists>d'. ProductModel_delete productId userId d = (Inr True, d')
         \<and> commits d' = commits d @ [tbl d']
         \<and> stored d' (product_key productId) = None
         \<and> stored d' (owner_index_key userId productId) = None
         \<and> (truthy (product ''category'') \<longrightarrow>
              stored d' (category_index_key (toString (product ''category'')) productId) = None)
         \<and> (\<forall>k. k \<noteq> product_key productId \<and> k \<noteq> owner_index_key userId productId
               \<and> k \<noteq> category_index_key (toString (product ''category'')) productId
               \<longrightarrow> stored d' k = stored d k)))"
  by (simp add: ProductModel_delete_def findById_eq product_delete_transaction
        product_delete_items_apply)
     (simp add: stored_def)

theorem product_delete_witness:
  "ProductModel_delete ''p1'' ''u1'' empty_db = (Inl (Error ''Product not found''), empty_db)
 \<and> ProductModel_delete ''p1'' ''u2'' widget_db =
      (Inl (Error ''Unauthorized to delete this product''), widget_db)
 \<and> (\<exists>d'. ProductModel_delete ''p1'' ''u1'' widget_db = (Inr True, d')
        \<and> commits d' = [tbl d']
        \<and> stored d' (product_key ''p1'') = None
        \<and> stored d' (owner_index_key ''u1'' ''p1'') = None
        \<and> stored d' (category_index_key ''tools'' ''p1'') = None)"
  using product_delete_checks_then_removes [of empty_db "''p1''" "''u1''" widget]
        product_delete_checks_then_removes [of widget_db "''p1''" "''u2''" widget]
        product_delete_checks_then_removes [of widget_db "''p1''" "''u1''" widget]
  by (simp add: widget_stored widget_fields) (auto simp add: widget_db_def)

section \<open>Updating a product\<close>

lemma fold_patch_fst:
  "fst (fold product_patch_entry updates acc) =
     fst acc @ map (\<lambda>kv. (fst kv, '':'' @ fst kv)) (filter (\<lambda>kv. product_patchable (fst kv)) updates)"
  by (induction updates arbitrary: acc) (simp_all add: product_patch_entry_def)

lemma product_sets:
  "fst (product_update_expression now updates) =
     (''updatedAt'', '':updatedAt'') #
       map (\<lambda>kv. (fst kv, '':'' @ fst kv)) (filter (\<lambda>kv. product_patchable (fst kv)) updates)"
  by (simp add: product_update_expression_def fold_patch_fst)

lemma product_sets_no_key:
  "\<not> list_ex (\<lambda>ap. fst ap = ''pk'' \<or> fst ap = ''sk'') (fst (product_update_expression now updates))"
  by (auto simp add: product_sets list_ex_iff product_patchable_def)

lemma attribute_name_okI:
  "is_letter (hd a) \<and> list_all (\<lambda>c. is_letter c \<or> is_digit c) (tl a) \<and> a \<noteq> [] \<Longrightarrow>
   map upper a = u \<Longrightarrow> u \<notin> set reserved_words \<Longrightarrow> attribute_name_ok a"
  by (simp add: attribute_name_ok_def)

text \<open>The attributes of the entities that an expression may name as they are, and the two
  that it may not.\<close>

lemma names_ok:
  "attribute_name_ok ''updatedAt''"
  "attribute_name_ok ''category''"
  "attribute_name_ok ''price''"
  "attribute_name_ok ''firstName''"
  "attribute_name_ok ''password''"
  "attribute_name_ok ''createdAt''"
proof -
  show "attribute_name_ok ''updatedAt''"
    by (rule attribute_name_okI [where u = "''UPDATEDAT''"])
       (code_simp, code_simp, simp add: reserved_words_def)
  show "attribute_name_ok ''category''"
    by (rule attribute_name_okI [where u = "''CATEGORY''"])
       (code_simp, code_simp, simp add: reserved_words_def)
  show "attribute_name_ok ''price''"
    by (rule attribute_name_okI [where u = "''PRICE''"])
       (code_simp, code_simp, simp add: reserved_words_def)
  show "attribute_name_ok ''firstName''"
    by (rule attribute_name_okI [where u = "''FIRSTNAME''"])
       (code_simp, code_simp, simp add: reserved_words_def)
  show "attribute_name_ok ''password''"
    by (rule attribute_name_okI [where u = "''PASSWORD''"])
       (code_simp, code_simp, simp add: reserved_words_def)
  show "attribute_name_ok ''createdAt''"
    by (rule attribute_name_okI [where u = "''CREATEDAT''"])
       (code_simp, code_simp, simp add: reserved_words_def)
qed

lemma names_reserved:
  "\<not> attribute_name_ok ''name''"
  "\<not> attribute_name_ok ''role''"
proof -
  have "map upper ''name'' = ''NAME''"
    by code_simp
  moreover have "''NAME'' \<in> set reserved_words"
    by (simp add: reserved_words_def)
  ultimately show "\<not> attribute_name_ok ''name''"
    by (simp add: attribute_name_ok_def)
  have "map upper ''role'' = ''ROLE''"
    by code_simp
  moreover have "''ROLE'' \<in> set reserved_words"
    by (simp add: reserved_words_def)
  ultimately show "\<not> attribute_name_ok ''role''"
    by (simp add: attribute_name_ok_def)
qed

lemma placeholder_of_name: "attribute_name_ok a \<Longrightarrow> placeholder_ok (CHR '':'' # a)"
  by (cases a) (auto simp add: attribute_name_ok_def placeholder_ok_def list_all_iff)

lemmas placeholders_ok = names_ok [THEN placeholder_of_name]

lemma fold_patch_snd_keeps:
  "snd acc p \<noteq> None \<Longrightarrow> snd (fold product_patch_entry updates acc) p \<noteq> None"
  by (induction updates arbitrary: acc) (simp_all add: product_patch_entry_def)

lemma fold_patch_snd_defined:
  "kv \<in> set updates \<Longrightarrow> product_patchable (fst kv) \<Longrightarrow>
     snd (fold product_patch_entry updates acc) ('':'' @ fst kv) \<noteq> None"
proof (induction updates arbitrary: acc)
  case Nil
  then show ?case by simp
next
  case (Cons x updates)
  show ?case
  proof (cases "kv = x")
    case True
    with Cons.prems have "snd (product_patch_entry x acc) ('':'' @ fst kv) \<noteq> None"
      by (simp add: product_patch_entry_def)
    then show ?thesis
      by (simp add: fold_patch_snd_keeps del: append.simps)
  next
    case False
    with Cons show ?thesis by simp
  qed
qed

lemma product_expression_ok:
  assumes "patch_accepted product_patchable updates"
  shows "update_expression_ok (fst (product_update_expression now updates))
           (snd (product_update_expression now updates))"
proof -
  have keys: "distinct (map fst updates)"
    and ok: "\<forall>kv \<in> set updates. product_patchable (fst kv) \<longrightarrow>
               attribute_name_ok (fst kv) \<and> fst kv \<noteq> ''updatedAt''"
    using assms by (auto simp add: patch_accepted_def list_all_iff)
  have stamp: "snd (product_update_expression now updates) '':updatedAt'' \<noteq> None"
    unfolding product_update_expression_def by (rule fold_patch_snd_keeps) simp
  have entries: "\<forall>kv \<in> set updates. product_patchable (fst kv) \<longrightarrow>
                   snd (product_update_expression now updates) (CHR '':'' # fst kv) \<noteq> None"
    using fold_patch_snd_defined [where updates = updates]
    by (simp add: product_update_expression_def)
  have "distinct (map fst (filter (\<lambda>kv. product_patchable (fst kv)) updates))"
    using keys by (rule distinct_map_filter)
  then have "distinct (map fst (fst (product_update_expression now updates)))"
    using ok by (auto simp add: product_sets comp_def)
  with ok stamp entries show ?thesis
    using names_ok(1) placeholder_of_name
    by (auto simp add: update_expression_ok_def product_sets list_all_iff)
qed

lemma fold_assign_frame:
  "a \<notin> fst ` set sets \<Longrightarrow> fold (assign vals) sets it a = it a"
  by (induction sets arbitrary: it) (auto simp add: assign_def)

lemma fold_assign_hit:
  "a \<in> fst ` set sets \<Longrightarrow> \<forall>ap \<in> set sets. snd ap = '':'' @ fst ap \<Longrightarrow>
     fold (assign vals) sets it a = vals ('':'' @ a)"
proof (induction sets arbitrary: it)
  case Nil
  then show ?case by simp
next
  case (Cons ap sets)
  show ?case
  proof (cases "a \<in> fst ` set sets")
    case True
    with Cons show ?thesis by simp
  next
    case False
    with Cons.prems have "fst ap = a" "snd ap = '':'' @ a" by auto
    with False have "fold (assign vals) (ap # sets) it a = assign vals ap it a"
      by (simp add: fold_assign_frame)
    also have "\<dots> = vals ('':'' @ a)"
      using \<open>fst ap = a\<close> \<open>snd ap = '':'' @ a\<close> by (simp add: assign_def)
    finally show ?thesis .
  qed
qed

lemma fold_patch_snd_miss:
  "p \<notin> (\<lambda>kv. '':'' @ fst kv) ` set updates \<Longrightarrow> snd (fold product_patch_entry updates acc) p = snd acc p"
  by (induction updates arbitrary: acc) (auto simp add: product_patch_entry_def)

lemma fold_patch_snd_hit:
  "distinct (map fst updates) \<Longrightarrow> (k, v) \<in> set updates \<Longrightarrow> product_patchable k \<Longrightarrow>
     snd (fold product_patch_entry updates acc) ('':'' @ k) = Some v"
proof (induction updates arbitrary: acc)
  case Nil
  then show ?case by simp
next
  case (Cons kv updates)
  show ?case
  proof (cases "kv = (k, v)")
    case True
    with Cons.prems have "k \<notin> fst ` set updates" by auto
    then have "'':'' @ k \<notin> (\<lambda>kv. '':'' @ fst kv) ` set updates" by auto
    then have "snd (fold product_patch_entry (kv # updates) acc) ('':'' @ k)
                 = snd (product_patch_entry kv acc) ('':'' @ k)"
      by (simp add: fold_patch_snd_miss)
    also have "\<dots> = Some v"
      using True Cons.prems by (simp add: product_patch_entry_def)
    finally show ?thesis .
  next
    case False
    with Cons show ?thesis by simp
  qed
qed

lemma product_patched_protected:
  "\<not> product_patchable a \<Longrightarrow> product_patched now updates old a = old a"
  unfolding product_patched_def
  by (rule fold_assign_frame) (auto simp add: product_sets product_patchable_def)

lemma product_patched_untouched:
  "a \<noteq> ''updatedAt'' \<Longrightarrow> a \<notin> fst ` set updates \<Longrightarrow> product_patched now updates old a = old a"
  unfolding product_patched_def
  by (rule fold_assign_frame) (force simp add: product_sets)

lemma product_patched_entry:
  assumes "distinct (map fst updates)" "(k, v) \<in> set updates" "product_patchable k"
  shows "product_patched now updates old k = Some v"
proof -
  have "k \<in> fst ` set (fst (product_update_expression now updates))"
    using assms by (force simp add: product_sets)
  moreover have "\<forall>ap \<in> set (fst (product_update_expression now updates)). snd ap = '':'' @ fst ap"
    by (auto simp add: product_sets)
  ultimately have "product_patched now updates old k = snd (product_update_expression now updates) ('':'' @ k)"
    unfolding product_patched_def by (rule fold_assign_hit)
  also have "\<dots> = Some v"
    using assms by (simp add: product_update_expression_def fold_patch_snd_hit del: append.simps)
  finally show ?thesis .
qed

lemma product_primary_rejected:
  "\<not> update_expression_ok (fst (product_update_expression now updates))
        (snd (product_update_expression now updates)) \<Longrightarrow>
   dynamoDb_update (key_obj (''PRODUCT#'' @ productId) (''DETAILS#'' @ productId))
      (fst (product_update_expression now updates)) (snd (product_update_expression now updates)) d =
   (Inl ValidationException, d)"
  by (simp add: dynamoDb_update_def del: append.simps)

lemma product_primary_update:
  "update_expression_ok (fst (product_update_expression now updates))
        (snd (product_update_expression now updates)) \<Longrightarrow>
   dynamoDb_update (key_obj (''PRODUCT#'' @ productId) (''DETAILS#'' @ productId))
      (fst (product_update_expression now updates)) (snd (product_update_expression now updates)) d =
   (Inr (product_patched now updates
           (case stored d (product_key productId) of
              None \<Rightarrow> key_obj (''PRODUCT#'' @ productId) (''DETAILS#'' @ productId) | Some it \<Rightarrow> it)),
    commit (AList.update (product_key productId)
              (product_patched now updates
                (case stored d (product_key productId) of
                   None \<Rightarrow> key_obj (''PRODUCT#'' @ productId) (''DETAILS#'' @ productId) | Some it \<Rightarrow> it))
              (tbl d)) d)"
  using product_sets_no_key [of now updates]
  by (simp add: dynamoDb_update_def product_patched_def stored_def product_key_def Let_def
        del: append.simps)

lemma category_step_skip:
  "\<not> (truthy (map_of updates ''category'') \<and> \<not> strict_eq (map_of updates ''category'') (product ''category''))
   \<Longrightarrow> product_category_step productId updates product d = (Inr (), d)"
  by (auto simp add: product_category_step_def)

lemma category_step_put:
  "truthy (map_of updates ''category'') \<Longrightarrow>
   \<not> strict_eq (map_of updates ''category'') (product ''category'') \<Longrightarrow>
   \<not> truthy (product ''category'') \<Longrightarrow>
   product_category_step productId updates product d =
     (Inr (), commit (AList.update (category_index_key (toString (map_of updates ''category'')) productId)
                        (index_item (''CATEGORY#'' @ toString (map_of updates ''category''))
                                    (''PRODUCT#'' @ productId) productId) (tbl d)) d)"
  by (simp add: product_category_step_def dynamoDb_put_def category_index_key_def del: append.simps)

lemma category_step_transaction:
  "truthy (map_of updates ''category'') \<Longrightarrow>
   \<not> strict_eq (map_of updates ''category'') (product ''category'') \<Longrightarrow>
   truthy (product ''category'') \<Longrightarrow>
   toString (map_of updates ''category'') \<noteq> toString (product ''category'') \<Longrightarrow>
   product_category_step productId updates product d =
     (Inr (), commit (AList.update (category_index_key (toString (map_of updates ''category'')) productId)
                        (index_item (''CATEGORY#'' @ toString (map_of updates ''category''))
                                    (''PRODUCT#'' @ productId) productId)
                        (AList.delete (category_index_key (toString (product ''category'')) productId)
                           (tbl d))) d)"
  by (simp add: product_category_step_def dynamoDb_transactWrite_def category_index_key_def
        del: append.simps)

lemma resolve_products_eq:
  "resolve_products its d =
     Inr (List.map_filter (\<lambda>it. stored d (product_key (toString (it ''id'')))) its)"
  by (induction its) (simp_all add: findById_eq split: option.splits)

lemma findByCategory_eq:
  "ProductModel_findByCategory category d =
     Inr (List.map_filter (\<lambda>it. stored d (product_key (toString (it ''id''))))
            (map snd (filter (\<lambda>(k, it). fst k = ''CATEGORY#'' @ category \<and> begins_with (snd k) ''PRODUCT#'')
                        (tbl d))))"
  by (simp add: ProductModel_findByCategory_def dynamoDb_query_def resolve_products_eq
        del: append.simps)

lemma findByCategory_member:
  assumes idx: "stored d (category_index_key category productId) = Some idx"
      and ident: "idx ''id'' = Some (JStr productId)"
      and prim: "stored d (product_key productId) = Some p"
  shows "\<exists>ps. ProductModel_findByCategory category d = Inr ps \<and> p \<in> set ps"
proof -
  have "(category_index_key category productId, idx) \<in> set (tbl d)"
    using idx by (simp add: stored_def map_of_SomeD)
  then have "idx \<in> set (map snd (filter (\<lambda>(k, it). fst k = ''CATEGORY#'' @ category
                  \<and> begins_with (snd k) ''PRODUCT#'') (tbl d)))"
    by (force simp add: category_index_key_def begins_with_def)
  moreover have "stored d (product_key (toString (idx ''id''))) = Some p"
    using ident prim by simp
  ultimately show ?thesis
    unfolding findByCategory_eq by (force simp add: List.map_filter_def)
qed

lemma update_skip_category:
  assumes "\<not> truthy (map_of updates ''category'')"
  shows "ProductModel_update productId updates userId now d =
     (case stored d (product_key productId) of
        None \<Rightarrow> (Inl (Error ''Product not found''), d)
      | Some product \<Rightarrow>
          if \<not> strict_eq (product ''userId'') (Some (JStr userId))
          then (Inl (Error ''Unauthorized to update this product''), d)
          else if \<not> update_expression_ok (fst (product_update_expression now updates))
                      (snd (product_update_expression now updates))
          then (Inl ValidationException, d)
          else (Inr (product_patched now updates product),
                commit (AList.update (product_key productId) (product_patched now updates product) (tbl d)) d))"
  using assms
  by (simp add: ProductModel_update_def findById_eq category_step_skip product_primary_update
        product_primary_rejected
      split: option.splits del: append.simps)

lemma update_skip_category_frame:
  assumes "\<not> truthy (map_of updates ''category'')" "k \<noteq> product_key productId"
  shows "stored (snd (ProductModel_update productId updates userId now d)) k = stored d k"
  using assms
  by (simp add: update_skip_category AList.update_conv' split: option.splits)
     (simp add: stored_def)

lemma update_skip_category_primary:
  assumes "\<not> truthy (map_of updates ''category'')" "stored d (product_key productId) = Some product"
  shows "\<exists>p. stored (snd (ProductModel_update productId updates userId now d)) (product_key productId)
               = Some p"
  using assms
  by (simp add: update_skip_category AList.update_conv')

text \<open>
  C10. An update whose patch has no truthy category (the key is absent, or its value is
  null or the empty string) leaves every record other than the primary record as it was,
  whatever the outcome of the update: no category index record is removed or inserted. When
  the caller owns the product and the store accepts the patch, the update is one write of the
  primary record, whose category becomes the value the patch gives (and stays when the patch
  does not name it). In every case each category index record that pointed to the product
  before still resolves to it, so \<open>findByCategory\<close> of the old category returns the
  record stored for the product.
\<close>

theorem product_update_falsy_category_keeps_index:
  "\<not> truthy (map_of updates ''category'') \<longrightarrow>
     (\<forall>k. k \<noteq> product_key productId \<longrightarrow>
          stored (snd (ProductModel_update productId updates userId now d)) k = stored d k)
   \<and> (stored d (product_key productId) = Some product
        \<and> strict_eq (product ''userId'') (Some (JStr userId))
        \<and> patch_accepted product_patchable updates \<longrightarrow>
        (\<exists>d' new. ProductModel_update productId updates userId now d = (Inr new, d')
           \<and> commits d' = commits d @ [tbl d']
           \<and> stored d' (product_key productId) = Some new
           \<and> (\<forall>v. (''category'', v) \<in> set updates \<longrightarrow> new ''category'' = Some v)
           \<and> (''category'' \<notin> fst ` set updates \<longrightarrow> new ''category'' = product ''category'')))
   \<and> (stored d (product_key productId) = Some product \<longrightarrow>
        (\<forall>category idx. stored d (category_index_key category productId) = Some idx
               \<and> idx ''id'' = Some (JStr productId) \<longrightarrow>
           (\<exists>ps p. ProductModel_findByCategory category
                      (snd (ProductModel_update productId updates userId now d)) = Inr ps
                \<and> stored (snd (ProductModel_update productId updates userId now d))
                      (product_key productId) = Some p
                \<and> p \<in> set ps)))"
proof (intro impI conjI allI)
  fix k assume "\<not> truthy (map_of updates ''category'')" "k \<noteq> product_key productId"
  then show "stored (snd (ProductModel_update productId updates userId now d)) k = stored d k"
    by (rule update_skip_category_frame)
next
  assume falsy: "\<not> truthy (map_of updates ''category'')"
     and h: "stored d (product_key productId) = Some product
        \<and> strict_eq (product ''userId'') (Some (JStr userId))
        \<and> patch_accepted product_patchable updates"
  let ?new = "product_patched now updates product"
  let ?d' = "commit (AList.update (product_key productId) ?new (tbl d)) d"
  from h have keys: "distinct (map fst updates)"
    by (simp add: patch_accepted_def)
  from h have "update_expression_ok (fst (product_update_expression now updates))
                 (snd (product_update_expression now updates))"
    by (simp add: product_expression_ok)
  then have run: "ProductModel_update productId updates userId now d = (Inr ?new, ?d')"
    using falsy h by (simp add: update_skip_category)
  have prim: "stored ?d' (product_key productId) = Some ?new"
    by (simp add: AList.update_conv')
  have cat: "\<forall>v. (''category'', v) \<in> set updates \<longrightarrow> ?new ''category'' = Some v"
    using keys by (auto intro!: product_patched_entry simp add: product_patchable_def)
  have nocat: "''category'' \<notin> fst ` set updates \<longrightarrow> ?new ''category'' = product ''category''"
    by (simp add: product_patched_untouched)
  show "\<exists>d' new. ProductModel_update productId updates userId now d = (Inr new, d')
           \<and> commits d' = commits d @ [tbl d']
           \<and> stored d' (product_key productId) = Some new
           \<and> (\<forall>v. (''category'', v) \<in> set updates \<longrightarrow> new ''category'' = Some v)
           \<and> (''category'' \<notin> fst ` set updates \<longrightarrow> new ''category'' = product ''category'')"
    using run prim cat nocat by (intro exI [of _ ?d'] exI [of _ ?new]) simp
next
  fix category idx
  assume falsy: "\<not> truthy (map_of updates ''category'')"
     and prim: "stored d (product_key productId) = Some product"
     and a: "stored d (category_index_key category productId) = Some idx
               \<and> idx ''id'' = Some (JStr productId)"
  let ?d' = "snd (ProductModel_update productId updates userId now d)"
  from falsy prim obtain p where p: "stored ?d' (product_key productId) = Some p"
    using update_skip_category_primary by blast
  have "stored ?d' (category_index_key category productId) = Some idx"
    using a falsy by (simp add: update_skip_category_frame)
  with a p have "\<exists>ps. ProductModel_findByCategory category ?d' = Inr ps \<and> p \<in> set ps"
    by (blast intro: findByCategory_member)
  with p show "\<exists>ps p. ProductModel_findByCategory category ?d' = Inr ps
                \<and> stored ?d' (product_key productId) = Some p \<and> p \<in> set ps"
    by blast
qed

lemma category_patch_accepted:
  "patch_accepted product_patchable [(''category'', v)]"
  by (simp add: patch_accepted_def product_patchable_def names_ok)

text \<open>Witness for C10: the category of the product in \<open>tools\<close> is cleared; the index record
  under \<open>tools\<close> stays, and the lookup by \<open>tools\<close> still returns the product, now with
  category null.\<close>

theorem product_update_falsy_category_witness:
  "\<exists>d' new. ProductModel_update ''p1'' [(''category'', JNull)] ''u1'' ''t1'' widget_db = (Inr new, d')
      \<and> new ''category'' = Some JNull
      \<and> stored d' (category_index_key ''tools'' ''p1'')
          = Some (index_item ''CATEGORY#tools'' ''PRODUCT#p1'' ''p1'')
      \<and> (\<exists>ps. ProductModel_findByCategory ''tools'' d' = Inr ps \<and> new \<in> set ps)"
proof -
  let ?run = "ProductModel_update ''p1'' [(''category'', JNull)] ''u1'' ''t1'' widget_db"
  have falsy: "\<not> truthy (map_of [(''category'', JNull)] ''category'')"
    by simp
  have h: "stored widget_db (product_key ''p1'') = Some widget
        \<and> strict_eq (widget ''userId'') (Some (JStr ''u1''))
        \<and> patch_accepted product_patchable [(''category'', JNull)]"
    by (simp add: widget_stored widget_fields category_patch_accepted)
  have idx: "stored widget_db (category_index_key ''tools'' ''p1'')
               = Some (index_item ''CATEGORY#tools'' ''PRODUCT#p1'' ''p1'')
           \<and> index_item ''CATEGORY#tools'' ''PRODUCT#p1'' ''p1'' ''id'' = Some (JStr ''p1'')"
    by (simp add: stored_def widget_db_def index_item_def
          product_key_def owner_index_key_def category_index_key_def)
  have neq: "category_index_key ''tools'' ''p1'' \<noteq> product_key ''p1''"
    by simp
  from product_update_falsy_category_keeps_index
         [where updates = "[(''category'', JNull)]" and productId = "''p1''" and userId = "''u1''"
            and now = "''t1''" and d = widget_db and product = widget]
       falsy h
  have frame: "\<forall>k. k \<noteq> product_key ''p1'' \<longrightarrow> stored (snd ?run) k = stored widget_db k"
   and ex: "\<exists>d' new. ?run = (Inr new, d')
           \<and> commits d' = commits widget_db @ [tbl d']
           \<and> stored d' (product_key ''p1'') = Some new
           \<and> (\<forall>v. (''category'', v) \<in> set [(''category'', JNull)] \<longrightarrow> new ''category'' = Some v)
           \<and> (''category'' \<notin> fst ` set [(''category'', JNull)] \<longrightarrow> new ''category'' = widget ''category'')"
   and find: "\<forall>category idx. stored widget_db (category_index_key category ''p1'') = Some idx
               \<and> idx ''id'' = Some (JStr ''p1'') \<longrightarrow>
           (\<exists>ps p. ProductModel_findByCategory category (snd ?run) = Inr ps
                \<and> stored (snd ?run) (product_key ''p1'') = Some p \<and> p \<in> set ps)"
    by blast+
  from ex obtain d' new where
        run: "?run = (Inr new, d')"
    and prim: "stored d' (product_key ''p1'') = Some new"
    and cat: "\<forall>v. (''category'', v) \<in> set [(''category'', JNull)] \<longrightarrow> new ''category'' = Some v"
    by blast
  from cat have c: "new ''category'' = Some JNull" by simp
  from frame run neq idx have i: "stored d' (category_index_key ''tools'' ''p1'')
          = Some (index_item ''CATEGORY#tools'' ''PRODUCT#p1'' ''p1'')"
    by (metis snd_conv)
  from find idx run prim have f: "\<exists>ps. ProductModel_findByCategory ''tools'' d' = Inr ps \<and> new \<in> set ps"
    by fastforce
  from run c i f show ?thesis by blast
qed

text \<open>The loop writes the keys of the patch into the expression as they are. The product's
  name is a reserved word: the store rejects a patch that renames the product, and nothing is
  written. It rejects a patch that names \<^verbatim>\<open>updatedAt\<close> as well, for the expression then
  assigns that attribute twice.\<close>

lemma product_rename_rejected:
  "ProductModel_update ''p1'' [(''name'', JStr ''Gadget'')] ''u1'' ''t1'' widget_db
     = (Inl ValidationException, widget_db)"
  by (simp add: update_skip_category widget_stored widget_fields update_expression_ok_def
        product_sets product_patchable_def names_reserved)

lemma product_updatedAt_patch_rejected:
  "ProductModel_update ''p1'' [(''updatedAt'', JStr ''1999'')] ''u1'' ''t1'' widget_db
     = (Inl ValidationException, widget_db)"
  by (simp add: update_skip_category widget_stored widget_fields update_expression_ok_def
        product_sets product_patchable_def)

section \<open>Changing the category of a product\<close>

lemma category_step_changes:
  assumes t: "truthy (map_of updates ''category'')"
      and ne: "\<not> strict_eq (map_of updates ''category'') (product ''category'')"
      and names: "truthy (product ''category'') \<longrightarrow>
                    toString (map_of updates ''category'') \<noteq> toString (product ''category'')"
  shows "\<exists>t1. product_category_step productId updates product d = (Inr (), commit t1 d)
           \<and> map_of t1 (category_index_key (toString (map_of updates ''category'')) productId)
               = Some (index_item (''CATEGORY#'' @ toString (map_of updates ''category''))
                                  (''PRODUCT#'' @ productId) productId)
           \<and> (truthy (product ''category'') \<longrightarrow>
                map_of t1 (category_index_key (toString (product ''category'')) productId) = None)
           \<and> (\<forall>k. k \<noteq> category_index_key (toString (map_of updates ''category'')) productId
                  \<and> \<not> (truthy (product ''category'')
                         \<and> k = category_index_key (toString (product ''category'')) productId)
                  \<longrightarrow> map_of t1 k = map_of (tbl d) k)"
proof (cases "truthy (product ''category'')")
  case True
  with names have "category_index_key (toString (map_of updates ''category'')) productId
                     \<noteq> category_index_key (toString (product ''category'')) productId"
    by (simp add: category_index_key_def)
  with True t ne names show ?thesis
    by (intro exI [of _ "AList.update (category_index_key (toString (map_of updates ''category'')) productId)
                        (index_item (''CATEGORY#'' @ toString (map_of updates ''category''))
                                    (''PRODUCT#'' @ productId) productId)
                        (AList.delete (category_index_key (toString (product ''category'')) productId)
                           (tbl d))"])
       (simp add: category_step_transaction AList.update_conv' AList.delete_conv' del: append.simps)
next
  case False
  with t ne show ?thesis
    by (intro exI [of _ "AList.update (category_index_key (toString (map_of updates ''category'')) productId)
                        (index_item (''CATEGORY#'' @ toString (map_of updates ''category''))
                                    (''PRODUCT#'' @ productId) productId) (tbl d)"])
       (simp add: category_step_put AList.update_conv' del: append.simps)
qed

text \<open>
  C1 (as the code has it). When the owner's patch carries a truthy category that differs
  from the stored one (and names another index key), \<open>update\<close> first commits one write
  that holds every change to the category index at once: the new index record is there and
  the old one, if the product had a category, is gone, and nothing else has changed, so the
  primary record still has its old category. The patch of the primary record is a second
  request, issued after that write: whatever becomes of it, the first write stays, and no
  record other than the primary record changes any more. When the store accepts the patch,
  the second write follows and gives the primary record the category of the patch.
\<close>

theorem product_update_category_two_writes:
  assumes prim: "stored d (product_key productId) = Some product"
      and owner: "strict_eq (product ''userId'') (Some (JStr userId))"
      and t: "truthy (map_of updates ''category'')"
      and ne: "\<not> strict_eq (map_of updates ''category'') (product ''category'')"
      and names: "truthy (product ''category'') \<longrightarrow>
                    toString (map_of updates ''category'') \<noteq> toString (product ''category'')"
  shows "\<exists>t1. map_of t1 (category_index_key (toString (map_of updates ''category'')) productId)
               = Some (index_item (''CATEGORY#'' @ toString (map_of updates ''category''))
                                  (''PRODUCT#'' @ productId) productId)
           \<and> (truthy (product ''category'') \<longrightarrow>
                map_of t1 (category_index_key (toString (product ''category'')) productId) = None)
           \<and> (\<forall>k. k \<noteq> category_index_key (toString (map_of updates ''category'')) productId
                  \<and> \<not> (truthy (product ''category'')
                         \<and> k = category_index_key (toString (product ''category'')) productId)
                  \<longrightarrow> map_of t1 k = stored d k)
           \<and> (\<exists>rest. commits (snd (ProductModel_update productId updates userId now d))
                        = commits d @ t1 # rest)
           \<and> (\<forall>k. k \<noteq> product_key productId \<longrightarrow>
                  stored (snd (ProductModel_update productId updates userId now d)) k = map_of t1 k)
           \<and> (patch_accepted product_patchable updates \<longrightarrow>
                (\<exists>d' new. ProductModel_update productId updates userId now d = (Inr new, d')
                   \<and> commits d' = commits d @ [t1, tbl d']
                   \<and> stored d' (product_key productId) = Some new
                   \<and> new ''category'' = map_of updates ''category''))"
proof -
  from category_step_changes [where updates = updates and product = product
          and productId = productId and d = d] t ne names
  obtain t1 where step: "product_category_step productId updates product d = (Inr (), commit t1 d)"
    and new_idx: "map_of t1 (category_index_key (toString (map_of updates ''category'')) productId)
               = Some (index_item (''CATEGORY#'' @ toString (map_of updates ''category''))
                                  (''PRODUCT#'' @ productId) productId)"
    and old_idx: "truthy (product ''category'') \<longrightarrow>
                map_of t1 (category_index_key (toString (product ''category'')) productId) = None"
    and frame: "\<forall>k. k \<noteq> category_index_key (toString (map_of updates ''category'')) productId
                  \<and> \<not> (truthy (product ''category'')
                         \<and> k = category_index_key (toString (product ''category'')) productId)
                  \<longrightarrow> map_of t1 k = map_of (tbl d) k"
    by blast
  from frame have "map_of t1 (product_key productId) = map_of (tbl d) (product_key productId)"
    using keys_distinct by blast
  with prim have prim1: "stored (commit t1 d) (product_key productId) = Some product"
    by (simp add: stored_def)
  let ?run = "ProductModel_update productId updates userId now d"
  let ?ok = "update_expression_ok (fst (product_update_expression now updates))
               (snd (product_update_expression now updates))"
  let ?new = "product_patched now updates product"
  let ?d' = "commit (AList.update (product_key productId) ?new t1) (commit t1 d)"
  have accepted: "?run = (Inr ?new, ?d')" if ?ok
    using that prim owner step prim1
    by (simp add: ProductModel_update_def findById_eq product_primary_update del: append.simps)
  have rejected: "?run = (Inl ValidationException, commit t1 d)" if "\<not> ?ok"
    using that prim owner step prim1
    by (simp add: ProductModel_update_def findById_eq product_primary_rejected del: append.simps)
  have log: "\<exists>rest. commits (snd ?run) = commits d @ t1 # rest"
    using accepted rejected by (cases ?ok) simp_all
  have others: "\<forall>k. k \<noteq> product_key productId \<longrightarrow> stored (snd ?run) k = map_of t1 k"
    using accepted rejected by (cases ?ok) (simp_all add: AList.update_conv')
  have second: "\<exists>d' new. ?run = (Inr new, d')
                   \<and> commits d' = commits d @ [t1, tbl d']
                   \<and> stored d' (product_key productId) = Some new
                   \<and> new ''category'' = map_of updates ''category''"
    if acc: "patch_accepted product_patchable updates"
  proof -
    from acc have keys: "distinct (map fst updates)"
      by (simp add: patch_accepted_def)
    from acc have ?ok
      by (rule product_expression_ok)
    then have run: "?run = (Inr ?new, ?d')"
      by (rule accepted)
    from t obtain v where v: "map_of updates ''category'' = Some v"
      by (cases "map_of updates ''category''") simp_all
    then have "(''category'', v) \<in> set updates"
      by (rule map_of_SomeD)
    with keys have cat: "?new ''category'' = map_of updates ''category''"
      by (simp add: v product_patched_entry product_patchable_def)
    have "commits ?d' = commits d @ [t1, tbl ?d']"
      by simp
    moreover have "stored ?d' (product_key productId) = Some ?new"
      by (simp add: AList.update_conv')
    ultimately show ?thesis
      using run cat by (intro exI [of _ ?d'] exI [of _ ?new]) simp
  qed
  from new_idx old_idx frame log others second show ?thesis
    by (intro exI [of _ t1]) (simp add: stored_def)
qed

text \<open>Witness for C1: the product of \<open>u1\<close> moves from \<open>tools\<close> to \<open>toys\<close>.\<close>

theorem product_update_category_two_writes_witness:
  "\<exists>t1 d' new. ProductModel_update ''p1'' [(''category'', JStr ''toys'')] ''u1'' ''t1'' widget_db = (Inr new, d')
      \<and> commits d' = [t1, tbl d']
      \<and> map_of t1 (category_index_key ''toys'' ''p1'')
           = Some (index_item ''CATEGORY#toys'' ''PRODUCT#p1'' ''p1'')
      \<and> map_of t1 (category_index_key ''tools'' ''p1'') = None
      \<and> map_of t1 (product_key ''p1'') = Some widget
      \<and> stored d' (product_key ''p1'') = Some new
      \<and> new ''category'' = Some (JStr ''toys'')"
proof -
  let ?updates = "[(''category'', JStr ''toys'')]"
  let ?run = "ProductModel_update ''p1'' ?updates ''u1'' ''t1'' widget_db"
  have c: "map_of ?updates ''category'' = Some (JStr ''toys'')"
    by simp
  have "\<exists>t1. map_of t1 (category_index_key (toString (map_of ?updates ''category'')) ''p1'')
               = Some (index_item (''CATEGORY#'' @ toString (map_of ?updates ''category''))
                                  (''PRODUCT#'' @ ''p1'') ''p1'')
           \<and> (truthy (widget ''category'') \<longrightarrow>
                map_of t1 (category_index_key (toString (widget ''category'')) ''p1'') = None)
           \<and> (\<forall>k. k \<noteq> category_index_key (toString (map_of ?updates ''category'')) ''p1''
                  \<and> \<not> (truthy (widget ''category'')
                         \<and> k = category_index_key (toString (widget ''category'')) ''p1'')
                  \<longrightarrow> map_of t1 k = stored widget_db k)
           \<and> (\<exists>rest. commits (snd ?run) = commits widget_db @ t1 # rest)
           \<and> (\<forall>k. k \<noteq> product_key ''p1'' \<longrightarrow> stored (snd ?run) k = map_of t1 k)
           \<and> (patch_accepted product_patchable ?updates \<longrightarrow>
                (\<exists>d' new. ?run = (Inr new, d')
                   \<and> commits d' = commits widget_db @ [t1, tbl d']
                   \<and> stored d' (product_key ''p1'') = Some new
                   \<and> new ''category'' = map_of ?updates ''category''))"
    by (rule product_update_category_two_writes) (simp_all add: widget_stored widget_fields)
  then obtain t1 where
        new_idx: "map_of t1 (category_index_key (toString (map_of ?updates ''category'')) ''p1'')
               = Some (index_item (''CATEGORY#'' @ toString (map_of ?updates ''category''))
                                  (''PRODUCT#'' @ ''p1'') ''p1'')"
    and old_idx: "truthy (widget ''category'') \<longrightarrow>
                map_of t1 (category_index_key (toString (widget ''category'')) ''p1'') = None"
    and frame: "\<forall>k. k \<noteq> category_index_key (toString (map_of ?updates ''category'')) ''p1''
                  \<and> \<not> (truthy (widget ''category'')
                         \<and> k = category_index_key (toString (widget ''category'')) ''p1'')
                  \<longrightarrow> map_of t1 k = stored widget_db k"
    and second: "patch_accepted product_patchable ?updates \<longrightarrow>
                (\<exists>d' new. ?run = (Inr new, d')
                   \<and> commits d' = commits widget_db @ [t1, tbl d']
                   \<and> stored d' (product_key ''p1'') = Some new
                   \<and> new ''category'' = map_of ?updates ''category'')"
    by blast
  from second category_patch_accepted obtain d' new where
        run: "?run = (Inr new, d')"
    and log: "commits d' = commits widget_db @ [t1, tbl d']"
    and prim: "stored d' (product_key ''p1'') = Some new"
    and cat: "new ''category'' = map_of ?updates ''category''"
    by blast
  from log have 1: "commits d' = [t1, tbl d']"
    by (simp add: widget_db_def)
  from new_idx have 2: "map_of t1 (category_index_key ''toys'' ''p1'')
           = Some (index_item ''CATEGORY#toys'' ''PRODUCT#p1'' ''p1'')"
    by simp
  from old_idx have 3: "map_of t1 (category_index_key ''tools'' ''p1'') = None"
    by (simp add: widget_fields)
  from frame have "map_of t1 (product_key ''p1'') = stored widget_db (product_key ''p1'')"
    using keys_distinct by blast
  then have 4: "map_of t1 (product_key ''p1'') = Some widget"
    by (simp add: widget_stored)
  from cat have 5: "new ''category'' = Some (JStr ''toys'')"
    by simp
  from run 1 2 3 4 prim 5 show ?thesis by blast
qed

text \<open>
  C1 as stated fails: the index change and the patch of the primary record are not one
  atomic unit. In the example the table agrees before the update, and the state between the
  two writes has the primary record in \<open>tools\<close> and the index record under \<open>toys\<close>.
\<close>

theorem product_update_category_not_atomic:
  "category_agrees ''p1'' (tbl widget_db)
   \<and> \<not> list_all (category_agrees ''p1'')
         (commits (snd (ProductModel_update ''p1'' [(''category'', JStr ''toys'')] ''u1'' ''t1'' widget_db)))"
  by (simp add: category_agrees_def category_index_records_def widget_db_def widget_fields
        ProductModel_update_def findById_eq stored_def
        product_category_step_def dynamoDb_transactWrite_def dynamoDb_update_def
        product_key_def category_index_key_def owner_index_key_def begins_with_def
        commit_def item_key_def key_obj_def index_item_def Let_def product_sets_no_key
        product_expression_ok category_patch_accepted)

text \<open>
  When the store rejects the second request, the first write stays. A patch that renames
  the product and moves it to \<open>toys\<close> is rejected for the reserved word; the index record has
  moved by then, and the primary record keeps the category \<open>tools\<close>.
\<close>

lemma product_update_rejected_after_index_write:
  "fst (ProductModel_update ''p1'' [(''name'', JStr ''Gadget''), (''category'', JStr ''toys'')]
          ''u1'' ''t1'' widget_db) = Inl ValidationException
   \<and> stored (snd (ProductModel_update ''p1'' [(''name'', JStr ''Gadget''), (''category'', JStr ''toys'')]
          ''u1'' ''t1'' widget_db)) (category_index_key ''toys'' ''p1'')
        = Some (index_item ''CATEGORY#toys'' ''PRODUCT#p1'' ''p1'')
   \<and> stored (snd (ProductModel_update ''p1'' [(''name'', JStr ''Gadget''), (''category'', JStr ''toys'')]
          ''u1'' ''t1'' widget_db)) (category_index_key ''tools'' ''p1'') = None
   \<and> stored (snd (ProductModel_update ''p1'' [(''name'', JStr ''Gadget''), (''category'', JStr ''toys'')]
          ''u1'' ''t1'' widget_db)) (product_key ''p1'') = Some widget"
proof -
  let ?updates = "[(''name'', JStr ''Gadget''), (''category'', JStr ''toys'')]"
  have no: "\<not> update_expression_ok (fst (product_update_expression ''t1'' ?updates))
               (snd (product_update_expression ''t1'' ?updates))"
    by (simp add: update_expression_ok_def product_sets product_patchable_def names_reserved)
  have step: "product_category_step ''p1'' ?updates widget widget_db =
     (Inr (), commit (AList.update (category_index_key ''toys'' ''p1'')
                        (index_item ''CATEGORY#toys'' ''PRODUCT#p1'' ''p1'')
                        (AList.delete (category_index_key ''tools'' ''p1'') (tbl widget_db))) widget_db)"
    using category_step_transaction [where updates = ?updates and product = widget
            and productId = "''p1''" and d = widget_db]
    by (simp add: widget_fields)
  have run: "ProductModel_update ''p1'' ?updates ''u1'' ''t1'' widget_db =
     (Inl ValidationException,
      commit (AList.update (category_index_key ''toys'' ''p1'')
                (index_item ''CATEGORY#toys'' ''PRODUCT#p1'' ''p1'')
                (AList.delete (category_index_key ''tools'' ''p1'') (tbl widget_db))) widget_db)"
    using no step
    by (simp add: ProductModel_update_def findById_eq widget_stored widget_fields
          product_primary_rejected del: append.simps)
  have "category_index_key ''toys'' ''p1'' \<noteq> category_index_key ''tools'' ''p1''"
    by (simp add: category_index_key_def)
  then show ?thesis
    unfolding run
    by (simp add: AList.update_conv' AList.delete_conv' widget_stored [unfolded stored_def])
qed

section \<open>What the user adapter returns\<close>

lemma without_password_password [simp]: "without_password it ''password'' = None"
  by (simp add: without_password_def)

lemma user_findById_eq:
  "UserModel_findById userId d = Inr (map_option without_password (stored d (profile_key userId)))"
  by (simp add: UserModel_findById_def dynamoDb_get_def stored_def profile_key_def
      split: option.splits)

lemma user_create_result:
  "UserModel_create h userId now salt userData d = (Inr u, d') \<Longrightarrow>
     \<exists>pw. userData ''password'' = Some (JStr pw)
        \<and> u = without_password (user_item userId now (h pw salt) userData)
        \<and> d' = commit (fold apply_txitem (user_create_items userId now (h pw salt) userData) (tbl d)) d"
  by (auto simp add: UserModel_create_def bcrypt_hash_def dynamoDb_transactWrite_def
      split: option.splits jsval.splits if_splits sum.splits prod.splits)

lemma user_create_stored:
  "map_of (fold apply_txitem (user_create_items userId now hashed userData) t) (profile_key userId)
     = Some (user_item userId now hashed userData)"
  by (simp add: user_create_items_def item_key_def user_item_def index_item_def
        AList.update_conv' profile_key_def)

lemma user_item_password: "user_item userId now hashed userData ''password'' = Some (JStr hashed)"
  by (simp add: user_item_def)

lemma findByEmail_rejected: "UserModel_findByEmail email d = Inl ValidationException"
  by (simp add: UserModel_findByEmail_def dynamoDb_get_def item_key_def)

lemma alice_runs:
  "\<exists>u d'. UserModel_create example_hash ''u1'' ''t0'' ''s'' alice_data empty_db = (Inr u, d')"
  "\<exists>u. UserModel_findById ''u1'' alice_db = Inr (Some u)"
  "\<exists>u d'. UserModel_update example_hash ''u1'' [(''firstName'', JStr ''Al''), (''password'', JStr ''new'')]
             ''t1'' ''s2'' alice_db = (Inr u, d')"
  "\<exists>u. UserModel_validateCredentials example_compare (Some (JStr ''a@x.com'')) (Some (JStr ''secret''))
          alice_db = Inr (Some u)"
proof -
  show "\<exists>u d'. UserModel_create example_hash ''u1'' ''t0'' ''s'' alice_data empty_db = (Inr u, d')"
    by (simp add: UserModel_create_def bcrypt_hash_def alice_data_def dynamoDb_transactWrite_def
          user_create_items_def item_key_def user_item_def index_item_def empty_db_def)
  show "\<exists>u. UserModel_findById ''u1'' alice_db = Inr (Some u)"
    by (simp add: user_findById_eq stored_def alice_db_def)
  show "\<exists>u d'. UserModel_update example_hash ''u1'' [(''firstName'', JStr ''Al''), (''password'', JStr ''new'')]
             ''t1'' ''s2'' alice_db = (Inr u, d')"
    by (simp add: UserModel_update_def user_findById_eq stored_def alice_db_def
          user_password_step_def bcrypt_hash_def user_patch_loop_def user_patch_entry_def
          user_patchable_def dynamoDb_update_def profile_key_def Let_def
          update_expression_ok_def names_ok placeholders_ok)
  show "\<exists>u. UserModel_validateCredentials example_compare (Some (JStr ''a@x.com'')) (Some (JStr ''secret''))
          alice_db = Inr (Some u)"
    by (simp add: UserModel_validateCredentials_def dynamoDb_query_def dynamoDb_get_def alice_db_def
          profile_key_def email_index_key_def index_item_def alice_def user_item_def
          bcrypt_compare_def example_compare_def example_hash_def)
qed

text \<open>
  C6. Whatever \<open>create\<close>, \<open>findById\<close>, \<open>findByEmail\<close>, \<open>update\<close> and
  \<open>validateCredentials\<close> of the user adapter return as a user has no \<^verbatim>\<open>password\<close>
  property, although the profile record that \<open>create\<close> stores carries the hash. (The
  request of \<open>findByEmail\<close> is rejected, see \<open>findByEmail_rejected\<close>, so it returns
  no user at all; the statement about it does not depend on that.)
\<close>

theorem user_results_never_carry_password:
  "(\<forall>u d'. UserModel_create h userId now salt userData d = (Inr u, d') \<longrightarrow>
       u ''password'' = None
       \<and> (\<exists>it pw. stored d' (profile_key userId) = Some it \<and> it ''password'' = Some (JStr (h pw salt))
                  \<and> userData ''password'' = Some (JStr pw)))
 \<and> (\<forall>u. UserModel_findById userId d = Inr (Some u) \<longrightarrow> u ''password'' = None)
 \<and> (\<forall>u. UserModel_findByEmail email d = Inr (Some u) \<longrightarrow> u ''password'' = None)
 \<and> (\<forall>u d'. UserModel_update h userId updates now salt d = (Inr u, d') \<longrightarrow> u ''password'' = None)
 \<and> (\<forall>u. UserModel_validateCredentials cmp email password d = Inr (Some u) \<longrightarrow>
       u ''password'' = None)"
proof (intro conjI allI impI)
  fix u d' assume "UserModel_create h userId now salt userData d = (Inr u, d')"
  from user_create_result [OF this] obtain pw where
    pw: "userData ''password'' = Some (JStr pw)"
    and u: "u = without_password (user_item userId now (h pw salt) userData)"
    and d': "d' = commit (fold apply_txitem (user_create_items userId now (h pw salt) userData) (tbl d)) d"
    by blast
  from u show "u ''password'' = None" by simp
  from d' have "stored d' (profile_key userId) = Some (user_item userId now (h pw salt) userData)"
    by (simp add: user_create_stored)
  with pw show "\<exists>it pw. stored d' (profile_key userId) = Some it \<and> it ''password'' = Some (JStr (h pw salt))
                  \<and> userData ''password'' = Some (JStr pw)"
    by (simp add: user_item_password)
next
  fix u assume "UserModel_findById userId d = Inr (Some u)"
  then show "u ''password'' = None"
    by (auto simp add: user_findById_eq)
next
  fix u assume "UserModel_findByEmail email d = Inr (Some u)"
  then show "u ''password'' = None"
    by (auto simp add: UserModel_findByEmail_def user_findById_eq split: sum.splits option.splits)
next
  fix u d' assume "UserModel_update h userId updates now salt d = (Inr u, d')"
  then show "u ''password'' = None"
    by (auto simp add: UserModel_update_def split: sum.splits option.splits prod.splits)
next
  fix u assume "UserModel_validateCredentials cmp email password d = Inr (Some u)"
  then show "u ''password'' = None"
    by (auto simp add: UserModel_validateCredentials_def
        split: sum.splits option.splits list.splits if_splits)
qed

theorem user_results_never_carry_password_witness:
  "(\<exists>u d'. UserModel_create example_hash ''u1'' ''t0'' ''s'' alice_data empty_db = (Inr u, d')
       \<and> u ''password'' = None
       \<and> (\<exists>it pw. stored d' (profile_key ''u1'') = Some it
              \<and> it ''password'' = Some (JStr (example_hash pw ''s''))))
 \<and> (\<exists>u. UserModel_findById ''u1'' alice_db = Inr (Some u) \<and> u ''password'' = None)
 \<and> (\<exists>u d'. UserModel_update example_hash ''u1'' [(''firstName'', JStr ''Al''), (''password'', JStr ''new'')]
             ''t1'' ''s2'' alice_db = (Inr u, d') \<and> u ''password'' = None)
 \<and> (\<exists>u. UserModel_validateCredentials example_compare (Some (JStr ''a@x.com'')) (Some (JStr ''secret''))
          alice_db = Inr (Some u) \<and> u ''password'' = None)"
proof -
  note create = user_results_never_carry_password [where h = example_hash and userId = "''u1''"
      and now = "''t0''" and salt = "''s''" and userData = alice_data and d = empty_db
      and updates = "[]" and email = None and password = None and cmp = example_compare]
  note other = user_results_never_carry_password [where h = example_hash and userId = "''u1''"
      and now = "''t1''" and salt = "''s2''" and d = alice_db and cmp = example_compare
      and updates = "[(''firstName'', JStr ''Al''), (''password'', JStr ''new'')]"
      and email = "Some (JStr ''a@x.com'')" and password = "Some (JStr ''secret'')"
      and userData = alice_data]
  from alice_runs(1) obtain u1 d1 where
    r1: "UserModel_create example_hash ''u1'' ''t0'' ''s'' alice_data empty_db = (Inr u1, d1)"
    by blast
  with create have p1: "u1 ''password'' = None
       \<and> (\<exists>it pw. stored d1 (profile_key ''u1'') = Some it
              \<and> it ''password'' = Some (JStr (example_hash pw ''s'')))"
    by blast
  from alice_runs(2) obtain u2 where r2: "UserModel_findById ''u1'' alice_db = Inr (Some u2)"
    by blast
  with other have p2: "u2 ''password'' = None"
    by blast
  from alice_runs(3) obtain u3 d3 where
    r3: "UserModel_update example_hash ''u1'' [(''firstName'', JStr ''Al''), (''password'', JStr ''new'')]
             ''t1'' ''s2'' alice_db = (Inr u3, d3)"
    by blast
  with other have p3: "u3 ''password'' = None"
    by blast
  from alice_runs(4) obtain u4 where
    r4: "UserModel_validateCredentials example_compare (Some (JStr ''a@x.com'')) (Some (JStr ''secret''))
          alice_db = Inr (Some u4)"
    by blast
  with other have p4: "u4 ''password'' = None"
    by blast
  from r1 p1 r2 p2 r3 p3 r4 p4 show ?thesis
    by blast
qed

section \<open>Protected fields\<close>

lemma category_step_keeps_primary:
  "stored (snd (product_category_step productId updates product d)) (product_key p)
     = stored d (product_key p)"
  by (simp add: product_category_step_def dynamoDb_transactWrite_def dynamoDb_put_def Let_def
        AList.update_conv' AList.delete_conv' category_index_key_def [symmetric] del: append.simps)
     (simp add: stored_def)

lemma product_update_primary:
  "stored (snd (ProductModel_update productId updates userId now d)) (product_key productId)
     = stored d (product_key productId)
   \<or> (\<exists>product. stored d (product_key productId) = Some product
         \<and> stored (snd (ProductModel_update productId updates userId now d)) (product_key productId)
             = Some (product_patched now updates product))"
proof (cases "stored d (product_key productId)")
  case None
  then show ?thesis by (simp add: ProductModel_update_def findById_eq)
next
  case (Some product)
  obtain r d1 where step: "product_category_step productId updates product d = (r, d1)"
    by (cases "product_category_step productId updates product d")
  have d1: "stored d1 (product_key productId) = Some product"
    using category_step_keeps_primary [of productId updates product d productId] step Some by simp
  show ?thesis
  proof (cases "strict_eq (product ''userId'') (Some (JStr userId))")
    case False
    with Some show ?thesis by (simp add: ProductModel_update_def findById_eq)
  next
    case owner: True
    show ?thesis
    proof (cases r)
      case (Inl e)
      with Some owner step d1 show ?thesis
        by (simp add: ProductModel_update_def findById_eq)
    next
      case written: (Inr u)
      show ?thesis
      proof (cases "update_expression_ok (fst (product_update_expression now updates))
                      (snd (product_update_expression now updates))")
        case True
        with Some owner written step d1 show ?thesis
          by (simp add: ProductModel_update_def findById_eq product_primary_update AList.update_conv'
              del: append.simps)
      next
        case False
        with Some owner written step d1 show ?thesis
          by (simp add: ProductModel_update_def findById_eq product_primary_rejected
              del: append.simps)
      qed
    qed
  qed
qed

lemma product_update_protected:
  assumes "\<not> product_patchable a"
  shows "stored_field (snd (ProductModel_update productId updates userId now d)) (product_key productId) a
           = stored_field d (product_key productId) a"
  using product_update_primary [of productId updates userId now d] assms
  by (auto simp add: stored_field_def product_patched_protected)

lemma user_fold_patch_fst:
  "fst (fold user_patch_entry updates acc) =
     fst acc @ map (\<lambda>kv. (fst kv, '':'' @ fst kv)) (filter (\<lambda>kv. user_patchable (fst kv)) updates)"
  by (induction updates arbitrary: acc) (simp_all add: user_patch_entry_def)

lemma user_sets:
  "fst (user_patch_loop now updates) =
     (''updatedAt'', '':updatedAt'') #
       map (\<lambda>kv. (fst kv, '':'' @ fst kv)) (filter (\<lambda>kv. user_patchable (fst kv)) updates)"
  by (simp add: user_patch_loop_def user_fold_patch_fst)

lemma user_loop_protected:
  "\<not> user_patchable a \<Longrightarrow> a \<notin> fst ` set (fst (user_patch_loop now updates))"
  by (auto simp add: user_sets user_patchable_def)

lemma user_password_step_cases:
  "user_password_step h salt updates acc = Inr expr \<Longrightarrow>
     (\<not> truthy (map_of updates ''password'') \<and> expr = acc)
   \<or> (\<exists>pw. map_of updates ''password'' = Some (JStr pw) \<and> pw \<noteq> []
          \<and> expr = (fst acc @ [(''password'', '':password'')],
                    (snd acc)('':password'' \<mapsto> JStr (h pw salt))))"
  by (auto simp add: user_password_step_def bcrypt_hash_def
      split: if_splits option.splits jsval.splits)

lemma user_update_primary:
  "stored (snd (UserModel_update h userId updates now salt d)) (profile_key userId)
     = stored d (profile_key userId)
   \<or> (\<exists>user expr. stored d (profile_key userId) = Some user
         \<and> user_password_step h salt updates (user_patch_loop now updates) = Inr expr
         \<and> stored (snd (UserModel_update h userId updates now salt d)) (profile_key userId)
             = Some (fold (assign (snd expr)) (fst expr) user))"
  by (auto simp add: UserModel_update_def user_findById_eq dynamoDb_update_def Let_def
        profile_key_def [symmetric] stored_def [symmetric] AList.update_conv'
      split: option.splits sum.splits simp del: append.simps)

lemma user_update_protected:
  assumes "\<not> user_patchable a" "a \<noteq> ''password''"
  shows "stored_field (snd (UserModel_update h userId updates now salt d)) (profile_key userId) a
           = stored_field d (profile_key userId) a"
proof -
  from user_update_primary [of h userId updates now salt d]
  consider "stored (snd (UserModel_update h userId updates now salt d)) (profile_key userId)
              = stored d (profile_key userId)"
    | user expr where "stored d (profile_key userId) = Some user"
        "user_password_step h salt updates (user_patch_loop now updates) = Inr expr"
        "stored (snd (UserModel_update h userId updates now salt d)) (profile_key userId)
             = Some (fold (assign (snd expr)) (fst expr) user)"
    by blast
  then show ?thesis
  proof cases
    case 1
    then show ?thesis by (simp add: stored_field_def)
  next
    case 2
    have "a \<notin> fst ` set (fst (user_patch_loop now updates))"
      using assms(1) by (rule user_loop_protected)
    with user_password_step_cases [OF 2(2)] assms
    have "a \<notin> fst ` set (fst expr)"
      by auto
    then have "fold (assign (snd expr)) (fst expr) user a = user a"
      by (rule fold_assign_frame)
    with 2 show ?thesis by (simp add: stored_field_def)
  qed
qed

lemma user_update_password:
  "stored_field (snd (UserModel_update h userId updates now salt d)) (profile_key userId) ''password''
      = stored_field d (profile_key userId) ''password''
   \<or> (\<exists>pw. map_of updates ''password'' = Some (JStr pw) \<and> pw \<noteq> []
         \<and> stored_field (snd (UserModel_update h userId updates now salt d)) (profile_key userId)
               ''password'' = Some (JStr (h pw salt)))"
proof -
  from user_update_primary [of h userId updates now salt d]
  consider "stored (snd (UserModel_update h userId updates now salt d)) (profile_key userId)
              = stored d (profile_key userId)"
    | user expr where "stored d (profile_key userId) = Some user"
        "user_password_step h salt updates (user_patch_loop now updates) = Inr expr"
        "stored (snd (UserModel_update h userId updates now salt d)) (profile_key userId)
             = Some (fold (assign (snd expr)) (fst expr) user)"
    by blast
  then show ?thesis
  proof cases
    case 1
    then show ?thesis by (simp add: stored_field_def)
  next
    case 2
    from user_password_step_cases [OF 2(2)]
    consider "expr = user_patch_loop now updates"
      | pw where "map_of updates ''password'' = Some (JStr pw)" "pw \<noteq> []"
          "expr = (fst (user_patch_loop now updates) @ [(''password'', '':password'')],
                   (snd (user_patch_loop now updates))('':password'' \<mapsto> JStr (h pw salt)))"
      by blast
    then show ?thesis
    proof cases
      case 1
      have "''password'' \<notin> fst ` set (fst (user_patch_loop now updates))"
        by (rule user_loop_protected) (simp add: user_patchable_def)
      then have "fold (assign (snd expr)) (fst expr) user ''password'' = user ''password''"
        unfolding 1 by (rule fold_assign_frame)
      with 2 show ?thesis by (simp add: stored_field_def)
    next
      case 2
      have "fold (assign (snd expr)) (fst expr) user ''password'' = Some (JStr (h pw salt))"
        unfolding 2 by (simp add: assign_def)
      with 2 \<open>stored (snd (UserModel_update h userId updates now salt d)) (profile_key userId)
             = Some (fold (assign (snd expr)) (fst expr) user)\<close>
      show ?thesis by (simp add: stored_field_def)
    qed
  qed
qed

lemma widget_repriced:
  "stored_field (snd (ProductModel_update ''p1'' [(''id'', JStr ''evil''), (''price'', JNum 5)]
                        ''u1'' ''t1'' widget_db)) (product_key ''p1'') ''price'' = Some (JNum 5)"
proof -
  have "patch_accepted product_patchable [(''id'', JStr ''evil''), (''price'', JNum 5)]"
    by (simp add: patch_accepted_def product_patchable_def names_ok)
  then show ?thesis
    by (simp add: update_skip_category widget_stored widget_fields stored_field_def
          AList.update_conv' product_patched_entry product_patchable_def product_expression_ok)
qed

lemma alice_renamed:
  "stored_field (snd (UserModel_update example_hash ''u1''
                        [(''email'', JStr ''evil@x.com''), (''firstName'', JStr ''Al''), (''password'', JStr ''new'')]
                        ''t1'' ''s2'' alice_db)) (profile_key ''u1'') ''firstName'' = Some (JStr ''Al'')"
  "stored_field (snd (UserModel_update example_hash ''u1''
                        [(''email'', JStr ''evil@x.com''), (''firstName'', JStr ''Al''), (''password'', JStr ''new'')]
                        ''t1'' ''s2'' alice_db)) (profile_key ''u1'') ''password''
     = Some (JStr (example_hash ''new'' ''s2''))"
  by (simp_all add: stored_field_def UserModel_update_def user_findById_eq stored_def alice_db_def
        user_password_step_def user_patch_loop_def user_patch_entry_def bcrypt_hash_def
        user_patchable_def dynamoDb_update_def profile_key_def email_index_key_def Let_def
        assign_def commit_def alice_def user_item_def item_key_def key_obj_def
        update_expression_ok_def names_ok placeholders_ok)

text \<open>The role of a user is a reserved word too: a patch that names it is rejected.\<close>

lemma user_role_patch_rejected:
  "UserModel_update example_hash ''u1'' [(''role'', JStr ''admin'')] ''t1'' ''s2'' alice_db
     = (Inl ValidationException, alice_db)"
  by (simp add: UserModel_update_def user_findById_eq stored_def alice_db_def
        user_password_step_def user_patch_loop_def user_patch_entry_def
        user_patchable_def dynamoDb_update_def profile_key_def email_index_key_def
        item_key_def key_obj_def update_expression_ok_def names_reserved)

lemma example_fields:
  "stored_field widget_db (product_key ''p1'') ''id'' = Some (JStr ''p1'')"
  "stored_field alice_db (profile_key ''u1'') ''email'' = Some (JStr ''a@x.com'')"
proof -
  show "stored_field widget_db (product_key ''p1'') ''id'' = Some (JStr ''p1'')"
    by (simp add: stored_field_def widget_stored widget_fields)
  show "stored_field alice_db (profile_key ''u1'') ''email'' = Some (JStr ''a@x.com'')"
    by (simp add: stored_field_def stored_def alice_db_def alice_def user_item_def alice_data_def)
qed

text \<open>
  What the guards of the two loops protect. Whatever the patch holds and whatever becomes of
  the request, \<open>ProductModel.update\<close> leaves the stored \<^verbatim>\<open>id\<close>, \<^verbatim>\<open>userId\<close> and
  \<^verbatim>\<open>createdAt\<close> of the product as they were, and \<open>UserModel.update\<close> leaves the stored
  \<^verbatim>\<open>id\<close> and \<^verbatim>\<open>email\<close> of the user as they were. The loop over the patch of a user never
  assigns \<^verbatim>\<open>password\<close>: the stored password either stays, or becomes the hash of the
  non-empty string the patch gives, through the password step.
\<close>

lemma update_keeps_protected_fields:
  "(a = ''id'' \<or> a = ''userId'' \<or> a = ''createdAt'' \<longrightarrow>
      stored_field (snd (ProductModel_update productId updates userId now d)) (product_key productId) a
        = stored_field d (product_key productId) a)
 \<and> (b = ''id'' \<or> b = ''email'' \<longrightarrow>
      stored_field (snd (UserModel_update h userId' updates' now salt d)) (profile_key userId') b
        = stored_field d (profile_key userId') b)
 \<and> ''password'' \<notin> fst ` set (fst (user_patch_loop now updates'))
 \<and> (stored_field (snd (UserModel_update h userId' updates' now salt d)) (profile_key userId') ''password''
        = stored_field d (profile_key userId') ''password''
     \<or> (\<exists>pw. map_of updates' ''password'' = Some (JStr pw) \<and> pw \<noteq> []
           \<and> stored_field (snd (UserModel_update h userId' updates' now salt d)) (profile_key userId')
                 ''password'' = Some (JStr (h pw salt))))"
proof (intro conjI impI)
  assume "a = ''id'' \<or> a = ''userId'' \<or> a = ''createdAt''"
  then have "\<not> product_patchable a"
    by (auto simp add: product_patchable_def)
  then show "stored_field (snd (ProductModel_update productId updates userId now d)) (product_key productId) a
        = stored_field d (product_key productId) a"
    by (rule product_update_protected)
next
  assume "b = ''id'' \<or> b = ''email''"
  then have "\<not> user_patchable b" "b \<noteq> ''password''"
    by (auto simp add: user_patchable_def)
  then show "stored_field (snd (UserModel_update h userId' updates' now salt d)) (profile_key userId') b
        = stored_field d (profile_key userId') b"
    by (rule user_update_protected)
next
  show "''password'' \<notin> fst ` set (fst (user_patch_loop now updates'))"
    by (rule user_loop_protected) (simp add: user_patchable_def)
next
  show "stored_field (snd (UserModel_update h userId' updates' now salt d)) (profile_key userId') ''password''
        = stored_field d (profile_key userId') ''password''
     \<or> (\<exists>pw. map_of updates' ''password'' = Some (JStr pw) \<and> pw \<noteq> []
           \<and> stored_field (snd (UserModel_update h userId' updates' now salt d)) (profile_key userId')
                 ''password'' = Some (JStr (h pw salt)))"
    by (rule user_update_password)
qed

text \<open>A patch that supplies the protected fields along with others: the others are
  written, the protected ones stay.\<close>

lemma update_keeps_protected_fields_example:
  "stored_field (snd (ProductModel_update ''p1'' [(''id'', JStr ''evil''), (''price'', JNum 5)]
                        ''u1'' ''t1'' widget_db)) (product_key ''p1'') ''id'' = Some (JStr ''p1'')
 \<and> stored_field (snd (ProductModel_update ''p1'' [(''id'', JStr ''evil''), (''price'', JNum 5)]
                        ''u1'' ''t1'' widget_db)) (product_key ''p1'') ''price'' = Some (JNum 5)
 \<and> stored_field (snd (UserModel_update example_hash ''u1''
                        [(''email'', JStr ''evil@x.com''), (''firstName'', JStr ''Al''), (''password'', JStr ''new'')]
                        ''t1'' ''s2'' alice_db)) (profile_key ''u1'') ''email'' = Some (JStr ''a@x.com'')
 \<and> stored_field (snd (UserModel_update example_hash ''u1''
                        [(''email'', JStr ''evil@x.com''), (''firstName'', JStr ''Al''), (''password'', JStr ''new'')]
                        ''t1'' ''s2'' alice_db)) (profile_key ''u1'') ''firstName'' = Some (JStr ''Al'')
 \<and> stored_field (snd (UserModel_update example_hash ''u1''
                        [(''email'', JStr ''evil@x.com''), (''firstName'', JStr ''Al''), (''password'', JStr ''new'')]
                        ''t1'' ''s2'' alice_db)) (profile_key ''u1'') ''password''
      = Some (JStr (example_hash ''new'' ''s2''))"
  using update_keeps_protected_fields [where a = "''id''" and b = "''email''"
      and productId = "''p1''" and updates = "[(''id'', JStr ''evil''), (''price'', JNum 5)]"
      and userId = "''u1''" and now = "''t1''" and d = widget_db]
    update_keeps_protected_fields [where a = "''id''" and b = "''email''"
      and h = example_hash and userId' = "''u1''" and salt = "''s2''" and now = "''t1''" and d = alice_db
      and updates' = "[(''email'', JStr ''evil@x.com''), (''firstName'', JStr ''Al''), (''password'', JStr ''new'')]"]
  by (simp add: widget_repriced alice_renamed example_fields)

lemma createdAt_patch_accepted:
  "patch_accepted product_patchable [(''createdAt'', v)]"
  by (simp add: patch_accepted_def product_patchable_def)

text \<open>
  C3 fails for the creation timestamp of a user. The guard of \<open>ProductModel.update\<close> keeps
  \<^verbatim>\<open>createdAt\<close> out of the expression, the guard of \<open>UserModel.update\<close> names
  \<^verbatim>\<open>id\<close>, \<^verbatim>\<open>email\<close> and \<^verbatim>\<open>password\<close> only. The patch
  \<^verbatim>\<open>{createdAt: "1999"}\<close> is accepted by both updates: it leaves the creation timestamp
  of the product as it was, and overwrites the one of the user.
\<close>

theorem user_update_overwrites_createdAt:
  "stored_field alice_db (profile_key ''u1'') ''createdAt'' = Some (JStr ''t0'')
 \<and> (\<exists>u d'. UserModel_update example_hash ''u1'' [(''createdAt'', JStr ''1999'')] ''t1'' ''s2'' alice_db
              = (Inr u, d')
          \<and> u ''createdAt'' = Some (JStr ''1999'')
          \<and> stored_field d' (profile_key ''u1'') ''createdAt'' = Some (JStr ''1999''))
 \<and> stored_field widget_db (product_key ''p1'') ''createdAt'' = Some (JStr ''t0'')
 \<and> (\<exists>p d'. ProductModel_update ''p1'' [(''createdAt'', JStr ''1999'')] ''u1'' ''t1'' widget_db
              = (Inr p, d')
          \<and> p ''createdAt'' = Some (JStr ''t0'')
          \<and> stored_field d' (product_key ''p1'') ''createdAt'' = Some (JStr ''t0''))"
proof (intro conjI)
  show "stored_field alice_db (profile_key ''u1'') ''createdAt'' = Some (JStr ''t0'')"
    by (simp add: stored_field_def stored_def alice_db_def alice_def user_item_def)
  show "\<exists>u d'. UserModel_update example_hash ''u1'' [(''createdAt'', JStr ''1999'')] ''t1'' ''s2'' alice_db
              = (Inr u, d')
          \<and> u ''createdAt'' = Some (JStr ''1999'')
          \<and> stored_field d' (profile_key ''u1'') ''createdAt'' = Some (JStr ''1999'')"
    by (simp add: stored_field_def UserModel_update_def user_findById_eq stored_def alice_db_def
          user_password_step_def user_patch_loop_def user_patch_entry_def
          user_patchable_def dynamoDb_update_def profile_key_def email_index_key_def Let_def
          assign_def commit_def alice_def user_item_def item_key_def key_obj_def
          update_expression_ok_def names_ok placeholders_ok without_password_def)
  show "stored_field widget_db (product_key ''p1'') ''createdAt'' = Some (JStr ''t0'')"
    by (simp add: stored_field_def widget_stored widget_def product_item_def)
  show "\<exists>p d'. ProductModel_update ''p1'' [(''createdAt'', JStr ''1999'')] ''u1'' ''t1'' widget_db
              = (Inr p, d')
          \<and> p ''createdAt'' = Some (JStr ''t0'')
          \<and> stored_field d' (product_key ''p1'') ''createdAt'' = Some (JStr ''t0'')"
    by (simp add: update_skip_category widget_stored widget_fields stored_field_def
          AList.update_conv' product_expression_ok createdAt_patch_accepted
          product_patched_protected product_patchable_def widget_def product_item_def)
qed

section \<open>Creating a user or a product\<close>

lemma well_keyed_stored:
  "well_keyed d \<Longrightarrow> stored d k = Some it \<Longrightarrow> item_key it = Some k"
proof -
  assume wk: "well_keyed d" and st: "stored d k = Some it"
  from st have "(k, it) \<in> set (tbl d)"
    by (simp add: stored_def map_of_SomeD)
  with wk show "item_key it = Some k"
    by (force simp add: well_keyed_def list_all_iff)
qed

lemma item_key_attrs:
  "item_key it = Some k \<Longrightarrow> it ''pk'' = Some (JStr (fst k)) \<and> it ''sk'' = Some (JStr (snd k))"
  by (auto simp add: item_key_def split: option.splits jsval.splits)

lemma not_exists_fails:
  assumes "well_keyed d" "stored d k = Some old" "item_key it = Some k" "''pk'' \<in> set as"
  shows "\<not> cond_ok (tbl d) (Put it (Some (attribute_not_exists as)))"
proof -
  from well_keyed_stored [OF assms(1,2)] have "old ''pk'' \<noteq> None"
    by (auto dest: item_key_attrs)
  with assms show ?thesis
    by (auto simp add: stored_def list_all_iff)
qed

lemma not_exists_holds:
  "stored d k = None \<Longrightarrow> item_key it = Some k \<Longrightarrow> cond_ok (tbl d) (Put it c)"
proof (cases c)
  case None
  then show ?thesis by simp
next
  case (Some a)
  assume "stored d k = None" "item_key it = Some k"
  with Some show ?thesis by (cases a) (simp add: stored_def)
qed

lemma item_key_product_item [simp]:
  "item_key (product_item productId now productData userId) = Some (product_key productId)"
  by (simp add: item_key_def product_item_def product_key_def)

lemma item_key_user_item [simp]:
  "item_key (user_item userId now hashed userData) = Some (profile_key userId)"
  by (simp add: item_key_def user_item_def profile_key_def)

lemma user_keys_distinct [simp]:
  "profile_key u \<noteq> email_index_key e v" "email_index_key e v \<noteq> profile_key u"
  by (simp_all add: profile_key_def email_index_key_def)

lemma product_create_items_keys:
  "map txitem_key (product_create_items productId now productData userId) =
     [Some (product_key productId), Some (owner_index_key userId productId)]
     @ (if truthy (productData ''category'')
        then [Some (category_index_key (toString (productData ''category'')) productId)] else [])"
  by (simp add: product_create_items_def owner_index_key_def category_index_key_def)

lemma product_create_cancelled:
  assumes wk: "well_keyed d"
      and ex: "stored d (product_key productId) \<noteq> None \<or> stored d (owner_index_key userId productId) \<noteq> None"
  shows "ProductModel_create productId now productData userId d = (Inl TransactionCanceledException, d)"
proof -
  have keys: "\<not> list_ex (\<lambda>w. txitem_key w = None) (product_create_items productId now productData userId)"
       "distinct (map txitem_key (product_create_items productId now productData userId))"
    by (simp_all add: list_ex_iff product_create_items_keys [simplified set_map [symmetric]]
          product_create_items_def owner_index_key_def category_index_key_def product_key_def)
  have "\<not> list_all (cond_ok (tbl d)) (product_create_items productId now productData userId)"
  proof -
    from ex consider old where "stored d (product_key productId) = Some old"
      | old where "stored d (owner_index_key userId productId) = Some old"
      by blast
    then show ?thesis
    proof cases
      case 1
      from not_exists_fails [OF wk 1, of "product_item productId now productData userId" "[''pk'']"]
      show ?thesis by (simp add: product_create_items_def)
    next
      case 2
      from not_exists_fails [OF wk 2,
             of "index_item (''USER#'' @ userId) (''PRODUCT#'' @ productId) productId" "[''pk'', ''sk'']"]
      show ?thesis by (simp add: product_create_items_def owner_index_key_def)
    qed
  qed
  with keys show ?thesis
    by (simp add: ProductModel_create_def dynamoDb_transactWrite_def)
qed

lemma product_create_items_apply:
  "map_of (fold apply_txitem (product_create_items productId now productData userId) t) =
     (\<lambda>k. if truthy (productData ''category'')
               \<and> k = category_index_key (toString (productData ''category'')) productId
           then Some (index_item (''CATEGORY#'' @ toString (productData ''category''))
                                 (''PRODUCT#'' @ productId) productId)
           else if k = owner_index_key userId productId
           then Some (index_item (''USER#'' @ userId) (''PRODUCT#'' @ productId) productId)
           else if k = product_key productId
           then Some (product_item productId now productData userId)
           else map_of t k)"
  by (rule ext)
     (simp add: product_create_items_def AList.update_conv'
        owner_index_key_def [symmetric] category_index_key_def [symmetric] del: append.simps)

lemma product_create_written:
  assumes "stored d (product_key productId) = None" "stored d (owner_index_key userId productId) = None"
  shows "ProductModel_create productId now productData userId d =
     (Inr (product_item productId now productData userId),
      commit (fold apply_txitem (product_create_items productId now productData userId) (tbl d)) d)"
proof -
  have keys: "\<not> list_ex (\<lambda>w. txitem_key w = None) (product_create_items productId now productData userId)"
       "distinct (map txitem_key (product_create_items productId now productData userId))"
    by (simp_all add: list_ex_iff product_create_items_keys [simplified set_map [symmetric]]
          product_create_items_def owner_index_key_def category_index_key_def product_key_def)
  have "list_all (cond_ok (tbl d)) (product_create_items productId now productData userId)"
    using assms
    by (simp add: product_create_items_def not_exists_holds owner_index_key_def [symmetric]
          del: append.simps cond_ok.simps(2))
  with keys show ?thesis
    by (simp add: ProductModel_create_def dynamoDb_transactWrite_def)
qed

lemma user_create_items_apply:
  "map_of (fold apply_txitem (user_create_items userId now hashed userData) t) =
     (\<lambda>k. if k = email_index_key (toString (userData ''email'')) userId
           then Some (index_item (''EMAIL#'' @ toString (userData ''email'')) (''USER#'' @ userId) userId)
           else if k = profile_key userId
           then Some (user_item userId now hashed userData)
           else map_of t k)"
  by (rule ext)
     (simp add: user_create_items_def AList.update_conv'
        email_index_key_def [symmetric] del: append.simps)

lemma user_create_transaction:
  "dynamoDb_transactWrite (user_create_items userId now hashed userData) d =
     (if list_all (cond_ok (tbl d)) (user_create_items userId now hashed userData)
      then (Inr (), commit (fold apply_txitem (user_create_items userId now hashed userData) (tbl d)) d)
      else (Inl TransactionCanceledException, d))"
  by (simp add: dynamoDb_transactWrite_def user_create_items_def
        email_index_key_def [symmetric] del: append.simps cond_ok.simps)

lemma user_create_cancelled:
  assumes wk: "well_keyed d"
      and pw: "userData ''password'' = Some (JStr pw)"
      and ex: "stored d (profile_key userId) \<noteq> None
               \<or> stored d (email_index_key (toString (userData ''email'')) userId) \<noteq> None"
  shows "UserModel_create h userId now salt userData d =
           (Inl (Error ''User with this email already exists''), d)"
proof -
  have "\<not> list_all (cond_ok (tbl d)) (user_create_items userId now (h pw salt) userData)"
  proof -
    from ex consider old where "stored d (profile_key userId) = Some old"
      | old where "stored d (email_index_key (toString (userData ''email'')) userId) = Some old"
      by blast
    then show ?thesis
    proof cases
      case 1
      from not_exists_fails [OF wk 1, of "user_item userId now (h pw salt) userData" "[''pk'']"]
      show ?thesis by (simp add: user_create_items_def)
    next
      case 2
      from not_exists_fails [OF wk 2,
             of "index_item (''EMAIL#'' @ toString (userData ''email'')) (''USER#'' @ userId) userId"
                "[''pk'']"]
      show ?thesis by (simp add: user_create_items_def email_index_key_def)
    qed
  qed
  with pw show ?thesis
    by (simp add: UserModel_create_def bcrypt_hash_def user_create_transaction
          TransactionCanceledException_def)
qed

lemma user_create_written:
  assumes pw: "userData ''password'' = Some (JStr pw)"
      and "stored d (profile_key userId) = None"
          "stored d (email_index_key (toString (userData ''email'')) userId) = None"
  shows "UserModel_create h userId now salt userData d =
     (Inr (without_password (user_item userId now (h pw salt) userData)),
      commit (fold apply_txitem (user_create_items userId now (h pw salt) userData) (tbl d)) d)"
proof -
  have "list_all (cond_ok (tbl d)) (user_create_items userId now (h pw salt) userData)"
    using assms
    by (simp add: user_create_items_def not_exists_holds email_index_key_def [symmetric]
          del: append.simps cond_ok.simps)
  with pw show ?thesis
    by (simp add: UserModel_create_def bcrypt_hash_def user_create_transaction)
qed

lemma examples_well_keyed: "well_keyed widget_db" "well_keyed alice_db" "well_keyed empty_db"
  by (simp_all add: well_keyed_def widget_db_def alice_db_def empty_db_def widget_def alice_def
        owner_index_key_def category_index_key_def email_index_key_def)

lemma alice_fields:
  "alice_data ''password'' = Some (JStr ''secret'')"
  "toString (alice_data ''email'') = ''a@x.com''"
  "stored alice_db (profile_key ''u1'') = Some alice"
  by (simp_all add: alice_data_def stored_def alice_db_def)

text \<open>
  C2 (as the code has it). \<open>create\<close> of either adapter issues one transaction. The two
  items of a user, and the primary and owner index items of a product, carry a "must not
  already exist" condition on \<^verbatim>\<open>pk\<close>. When one of these keys already holds an item the
  transaction is cancelled and the state is as before: \<open>UserModel.create\<close> raises "User
  with this email already exists", \<open>ProductModel.create\<close> raises the cancellation as it
  is. Otherwise one commit writes the primary record and every applicable index record, and
  nothing else changes.
\<close>

theorem create_is_one_guarded_transaction:
  "list_all conditioned (user_create_items userId' now hashed userData)
 \<and> list_all conditioned (take 2 (product_create_items productId now productData userId))
 \<and> (well_keyed d \<and> (stored d (product_key productId) \<noteq> None
                      \<or> stored d (owner_index_key userId productId) \<noteq> None) \<longrightarrow>
      ProductModel_create productId now productData userId d = (Inl TransactionCanceledException, d))
 \<and> (stored d (product_key productId) = None \<and> stored d (owner_index_key userId productId) = None \<longrightarrow>
      (\<exists>d'. ProductModel_create productId now productData userId d
               = (Inr (product_item productId now productData userId), d')
         \<and> commits d' = commits d @ [tbl d']
         \<and> stored d' (product_key productId) = Some (product_item productId now productData userId)
         \<and> stored d' (owner_index_key userId productId)
               = Some (index_item (''USER#'' @ userId) (''PRODUCT#'' @ productId) productId)
         \<and> (truthy (productData ''category'') \<longrightarrow>
               stored d' (category_index_key (toString (productData ''category'')) productId)
                 = Some (index_item (''CATEGORY#'' @ toString (productData ''category''))
                                    (''PRODUCT#'' @ productId) productId))
         \<and> (\<forall>k. k \<noteq> product_key productId \<and> k \<noteq> owner_index_key userId productId
                \<and> k \<noteq> category_index_key (toString (productData ''category'')) productId
                \<longrightarrow> stored d' k = stored d k)))
 \<and> (well_keyed d \<and> userData ''password'' = Some (JStr pw)
       \<and> (stored d (profile_key userId') \<noteq> None
           \<or> stored d (email_index_key (toString (userData ''email'')) userId') \<noteq> None) \<longrightarrow>
      UserModel_create h userId' now salt userData d
        = (Inl (Error ''User with this email already exists''), d))
 \<and> (userData ''password'' = Some (JStr pw) \<and> stored d (profile_key userId') = None
       \<and> stored d (email_index_key (toString (userData ''email'')) userId') = None \<longrightarrow>
      (\<exists>d'. UserModel_create h userId' now salt userData d
               = (Inr (without_password (user_item userId' now (h pw salt) userData)), d')
         \<and> commits d' = commits d @ [tbl d']
         \<and> stored d' (profile_key userId') = Some (user_item userId' now (h pw salt) userData)
         \<and> stored d' (email_index_key (toString (userData ''email'')) userId')
               = Some (index_item (''EMAIL#'' @ toString (userData ''email'')) (''USER#'' @ userId') userId')
         \<and> (\<forall>k. k \<noteq> profile_key userId' \<and> k \<noteq> email_index_key (toString (userData ''email'')) userId'
                \<longrightarrow> stored d' k = stored d k)))"
proof (intro conjI impI)
  show "list_all conditioned (user_create_items userId' now hashed userData)"
    by (simp add: user_create_items_def)
  show "list_all conditioned (take 2 (product_create_items productId now productData userId))"
    by (simp add: product_create_items_def)
next
  assume "well_keyed d \<and> (stored d (product_key productId) \<noteq> None
                      \<or> stored d (owner_index_key userId productId) \<noteq> None)"
  then show "ProductModel_create productId now productData userId d = (Inl TransactionCanceledException, d)"
    by (simp add: product_create_cancelled)
next
  assume "stored d (product_key productId) = None \<and> stored d (owner_index_key userId productId) = None"
  then show "\<exists>d'. ProductModel_create productId now productData userId d
               = (Inr (product_item productId now productData userId), d')
         \<and> commits d' = commits d @ [tbl d']
         \<and> stored d' (product_key productId) = Some (product_item productId now productData userId)
         \<and> stored d' (owner_index_key userId productId)
               = Some (index_item (''USER#'' @ userId) (''PRODUCT#'' @ productId) productId)
         \<and> (truthy (productData ''category'') \<longrightarrow>
               stored d' (category_index_key (toString (productData ''category'')) productId)
                 = Some (index_item (''CATEGORY#'' @ toString (productData ''category''))
                                    (''PRODUCT#'' @ productId) productId))
         \<and> (\<forall>k. k \<noteq> product_key productId \<and> k \<noteq> owner_index_key userId productId
                \<and> k \<noteq> category_index_key (toString (productData ''category'')) productId
                \<longrightarrow> stored d' k = stored d k)"
    by (simp add: product_create_written product_create_items_apply) (simp add: stored_def)
next
  assume "well_keyed d \<and> userData ''password'' = Some (JStr pw)
       \<and> (stored d (profile_key userId') \<noteq> None
           \<or> stored d (email_index_key (toString (userData ''email'')) userId') \<noteq> None)"
  then show "UserModel_create h userId' now salt userData d
        = (Inl (Error ''User with this email already exists''), d)"
    by (simp add: user_create_cancelled)
next
  assume "userData ''password'' = Some (JStr pw) \<and> stored d (profile_key userId') = None
       \<and> stored d (email_index_key (toString (userData ''email'')) userId') = None"
  then show "\<exists>d'. UserModel_create h userId' now salt userData d
               = (Inr (without_password (user_item userId' now (h pw salt) userData)), d')
         \<and> commits d' = commits d @ [tbl d']
         \<and> stored d' (profile_key userId') = Some (user_item userId' now (h pw salt) userData)
         \<and> stored d' (email_index_key (toString (userData ''email'')) userId')
               = Some (index_item (''EMAIL#'' @ toString (userData ''email'')) (''USER#'' @ userId') userId')
         \<and> (\<forall>k. k \<noteq> profile_key userId' \<and> k \<noteq> email_index_key (toString (userData ''email'')) userId'
                \<longrightarrow> stored d' k = stored d k)"
    by (simp add: user_create_written user_create_items_apply) (simp add: stored_def)
qed

theorem create_is_one_guarded_transaction_witness:
  "ProductModel_create ''p1'' ''t1'' widget_data ''u1'' widget_db
     = (Inl TransactionCanceledException, widget_db)
 \<and> (\<exists>d'. ProductModel_create ''p1'' ''t0'' widget_data ''u1'' empty_db = (Inr widget, d')
        \<and> commits d' = [tbl d']
        \<and> stored d' (product_key ''p1'') = Some widget
        \<and> stored d' (owner_index_key ''u1'' ''p1'') = Some (index_item ''USER#u1'' ''PRODUCT#p1'' ''p1'')
        \<and> stored d' (category_index_key ''tools'' ''p1'')
             = Some (index_item ''CATEGORY#tools'' ''PRODUCT#p1'' ''p1''))
 \<and> UserModel_create example_hash ''u1'' ''t1'' ''s'' alice_data alice_db
     = (Inl (Error ''User with this email already exists''), alice_db)
 \<and> (\<exists>d'. UserModel_create example_hash ''u1'' ''t0'' ''s'' alice_data empty_db
             = (Inr (without_password alice), d')
        \<and> commits d' = [tbl d']
        \<and> stored d' (profile_key ''u1'') = Some alice
        \<and> stored d' (email_index_key ''a@x.com'' ''u1'')
             = Some (index_item ''EMAIL#a@x.com'' ''USER#u1'' ''u1''))"
proof -
  note at_widget = create_is_one_guarded_transaction [where d = widget_db and productId = "''p1''"
          and now = "''t1''" and productData = widget_data and userId = "''u1''"
          and userData = alice_data and userId' = "''u1''" and pw = "''secret''" and salt = "''s''"
          and h = example_hash and hashed = "''x''"]
  note at_alice = create_is_one_guarded_transaction [where d = alice_db and productId = "''p1''"
          and now = "''t1''" and productData = widget_data and userId = "''u1''"
          and userData = alice_data and userId' = "''u1''" and pw = "''secret''" and salt = "''s''"
          and h = example_hash and hashed = "''x''"]
  note at_empty = create_is_one_guarded_transaction [where d = empty_db and productId = "''p1''"
          and now = "''t0''" and productData = widget_data and userId = "''u1''"
          and userData = alice_data and userId' = "''u1''" and pw = "''secret''" and salt = "''s''"
          and h = example_hash and hashed = "''x''"]
  have cat: "truthy (widget_data ''category'')" "toString (widget_data ''category'') = ''tools''"
    by (simp_all add: widget_data_def)
  from at_widget have 1: "ProductModel_create ''p1'' ''t1'' widget_data ''u1'' widget_db
     = (Inl TransactionCanceledException, widget_db)"
    by (simp add: examples_well_keyed widget_stored)
  from at_empty have "\<exists>d'. ProductModel_create ''p1'' ''t0'' widget_data ''u1'' empty_db
               = (Inr (product_item ''p1'' ''t0'' widget_data ''u1''), d')
         \<and> commits d' = commits empty_db @ [tbl d']
         \<and> stored d' (product_key ''p1'') = Some (product_item ''p1'' ''t0'' widget_data ''u1'')
         \<and> stored d' (owner_index_key ''u1'' ''p1'')
               = Some (index_item (''USER#'' @ ''u1'') (''PRODUCT#'' @ ''p1'') ''p1'')
         \<and> (truthy (widget_data ''category'') \<longrightarrow>
               stored d' (category_index_key (toString (widget_data ''category'')) ''p1'')
                 = Some (index_item (''CATEGORY#'' @ toString (widget_data ''category''))
                                    (''PRODUCT#'' @ ''p1'') ''p1''))
         \<and> (\<forall>k. k \<noteq> product_key ''p1'' \<and> k \<noteq> owner_index_key ''u1'' ''p1''
                \<and> k \<noteq> category_index_key (toString (widget_data ''category'')) ''p1''
                \<longrightarrow> stored d' k = stored empty_db k)"
    using widget_stored(2) by blast
  then have 2: "\<exists>d'. ProductModel_create ''p1'' ''t0'' widget_data ''u1'' empty_db = (Inr widget, d')
        \<and> commits d' = [tbl d']
        \<and> stored d' (product_key ''p1'') = Some widget
        \<and> stored d' (owner_index_key ''u1'' ''p1'') = Some (index_item ''USER#u1'' ''PRODUCT#p1'' ''p1'')
        \<and> stored d' (category_index_key ''tools'' ''p1'')
             = Some (index_item ''CATEGORY#tools'' ''PRODUCT#p1'' ''p1'')"
    by (auto simp add: cat widget_def empty_db_def)
  from at_alice have 3: "UserModel_create example_hash ''u1'' ''t1'' ''s'' alice_data alice_db
     = (Inl (Error ''User with this email already exists''), alice_db)"
    by (simp add: examples_well_keyed alice_fields)
  from at_empty have "\<exists>d'. UserModel_create example_hash ''u1'' ''t0'' ''s'' alice_data empty_db
               = (Inr (without_password (user_item ''u1'' ''t0'' (example_hash ''secret'' ''s'') alice_data)), d')
         \<and> commits d' = commits empty_db @ [tbl d']
         \<and> stored d' (profile_key ''u1'') = Some (user_item ''u1'' ''t0'' (example_hash ''secret'' ''s'') alice_data)
         \<and> stored d' (email_index_key (toString (alice_data ''email'')) ''u1'')
               = Some (index_item (''EMAIL#'' @ toString (alice_data ''email'')) (''USER#'' @ ''u1'') ''u1'')
         \<and> (\<forall>k. k \<noteq> profile_key ''u1'' \<and> k \<noteq> email_index_key (toString (alice_data ''email'')) ''u1''
                \<longrightarrow> stored d' k = stored empty_db k)"
    using widget_stored(2) alice_fields(1) by blast
  then have 4: "\<exists>d'. UserModel_create example_hash ''u1'' ''t0'' ''s'' alice_data empty_db
             = (Inr (without_password alice), d')
        \<and> commits d' = [tbl d']
        \<and> stored d' (profile_key ''u1'') = Some alice
        \<and> stored d' (email_index_key ''a@x.com'' ''u1'')
             = Some (index_item ''EMAIL#a@x.com'' ''USER#u1'' ''u1'')"
    by (auto simp add: alice_fields alice_def empty_db_def)
  from 1 2 3 4 show ?thesis by blast
qed

text \<open>
  C2 as stated fails for the category index record of a product: its \<^verbatim>\<open>Put\<close> carries no
  condition, so a record already stored under its key is overwritten and \<open>create\<close>
  succeeds.
\<close>

theorem product_create_category_put_unconditional:
  "stored_field stale_db (category_index_key ''tools'' ''p1'') ''id'' = Some (JStr ''p0'')
 \<and> fst (ProductModel_create ''p1'' ''t0'' widget_data ''u1'' stale_db) = Inr widget
 \<and> stored_field (snd (ProductModel_create ''p1'' ''t0'' widget_data ''u1'' stale_db))
       (category_index_key ''tools'' ''p1'') ''id'' = Some (JStr ''p1'')
 \<and> \<not> list_all conditioned (product_create_items ''p1'' ''t0'' widget_data ''u1'')"
proof -
  have none: "stored stale_db (product_key ''p1'') = None"
             "stored stale_db (owner_index_key ''u1'' ''p1'') = None"
    by (simp_all add: stored_def stale_db_def)
  have cat: "truthy (widget_data ''category'')" "toString (widget_data ''category'') = ''tools''"
    by (simp_all add: widget_data_def)
  have "stored_field stale_db (category_index_key ''tools'' ''p1'') ''id'' = Some (JStr ''p0'')"
    by (simp add: stored_field_def stored_def stale_db_def index_item_def)
  moreover have "fst (ProductModel_create ''p1'' ''t0'' widget_data ''u1'' stale_db) = Inr widget"
    by (simp add: product_create_written [OF none] widget_def)
  moreover have "stored_field (snd (ProductModel_create ''p1'' ''t0'' widget_data ''u1'' stale_db))
       (category_index_key ''tools'' ''p1'') ''id'' = Some (JStr ''p1'')"
    by (simp add: product_create_written [OF none] stored_field_def product_create_items_apply cat
          index_item_def)
  moreover have "\<not> list_all conditioned (product_create_items ''p1'' ''t0'' widget_data ''u1'')"
    by (simp add: product_create_items_def cat)
  ultimately show ?thesis by blast
qed

text \<open>The conditions are on the items' own keys, and the key of the email index record
  ends in the fresh user id: a second user with the same email and another id is created.\<close>

lemma user_create_same_email_other_id:
  "\<exists>d'. UserModel_create example_hash ''u2'' ''t1'' ''s'' alice_data alice_db
          = (Inr (without_password (user_item ''u2'' ''t1'' (example_hash ''secret'' ''s'') alice_data)), d')
      \<and> stored_field d' (profile_key ''u1'') ''email'' = Some (JStr ''a@x.com'')
      \<and> stored_field d' (profile_key ''u2'') ''email'' = Some (JStr ''a@x.com'')"
proof -
  have "stored alice_db (profile_key ''u2'') = None"
       "stored alice_db (email_index_key (toString (alice_data ''email'')) ''u2'') = None"
    by (simp_all add: stored_def alice_db_def alice_data_def profile_key_def email_index_key_def)
  from user_create_written [OF alice_fields(1) this, of example_hash "''t1''" "''s''"]
  show ?thesis
    by (simp add: stored_field_def user_create_items_apply user_item_def alice_data_def)
       (simp add: alice_db_def profile_key_def email_index_key_def alice_def user_item_def alice_data_def)
qed

section \<open>Reads by a secondary attribute\<close>

text \<open>\<open>findByUserId\<close> and \<open>findByCategory\<close> return the primary records that the index
  records of the partition resolve to; an index record without a primary record contributes
  nothing, and nothing but stored primary records is returned.\<close>

lemma findByUserId_eq:
  "ProductModel_findByUserId userId d =
     Inr (List.map_filter (\<lambda>it. stored d (product_key (toString (it ''id''))))
            (map snd (filter (\<lambda>(k, it). fst k = ''USER#'' @ userId \<and> begins_with (snd k) ''PRODUCT#'')
                        (tbl d))))"
  by (simp add: ProductModel_findByUserId_def dynamoDb_query_def resolve_products_eq
        del: append.simps)

lemma map_filter_member:
  "p \<in> set (List.map_filter f xs) \<Longrightarrow> \<exists>x \<in> set xs. f x = Some p"
  by (auto simp add: List.map_filter_def)

lemma product_lookups_return_primary_records:
  "ProductModel_findByUserId userId d = Inr ps \<Longrightarrow> p \<in> set ps \<Longrightarrow>
     \<exists>productId. stored d (product_key productId) = Some p"
  "ProductModel_findByCategory category d = Inr ps \<Longrightarrow> p \<in> set ps \<Longrightarrow>
     \<exists>productId. stored d (product_key productId) = Some p"
  by (auto simp add: findByUserId_eq findByCategory_eq dest!: map_filter_member)

lemma product_lookups_skip_dangling:
  "ProductModel_findByUserId ''u1'' dangling_db = Inr []"
  "ProductModel_findByCategory ''tools'' dangling_db = Inr []"
  by (simp_all add: findByUserId_eq findByCategory_eq dangling_db_def List.map_filter_def
        begins_with_def stored_def owner_index_key_def category_index_key_def email_index_key_def
        index_item_def product_key_def)

text \<open>
  C4, at the input where it fails. The table holds the email index record of \<open>a@x.com\<close>
  and no profile record for the user it names. The claim has \<open>findByEmail\<close> return null
  there; the code raises, because its \<^verbatim>\<open>get\<close> request gives an object as sort key and is
  rejected before any record is read.
\<close>

theorem findByEmail_dangling_index_raises:
  "stored_field dangling_db (email_index_key ''a@x.com'' ''u1'') ''id'' = Some (JStr ''u1'')
 \<and> stored dangling_db (profile_key ''u1'') = None
 \<and> UserModel_findByEmail (Some (JStr ''a@x.com'')) dangling_db = Inl ValidationException"
  by (simp add: findByEmail_rejected stored_field_def stored_def dangling_db_def index_item_def
        profile_key_def email_index_key_def owner_index_key_def category_index_key_def)

section \<open>Start-up with an unsupported backend\<close>

text \<open>
  C8. When the backend flag of the configuration is neither \<open>rds\<close> nor \<open>dynamodb\<close>,
  \<open>initializeDatabase\<close> raises "Invalid database type specified in configuration.",
  reports it on the console and exits with code 1: nothing is bound on the module's exports,
  and the process that \<^verbatim>\<open>app.js\<close> started has exited instead of serving.
\<close>

theorem invalid_database_type_fails_fast:
  "config_database_type DB_TYPE \<noteq> ''rds'' \<and> config_database_type DB_TYPE \<noteq> ''dynamodb'' \<longrightarrow>
     initializeDatabase (config_database_type DB_TYPE) tableName env =
       \<lparr>bound = [],
        console = [ConsoleError ''Database initialization failed:''
                     (Error ''Invalid database type specified in configuration.'')],
        exit_code = Some 1\<rparr>
   \<and> app_start DB_TYPE tableName env = Exited 1"
  by (simp add: initializeDatabase_def init_failed_def app_start_def)

text \<open>Witness for C8; an unset flag is \<open>rds\<close>, and the two supported backends serve.\<close>

theorem invalid_database_type_witness:
  "config_database_type (Some ''mongodb'') = ''mongodb''
 \<and> initializeDatabase ''mongodb'' ''app-data'' ok_env =
       \<lparr>bound = [],
        console = [ConsoleError ''Database initialization failed:''
                     (Error ''Invalid database type specified in configuration.'')],
        exit_code = Some 1\<rparr>
 \<and> app_start (Some ''mongodb'') ''app-data'' ok_env = Exited 1
 \<and> app_start (Some ''dynamodb'') ''app-data'' ok_env = Serving [''dynamoDb'']
 \<and> app_start None ''app-data'' ok_env = Serving [''User'', ''Product'']"
  using invalid_database_type_fails_fast [of "Some ''mongodb''" "''app-data''" ok_env]
  by (simp add: config_database_type_def)
     (simp add: app_start_def initializeDatabase_def init_completed_def ok_env_def
        config_database_type_def)

section \<open>Registration and the password validator\<close>

text \<open>
  C9 (as the code has it). A request with a truthy email and a truthy password, whatever the
  password, is handed to the user model as it is: when the lookup of the email finds no user
  and the model creates the user, \<open>register\<close> answers 201 with the created user and a token.
  \<open>validatePassword\<close> takes no part in it.
\<close>

theorem register_applies_no_password_check:
  "truthy (body ''email'') \<and> truthy (body ''password'') \<longrightarrow>
     registration_data body ''password'' = body ''password''
   \<and> (dbtype = ''rds'' \<and> rds_findOne models (body ''email'') st = Inr None
        \<and> rds_create models (registration_data body) st = (Inr newUser, st') \<longrightarrow>
        register dbtype models sign body st =
          (Json 201 ''User registered successfully'' (Some (without_password newUser))
             (Some (sign (newUser ''id''))), st'))
   \<and> (dbtype \<noteq> ''rds'' \<and> dyn_findByEmail models (body ''email'') st = Inr None
        \<and> dyn_create models (registration_data body) st = (Inr newUser, st') \<longrightarrow>
        register dbtype models sign body st =
          (Json 201 ''User registered successfully'' (Some newUser)
             (Some (sign (newUser ''id''))), st'))"
  by (simp add: register_def registration_data_def without_password_def)

text \<open>Witness for C9: the password \<open>a\<close>, which \<open>validatePassword\<close> rejects, is
  registered on either branch.\<close>

theorem register_applies_no_password_check_witness:
  "fst (validatePassword (weak_body ''password'')) = False
 \<and> (\<exists>newUser. register ''rds'' (rows_models ''u2'') example_sign weak_body [alice_row] =
       (Json 201 ''User registered successfully'' (Some (without_password newUser)) (Some ''token.u2''),
        [alice_row, newUser])
      \<and> newUser ''email'' = Some (JStr ''b@x.com''))
 \<and> (\<exists>newUser. register ''dynamodb'' (rows_models ''u2'') example_sign weak_body [alice_row] =
       (Json 201 ''User registered successfully'' (Some newUser) (Some ''token.u2''),
        [alice_row, newUser])
      \<and> newUser ''email'' = Some (JStr ''b@x.com''))"
proof -
  let ?new = "(registration_data weak_body)(''id'' \<mapsto> JStr ''u2'',
                 ''password'' \<mapsto> JStr (example_hash ''a'' ''s''))"
  have t: "truthy (weak_body ''email'') \<and> truthy (weak_body ''password'')"
    by (simp add: weak_body_def)
  have look: "rows_findOne (weak_body ''email'') [alice_row] = Inr None"
    by (simp add: rows_findOne_def weak_body_def alice_row_def)
  have mk: "rows_create ''u2'' (registration_data weak_body) [alice_row] = (Inr ?new, [alice_row, ?new])"
    by (simp add: rows_create_def registration_data_def weak_body_def alice_row_def)
  have fields: "?new ''id'' = Some (JStr ''u2'')" "?new ''email'' = Some (JStr ''b@x.com'')"
    by (simp_all add: registration_data_def weak_body_def)
  have weak: "fst (validatePassword (weak_body ''password'')) = False"
    by (simp add: validatePassword_def weak_body_def js_length_def)
  from register_applies_no_password_check [where body = weak_body and dbtype = "''rds''"
         and models = "rows_models ''u2''" and st = "[alice_row]" and newUser = ?new
         and st' = "[alice_row, ?new]" and sign = example_sign] t look mk
  have 1: "register ''rds'' (rows_models ''u2'') example_sign weak_body [alice_row] =
       (Json 201 ''User registered successfully'' (Some (without_password ?new)) (Some ''token.u2''),
        [alice_row, ?new])"
    by (simp add: rows_models_def fields example_sign_def)
  from register_applies_no_password_check [where body = weak_body and dbtype = "''dynamodb''"
         and models = "rows_models ''u2''" and st = "[alice_row]" and newUser = ?new
         and st' = "[alice_row, ?new]" and sign = example_sign] t look mk
  have 2: "register ''dynamodb'' (rows_models ''u2'') example_sign weak_body [alice_row] =
       (Json 201 ''User registered successfully'' (Some ?new) (Some ''token.u2''),
        [alice_row, ?new])"
    by (simp add: rows_models_def fields example_sign_def)
  from weak 1 2 fields show ?thesis by blast
qed

text \<open>
  C9 as stated fails where the email is already registered: the request, with a password
  the validator would accept, is answered 409 and no user is created.
\<close>

theorem register_repeated_email_not_created:
  "truthy (repeated_body ''email'') \<and> truthy (repeated_body ''password'')
 \<and> register ''rds'' (rows_models ''u2'') example_sign repeated_body [alice_row] =
      (Json 409 ''User with this email already exists'' None None, [alice_row])"
  by (simp add: register_def repeated_body_def rows_models_def rows_findOne_def alice_row_def)

text \<open>With the module of the key-value backend the lookup raises (see
  \<open>findByEmail_rejected\<close>), and \<open>register\<close> hands the error on.\<close>

lemma register_key_value_lookup_raises:
  "truthy (body ''email'') \<Longrightarrow> truthy (body ''password'') \<Longrightarrow> dbtype \<noteq> ''rds'' \<Longrightarrow>
     register dbtype (dynamodb_user_model h userId now salt models) sign body d
       = (Next ValidationException, d)"
  by (simp add: register_def dynamodb_user_model_def findByEmail_rejected)

section \<open>The pagination cursor\<close>

text \<open>Base64: decoding what was encoded gives the bytes back.\<close>

lemma of_char_b64_char:
  "n < 64 \<Longrightarrow> (of_char (b64_char n) :: nat) =
     (if n < 26 then 65 + n else if n < 52 then 71 + n else if n < 62 then n - 4
      else if n = 62 then 43 else 47)"
  by (simp add: b64_char_def)

lemma unbase64_b64_char: "n < 64 \<Longrightarrow> unbase64 (b64_char n) = Some n"
proof -
  assume n: "n < 64"
  have plus: "b64_char 62 = CHR ''+''" and slash: "b64_char 63 = CHR ''/''"
    by (simp_all add: b64_char_def)
  consider "n < 62" | "n = 62" | "n = 63" using n by linarith
  then show ?thesis
  proof cases
    case 1
    then show ?thesis
      using of_char_b64_char [OF n] by (auto simp add: unbase64_def Let_def)
  next
    case 2
    then show ?thesis by (simp add: plus unbase64_def)
  next
    case 3
    then show ?thesis by (simp add: slash unbase64_def)
  qed
qed

lemma b64_char_not_pad: "n < 64 \<Longrightarrow> b64_char n \<noteq> CHR ''=''"
proof
  assume n: "n < 64" and "b64_char n = CHR ''=''"
  then have "(of_char (b64_char n) :: nat) = 61" by simp
  with of_char_b64_char [OF n] show False by (simp split: if_splits)
qed

lemma sextets_bound: "\<forall>b \<in> set bs. b < 256 \<Longrightarrow> \<forall>x \<in> set (sextets_of_bytes bs). x < 64"
  by (induction bs rule: sextets_of_bytes.induct) auto

lemma bytes_of_sextets_of_bytes:
  "\<forall>b \<in> set bs. b < 256 \<Longrightarrow> bytes_of_sextets (sextets_of_bytes bs) = bs"
  by (induction bs rule: sextets_of_bytes.induct) auto

lemma map_filter_unbase64:
  "\<forall>x \<in> set xs. x < 64 \<Longrightarrow> List.map_filter unbase64 (map b64_char xs) = xs"
  by (induction xs) (simp_all add: List.map_filter_simps unbase64_b64_char)

lemma takeWhile_not_pad:
  "\<forall>x \<in> set xs. x < 64 \<Longrightarrow>
     takeWhile (\<lambda>c. c \<noteq> CHR ''='') (map b64_char xs @ replicate k CHR ''='') = map b64_char xs"
  by (induction xs) (simp_all add: b64_char_not_pad takeWhile_eq_Nil_iff hd_replicate)

lemma base64_roundtrip: "base64_decode (base64_encode s) = s"
proof -
  have bytes: "\<forall>b \<in> set (map of_char s :: nat list). b < 256"
    by simp
  then have small: "\<forall>x \<in> set (sextets_of_bytes (map of_char s)). x < 64"
    by (rule sextets_bound)
  have "base64_decode (base64_encode s)
          = map char_of (bytes_of_sextets (sextets_of_bytes (map of_char s :: nat list)))"
    unfolding base64_decode_def base64_encode_def
    by (simp only: takeWhile_not_pad [OF small] map_filter_unbase64 [OF small])
  also have "\<dots> = map char_of (map of_char s :: nat list)"
    by (simp only: bytes_of_sextets_of_bytes [OF bytes])
  also have "\<dots> = s"
    by (simp add: comp_def)
  finally show ?thesis .
qed

lemma hex_val_hex_char: "n < 16 \<Longrightarrow> hex_val (hex_char n) = Some n"
  by (auto simp add: hex_val_def hex_char_def Let_def)

lemma char_eq_iff_of_char: "(c = d) = ((of_char c :: nat) = of_char d)"
  by simp

lemma parse_escape:
  "parse_string_body (json_escape c @ rest) =
     (case parse_string_body rest of None \<Rightarrow> None | Some (s, r) \<Rightarrow> Some (c # s, r))"
proof -
  let ?n = "of_char c :: nat"
  consider "?n = 34" | "?n = 92" | "?n = 8" | "?n = 12" | "?n = 10" | "?n = 13" | "?n = 9"
    | "?n < 32" "?n \<noteq> 8" "?n \<noteq> 12" "?n \<noteq> 10" "?n \<noteq> 13" "?n \<noteq> 9"
    | "32 \<le> ?n" "?n \<noteq> 34" "?n \<noteq> 92"
    by linarith
  then show ?thesis
  proof cases
    case 8
    then have h: "hex4 CHR ''0'' CHR ''0'' (hex_char (?n div 16)) (hex_char (?n mod 16)) = Some ?n"
      by (simp add: hex4_def hex_val_hex_char) (simp add: hex_val_def)
    from 8 have u: "utf8_of_code_unit ?n = Some [c]"
      by (simp add: utf8_of_code_unit_def)
    from 8 show ?thesis
      by (simp add: json_escape_def Let_def h u split: option.splits)
  next
    case 9
    then show ?thesis
      by (simp add: json_escape_def Let_def split: option.splits)
  qed (simp_all add: json_escape_def simple_escape_def Let_def char_eq_iff_of_char
         split: option.splits)
qed

lemma parse_quoted:
  "parse_string_body (concat (map json_escape s) @ CHR 0x22 # rest) = Some (s, rest)"
  by (induction s) (simp_all add: parse_escape)

lemma tokens_quoted:
  "tokens (json_quote s @ rest) = map_option (Cons (Str s)) (tokens rest)"
  by (simp add: json_quote_def json_space_def parse_quoted)

lemma tokens_punctuation:
  "tokens (CHR ''}'' # rest) = map_option (Cons RBrace) (tokens rest)"
  "tokens (CHR ''{'' # rest) = map_option (Cons LBrace) (tokens rest)"
  "tokens (CHR '':'' # rest) = map_option (Cons Colon) (tokens rest)"
  "tokens (CHR '','' # rest) = map_option (Cons Comma) (tokens rest)"
  by (simp_all add: json_space_def)

lemma tokens_members:
  "tokens (json_members ms @ ''}'') = Some (member_tokens ms)"
  by (induction ms rule: json_members.induct)
     (simp_all add: tokens_quoted tokens_punctuation del: tokens.simps(2))

lemma members_of_member_tokens:
  "ms \<noteq> [] \<Longrightarrow> members_of (member_tokens ms) = Some ms"
  by (induction ms rule: json_members.induct) simp_all

lemma JSON_roundtrip: "JSON_parse (JSON_stringify ms) = Some ms"
proof (cases ms)
  case Nil
  then show ?thesis
    by (simp add: JSON_parse_def JSON_stringify_def json_space_def)
next
  case (Cons m ms')
  then have "member_tokens ms \<noteq> [RBrace]"
    by (cases ms') simp_all
  with Cons show ?thesis
    using members_of_member_tokens [of ms]
    by (simp add: JSON_parse_def JSON_stringify_def tokens_punctuation tokens_members
          del: tokens.simps(2))
qed

lemma start_key_of_key_object: "start_key_of (key_object k) = Some k"
  by (simp add: start_key_of_def key_object_def)

lemma cursor_decodes: "parse_cursor (encode_cursor k) = Some (key_object k)"
  by (simp add: parse_cursor_def encode_cursor_def base64_roundtrip JSON_roundtrip)

text \<open>The same holds in whatever order the two attributes of the key are written.\<close>

lemma cursor_any_attribute_order:
  "start_key_of ms = Some k \<Longrightarrow>
     Option.bind (parse_cursor (base64_encode (JSON_stringify ms))) start_key_of = Some k"
  by (simp add: parse_cursor_def base64_roundtrip JSON_roundtrip)

lemma sextets_nonempty: "bs \<noteq> [] \<Longrightarrow> sextets_of_bytes bs \<noteq> []"
  by (induction bs rule: sextets_of_bytes.induct) simp_all

lemma encode_cursor_nonempty: "encode_cursor k \<noteq> []"
  by (simp add: encode_cursor_def base64_encode_def JSON_stringify_def sextets_nonempty)

lemma list_with_cursor:
  "ProductModel_list limit (Some (encode_cursor k)) d =
     (if limit < 1 then Inl ValidationException
      else Inr (fst (scan_page ''PRODUCT#'' ''DETAILS#'' (nat limit) (rows_after (Some k) (tbl d))),
                map_option encode_cursor
                  (snd (scan_page ''PRODUCT#'' ''DETAILS#'' (nat limit) (rows_after (Some k) (tbl d))))))"
  by (simp add: ProductModel_list_def encode_cursor_nonempty cursor_decodes dynamoDb_scan_def
        start_key_of_key_object split: prod.splits)

lemma set_tl_subset: "set (tl xs) \<subseteq> set xs"
  by (cases xs) auto

lemma set_rows_after: "set (rows_after start t) \<subseteq> set t"
proof (cases start)
  case None
  then show ?thesis by (simp add: rows_after_def)
next
  case (Some k)
  have "set (tl (dropWhile (\<lambda>kv. fst kv \<noteq> k) t)) \<subseteq> set (dropWhile (\<lambda>kv. fst kv \<noteq> k) t)"
    by (rule set_tl_subset)
  also have "\<dots> \<subseteq> set t"
    by (auto dest: set_dropWhileD)
  finally show ?thesis using Some by (simp add: rows_after_def)
qed

lemma scan_result:
  "dynamoDb_scan pkp skp limit start d = Inr r \<Longrightarrow>
     0 < nat limit \<and> (\<exists>start'. r = scan_page pkp skp (nat limit) (rows_after start' (tbl d)))"
proof -
  assume scan: "dynamoDb_scan pkp skp limit start d = Inr r"
  then have pos: "0 < nat limit"
    by (auto simp add: dynamoDb_scan_def split: if_splits)
  show ?thesis
  proof (cases start)
    case None
    with scan pos have "r = scan_page pkp skp (nat limit) (rows_after None (tbl d))"
      by (auto simp add: dynamoDb_scan_def rows_after_def split: if_splits)
    with pos show ?thesis by blast
  next
    case (Some ms)
    with scan obtain k where "start_key_of ms = Some k"
      by (auto simp add: dynamoDb_scan_def split: if_splits option.splits)
    with scan Some pos have "r = scan_page pkp skp (nat limit) (rows_after (Some k) (tbl d))"
      by (auto simp add: dynamoDb_scan_def split: if_splits)
    with pos show ?thesis by blast
  qed
qed

lemma scan_page_key:
  "0 < n \<Longrightarrow> snd (scan_page pkp skp n rows) = Some k \<Longrightarrow> k \<in> fst ` set rows"
proof -
  assume n: "0 < n" and "snd (scan_page pkp skp n rows) = Some k"
  then have len: "n \<le> length rows" and k: "k = fst (last (take n rows))"
    by (auto simp add: scan_page_def split: if_splits)
  from n len have "take n rows \<noteq> []" by auto
  then have "last (take n rows) \<in> set (take n rows)" by (rule last_in_set)
  then have "last (take n rows) \<in> set rows" by (rule in_set_takeD)
  with k show ?thesis by simp
qed

lemma list_next_cursor:
  assumes "ProductModel_list limit cursor d = Inr (Items, Some next_cursor)"
  shows "\<exists>k. k \<in> fst ` set (tbl d) \<and> next_cursor = encode_cursor k"
proof -
  from assms obtain start lek where
      scan: "dynamoDb_scan ''PRODUCT#'' ''DETAILS#'' limit start d = Inr (Items, Some lek)"
    and nxt: "next_cursor = encode_cursor lek"
    by (auto simp add: ProductModel_list_def split: sum.splits option.splits if_splits prod.splits)
  from scan_result [OF scan] obtain start' where pos: "0 < nat limit"
    and page: "(Items, Some lek) = scan_page ''PRODUCT#'' ''DETAILS#'' (nat limit) (rows_after start' (tbl d))"
    by blast
  from page have "snd (scan_page ''PRODUCT#'' ''DETAILS#'' (nat limit) (rows_after start' (tbl d))) = Some lek"
    by (metis snd_conv)
  from scan_page_key [OF pos this] set_rows_after [of start' "tbl d"] have "lek \<in> fst ` set (tbl d)"
    by auto
  with nxt show ?thesis by blast
qed

lemma rows_after_index:
  "distinct (map fst t) \<Longrightarrow> i < length t \<Longrightarrow> rows_after (Some (fst (t ! i))) t = drop (Suc i) t"
proof (induction t arbitrary: i)
  case Nil
  then show ?case by simp
next
  case (Cons kv t)
  show ?case
  proof (cases i)
    case 0
    then show ?thesis by (simp add: rows_after_def)
  next
    case (Suc j)
    with Cons.prems have j: "j < length t" and d: "distinct (map fst t)" and
      ne: "fst kv \<noteq> fst (t ! j)"
      by (auto simp add: image_iff)
    from Cons.IH [OF d j] Suc ne show ?thesis
      by (simp add: rows_after_def)
  qed
qed

lemma catalog_first_page:
  "ProductModel_list 2 None catalog_db
     = Inr ([widget], Some (encode_cursor (owner_index_key ''u1'' ''p1'')))"
  by (simp add: ProductModel_list_def dynamoDb_scan_def scan_page_def catalog_db_def begins_with_def
        product_key_def owner_index_key_def)

lemma catalog_rows:
  "distinct (map fst (tbl catalog_db))" "length (tbl catalog_db) = 4"
  "fst (tbl catalog_db ! 1) = owner_index_key ''u1'' ''p1''"
  "fst (tbl catalog_db ! 3) = product_key ''p3''"
  "drop (Suc 3) (tbl catalog_db) = []"
  "drop (Suc 1) (tbl catalog_db) = [(product_key ''p2'', product_item ''p2'' ''t0'' widget_data ''u1''),
                                   (product_key ''p3'', product_item ''p3'' ''t0'' widget_data ''u1'')]"
  by (simp_all add: catalog_db_def product_key_def owner_index_key_def)

lemma example_cursor:
  "encode_cursor (product_key ''p3'') = ''eyJwayI6IlBST0RVQ1QjcDMiLCJzayI6IkRFVEFJTFMjcDMifQ==''"
  by code_simp

text \<open>
  C7. The cursor round-trips: decoding the cursor that \<open>list\<close> makes of a key gives that
  key as the start key of the scan. So \<open>list\<close> with such a cursor is the page of the rows
  after the item of that key, the same page each time it is asked of the same table; every
  cursor that \<open>list\<close> returns encodes the key of an item of the table and decodes to it;
  and in a table, whose keys are distinct, the rows after the key of row \<open>i\<close> are the rows
  from \<open>i + 1\<close> on.
\<close>

theorem cursor_round_trips:
  "Option.bind (parse_cursor (encode_cursor k)) start_key_of = Some k
 \<and> ProductModel_list limit (Some (encode_cursor k)) d =
     (if limit < 1 then Inl ValidationException
      else Inr (fst (scan_page ''PRODUCT#'' ''DETAILS#'' (nat limit) (rows_after (Some k) (tbl d))),
                map_option encode_cursor
                  (snd (scan_page ''PRODUCT#'' ''DETAILS#'' (nat limit) (rows_after (Some k) (tbl d))))))
 \<and> (ProductModel_list limit cursor d = Inr (Items, Some next_cursor) \<longrightarrow>
      (\<exists>k'. k' \<in> fst ` set (tbl d) \<and> next_cursor = encode_cursor k'
            \<and> Option.bind (parse_cursor next_cursor) start_key_of = Some k'))
 \<and> (distinct (map fst (tbl d)) \<and> i < length (tbl d) \<longrightarrow>
      rows_after (Some (fst (tbl d ! i))) (tbl d) = drop (Suc i) (tbl d))"
proof (intro conjI impI)
  show "Option.bind (parse_cursor (encode_cursor k)) start_key_of = Some k"
    by (simp add: cursor_decodes start_key_of_key_object)
  show "ProductModel_list limit (Some (encode_cursor k)) d =
     (if limit < 1 then Inl ValidationException
      else Inr (fst (scan_page ''PRODUCT#'' ''DETAILS#'' (nat limit) (rows_after (Some k) (tbl d))),
                map_option encode_cursor
                  (snd (scan_page ''PRODUCT#'' ''DETAILS#'' (nat limit) (rows_after (Some k) (tbl d))))))"
    by (rule list_with_cursor)
next
  assume "ProductModel_list limit cursor d = Inr (Items, Some next_cursor)"
  from list_next_cursor [OF this] obtain k' where "k' \<in> fst ` set (tbl d)" "next_cursor = encode_cursor k'"
    by blast
  then show "\<exists>k'. k' \<in> fst ` set (tbl d) \<and> next_cursor = encode_cursor k'
            \<and> Option.bind (parse_cursor next_cursor) start_key_of = Some k'"
    by (auto simp add: cursor_decodes start_key_of_key_object)
next
  assume "distinct (map fst (tbl d)) \<and> i < length (tbl d)"
  then show "rows_after (Some (fst (tbl d ! i))) (tbl d) = drop (Suc i) (tbl d)"
    by (simp add: rows_after_index)
qed

text \<open>Witness for C7: pages of two rows over the table of three products.\<close>

theorem cursor_round_trips_witness:
  "ProductModel_list 2 None catalog_db
     = Inr ([widget], Some (encode_cursor (owner_index_key ''u1'' ''p1'')))
 \<and> Option.bind (parse_cursor (encode_cursor (owner_index_key ''u1'' ''p1''))) start_key_of
     = Some (owner_index_key ''u1'' ''p1'')
 \<and> ProductModel_list 2 (Some (encode_cursor (owner_index_key ''u1'' ''p1''))) catalog_db
     = Inr ([product_item ''p2'' ''t0'' widget_data ''u1'', product_item ''p3'' ''t0'' widget_data ''u1''],
            Some (encode_cursor (product_key ''p3'')))
 \<and> ProductModel_list 2 (Some (encode_cursor (product_key ''p3''))) catalog_db = Inr ([], None)"
proof -
  note second = cursor_round_trips [where k = "owner_index_key ''u1'' ''p1''" and limit = 2
      and d = catalog_db and i = 1 and cursor = None and Items = "[widget]"
      and next_cursor = "encode_cursor (owner_index_key ''u1'' ''p1'')"]
  note third = cursor_round_trips [where k = "product_key ''p3''" and limit = 2
      and d = catalog_db and i = 3 and cursor = None and Items = "[widget]"
      and next_cursor = "encode_cursor (owner_index_key ''u1'' ''p1'')"]
  from second have rt: "Option.bind (parse_cursor (encode_cursor (owner_index_key ''u1'' ''p1''))) start_key_of
     = Some (owner_index_key ''u1'' ''p1'')"
    by blast
  from second have "rows_after (Some (fst (tbl catalog_db ! 1))) (tbl catalog_db)
      = drop (Suc 1) (tbl catalog_db)"
    by (simp add: catalog_rows(1,2))
  then have r2: "rows_after (Some (owner_index_key ''u1'' ''p1'')) (tbl catalog_db)
      = [(product_key ''p2'', product_item ''p2'' ''t0'' widget_data ''u1''),
         (product_key ''p3'', product_item ''p3'' ''t0'' widget_data ''u1'')]"
    by (simp only: catalog_rows)
  from third have "rows_after (Some (fst (tbl catalog_db ! 3))) (tbl catalog_db)
      = drop (Suc 3) (tbl catalog_db)"
    by (simp add: catalog_rows(1,2))
  then have r3: "rows_after (Some (product_key ''p3'')) (tbl catalog_db) = []"
    by (simp only: catalog_rows)
  from second have "ProductModel_list 2 (Some (encode_cursor (owner_index_key ''u1'' ''p1''))) catalog_db
     = Inr ([product_item ''p2'' ''t0'' widget_data ''u1'', product_item ''p3'' ''t0'' widget_data ''u1''],
            Some (encode_cursor (product_key ''p3'')))"
    by (simp add: r2 scan_page_def begins_with_def product_key_def)
  moreover from third have "ProductModel_list 2 (Some (encode_cursor (product_key ''p3''))) catalog_db
      = Inr ([], None)"
    by (simp add: r3 scan_page_def)
  ultimately show ?thesis
    using catalog_first_page rt by blast
qed

end
